theory Spec2Isabelle
  imports Main "HOL-Library.Signed_Division" "HOL-Library.Word" "HOL-Library.AList"
begin

section \<open>Names, time points and packets\<close>

text \<open>
  A name is its sequence of components. The fixed components are the constants of
  \<^verbatim>\<open>common.hpp\<close>.
\<close>

type_synonym Component = string
type_synonym Name = "Component list"
type_synonym Buffer = "8 word list"

definition NAME_COMPONENT_FOR :: Component where "NAME_COMPONENT_FOR = ''FOR''"
definition NAME_COMPONENT_READ :: Component where "NAME_COMPONENT_READ = ''READ''"
definition NAME_COMPONENT_SAMPLE :: Component where "NAME_COMPONENT_SAMPLE = ''SAMPLE''"
definition NAME_COMPONENT_ACCESS :: Component where "NAME_COMPONENT_ACCESS = ''ACCESS''"
definition NAME_COMPONENT_E_KEY :: Component where "NAME_COMPONENT_E_KEY = ''E-KEY''"
definition NAME_COMPONENT_D_KEY :: Component where "NAME_COMPONENT_D_KEY = ''D-KEY''"
definition NAME_COMPONENT_C_KEY :: Component where "NAME_COMPONENT_C_KEY = ''C-KEY''"

text \<open>
  Modelled from the spec: the declaration of \<^verbatim>\<open>system_clock::TimePoint\<close> is not among the
  sources; a timeslot is a UTC time point with millisecond resolution, kept here as its
  (signed) count of milliseconds since the Unix epoch, so that \<^verbatim>\<open>toUnixTimestamp\<close> and
  \<^verbatim>\<open>fromUnixTimestamp\<close> are the identity.
\<close>

type_synonym TimePoint = int

text \<open>
  Name methods of the networking library. \<^verbatim>\<open>Name::get(i)\<close> with a negative index counts
  from the end; an index outside the name is \<open>None\<close>. \<^verbatim>\<open>getPrefix(-n)\<close> drops the last
  \<open>n\<close> components and \<^verbatim>\<open>getSubName(-n)\<close> keeps the last \<open>n\<close>.
\<close>

definition Name_get :: "Name \<Rightarrow> int \<Rightarrow> Component option" where
  "Name_get n i =
     (let j = (if i < 0 then int (length n) + i else i)
      in if 0 \<le> j \<and> j < int (length n) then Some (n ! nat j) else None)"

definition getPrefix :: "Name \<Rightarrow> int \<Rightarrow> Name" where
  "getPrefix n i = (if i < 0 then take (nat (int (length n) + i)) n else take (nat i) n)"

definition getSubName :: "Name \<Rightarrow> int \<Rightarrow> Name" where
  "getSubName n i = (if i < 0 then drop (nat (int (length n) + i)) n else drop (nat i) n)"

datatype AlgorithmTypeValue =
  AlgorithmAesEcb | AlgorithmAesCbc | AlgorithmRsaPkcs | AlgorithmRsaOaep

record EncryptedContent =
  algorithmType :: AlgorithmTypeValue
  keyLocator :: Name
  initialVector :: Buffer
  payload :: Buffer

text \<open>
  A data packet: its name, its content and whether it has been signed. The content type
  is a parameter: raw bytes for an E-KEY packet, an encrypted-content record for the
  packets the producer builds, the parsed TLV elements for the packets the consumer reads.
\<close>

record 'c Data =
  dataName :: Name
  dataContent :: 'c
  dataSigned :: bool

text \<open>
  A link is its list of delegations (preference and name). An exclude filter is kept as
  the sequence of \<^verbatim>\<open>excludeAfter\<close> / \<^verbatim>\<open>excludeBefore\<close> calls made on it.
\<close>

type_synonym Link = "(nat \<times> Name) list"

datatype ExcludeEntry = ExcludeAfter Component | ExcludeBefore Component

type_synonym Exclude = "ExcludeEntry list"

record Interest =
  interestName :: Name
  exclude :: Exclude
  childSelector :: "int option"
  link :: "Link option"
  selectedDelegation :: "nat option"

definition Interest_of :: "Name \<Rightarrow> Interest" where
  "Interest_of n =
     \<lparr>interestName = n, exclude = [], childSelector = None, link = None,
      selectedDelegation = None\<rparr>"

definition hasSelectedDelegation :: "Interest \<Rightarrow> bool" where
  "hasSelectedDelegation i = (selectedDelegation i \<noteq> None)"

definition setLink :: "Link \<Rightarrow> Interest \<Rightarrow> Interest" where
  "setLink l i = i\<lparr>link := Some l, selectedDelegation := None\<rparr>"

definition setSelectedDelegation :: "nat \<Rightarrow> Interest \<Rightarrow> Interest" where
  "setSelectedDelegation k i = i\<lparr>selectedDelegation := Some k\<rparr>"

datatype ErrorCode =
  Timeout | Validation | UnsupportedEncryptionScheme | InvalidEncryptedFormat
  | NoDecryptKey | EncryptionFailure | DataRetrievalFailure | General

section \<open>Library functions\<close>

text \<open>
  The functions of the libraries the program is linked with are parameters of the model:
  the ISO-8601 conversions of time points, the URI form of a component and of a name, and
  the Crypto++ calls of \<^verbatim>\<open>Rsa::encrypt\<close> and \<^verbatim>\<open>Rsa::decrypt\<close>, and the AES code.
  A conversion that can fail returns \<open>None\<close>.

  A cipher call throws one of two kinds of exception: an \<^verbatim>\<open>algo::Error\<close> of this
  library, or an exception of Crypto++. The sources convert no exception of Crypto++
  into an \<^verbatim>\<open>algo::Error\<close>, and \<^verbatim>\<open>catch (algo::Error&)\<close> does not catch one.
\<close>

datatype Thrown = AlgoError string | CryptoppException string

text \<open>
  \<open>publicKeyLoad\<close> and \<open>privateKeyLoad\<close> are \<^verbatim>\<open>Load\<close> on the key bytes alone: \<open>Some\<close> is
  the message of the exception it throws. Each of the four RSA parameters is a whole
  branch of the \<^verbatim>\<open>switch\<close> together with the \<^verbatim>\<open>Load\<close> before it (loading the key bytes,
  building the encryptor or decryptor, running the filter over the payload): \<open>Inl\<close> is
  the message of the exception of Crypto++ that comes out of any of these. The AES
  code is not among the sources; its parameters say which kind of exception they throw.
\<close>

record Lib =
  toIsoString :: "TimePoint \<Rightarrow> string"
  fromIsoString :: "string \<Rightarrow> TimePoint option"
  toUri :: "Component \<Rightarrow> string"
  nameToUri :: "Name \<Rightarrow> string"
  algToString :: "AlgorithmTypeValue \<Rightarrow> string"
  publicKeyLoad :: "Buffer \<Rightarrow> string option"
  privateKeyLoad :: "Buffer \<Rightarrow> string option"
  pkcs1v15Encryptor :: "Buffer \<Rightarrow> Buffer \<Rightarrow> string + Buffer"
  oaepShaEncryptor :: "Buffer \<Rightarrow> Buffer \<Rightarrow> string + Buffer"
  pkcs1v15Decryptor :: "Buffer \<Rightarrow> Buffer \<Rightarrow> string + Buffer"
  oaepShaDecryptor :: "Buffer \<Rightarrow> Buffer \<Rightarrow> string + Buffer"
  aesCbcEncrypt :: "Buffer \<Rightarrow> Buffer \<Rightarrow> Buffer \<Rightarrow> Thrown + Buffer"
  aesCbcDecrypt :: "Buffer \<Rightarrow> Buffer \<Rightarrow> Buffer \<Rightarrow> Thrown + Buffer"

text \<open>What a call of Crypto++ throws goes on as it is.\<close>

definition cryptopp :: "string + Buffer \<Rightarrow> Thrown + Buffer" where
  "cryptopp r = (case r of Inl what \<Rightarrow> Inl (CryptoppException what) | Inr c \<Rightarrow> Inr c)"

text \<open>
  \<^verbatim>\<open>Rsa::encrypt\<close> and \<^verbatim>\<open>Rsa::decrypt\<close>: the key is loaded, then the padding scheme selects
  the pipeline. The only \<^verbatim>\<open>algo::Error\<close> is the one of the \<^verbatim>\<open>default\<close> branch, thrown after
  the key has loaded.
\<close>

definition Rsa_encrypt ::
  "Lib \<Rightarrow> Buffer \<Rightarrow> Buffer \<Rightarrow> AlgorithmTypeValue \<Rightarrow> Thrown + Buffer" where
  "Rsa_encrypt lib key pl alg =
     (case alg of
        AlgorithmRsaPkcs \<Rightarrow> cryptopp (pkcs1v15Encryptor lib key pl)
      | AlgorithmRsaOaep \<Rightarrow> cryptopp (oaepShaEncryptor lib key pl)
      | _ \<Rightarrow> (case publicKeyLoad lib key of
                Some what \<Rightarrow> Inl (CryptoppException what)
              | None \<Rightarrow> Inl (AlgoError ''unsupported padding scheme'')))"

definition Rsa_decrypt ::
  "Lib \<Rightarrow> Buffer \<Rightarrow> Buffer \<Rightarrow> AlgorithmTypeValue \<Rightarrow> Thrown + Buffer" where
  "Rsa_decrypt lib key pl alg =
     (case alg of
        AlgorithmRsaPkcs \<Rightarrow> cryptopp (pkcs1v15Decryptor lib key pl)
      | AlgorithmRsaOaep \<Rightarrow> cryptopp (oaepShaDecryptor lib key pl)
      | _ \<Rightarrow> (case privateKeyLoad lib key of
                Some what \<Rightarrow> Inl (CryptoppException what)
              | None \<Rightarrow> Inl (AlgoError ''unsupported padding scheme'')))"

text \<open>
  Modelled from the spec: \<^verbatim>\<open>algo::encryptData\<close> (the encryptor helper is not among the
  sources). It encrypts the plaintext under the key bits with the scheme of the
  parameters and places an encrypted-content record, with the supplied key name as its
  locator, as the content of the packet, whose name the caller has set. It does not sign.
  For AES-CBC the initial vector is the one carried by the parameters. The spec names
  no conversion of exceptions: what the cipher throws leaves \<^verbatim>\<open>encryptData\<close> as it is.
\<close>

definition encryptData ::
  "Lib \<Rightarrow> 'c Data \<Rightarrow> Buffer \<Rightarrow> Name \<Rightarrow> Buffer \<Rightarrow> AlgorithmTypeValue \<Rightarrow> Buffer
     \<Rightarrow> Thrown + EncryptedContent Data" where
  "encryptData lib d pl keyName key alg iv =
     (case (case alg of
              AlgorithmAesCbc \<Rightarrow> aesCbcEncrypt lib key iv pl
            | AlgorithmAesEcb \<Rightarrow> Inl (AlgoError ''unsupported encryption scheme'')
            | _ \<Rightarrow> Rsa_encrypt lib key pl alg) of
        Inl e \<Rightarrow> Inl e
      | Inr c \<Rightarrow>
          Inr \<lparr>dataName = dataName d,
               dataContent =
                 \<lparr>algorithmType = alg, keyLocator = keyName,
                  initialVector = (if alg = AlgorithmAesCbc then iv else []), payload = c\<rparr>,
               dataSigned = dataSigned d\<rparr>)"

section \<open>The producer\<close>

subsection \<open>State\<close>

text \<open>
  Modelled from the spec: \<^verbatim>\<open>KeyInfo\<close> and \<^verbatim>\<open>KeyRequest\<close> are declared in the producer's
  header, which is not among the sources. Their fields are those the spec lists;
  \<open>interestCount\<close> is an integer that the code decrements and compares with zero.
\<close>

record KeyInfo =
  beginTimeslot :: TimePoint
  endTimeslot :: TimePoint
  keyBits :: Buffer

record KeyRequest =
  interestCount :: int
  repeatAttempts :: "Name \<rightharpoonup> nat"
  encryptedKeys :: "EncryptedContent Data list"

definition KeyInfo_default :: KeyInfo where
  "KeyInfo_default = \<lparr>beginTimeslot = 0, endTimeslot = 0, keyBits = []\<rparr>"

definition KeyRequest_of :: "nat \<Rightarrow> KeyRequest" where
  "KeyRequest_of interests =
     \<lparr>interestCount = int interests, repeatAttempts = Map.empty, encryptedKeys = []\<rparr>"

text \<open>
  Modelled from the spec: the content-key database (its adapter is not among the
  sources). Content-key rows are keyed by the rounded timeslot, the timeslot floored to
  3,600,000 ms; \<^verbatim>\<open>getContentKey\<close> returns the bytes of the row.
\<close>

type_synonym ProducerDB = "int \<rightharpoonup> Buffer"

definition dbRow :: "TimePoint \<Rightarrow> int" where
  "dbRow timeslot = timeslot div 3600000"

definition hasContentKey :: "ProducerDB \<Rightarrow> TimePoint \<Rightarrow> bool" where
  "hasContentKey db timeslot = (db (dbRow timeslot) \<noteq> None)"

definition addContentKey :: "ProducerDB \<Rightarrow> TimePoint \<Rightarrow> Buffer \<Rightarrow> ProducerDB" where
  "addContentKey db timeslot key = db(dbRow timeslot \<mapsto> key)"

definition getContentKey :: "ProducerDB \<Rightarrow> TimePoint \<Rightarrow> Buffer" where
  "getContentKey db timeslot = (case db (dbRow timeslot) of None \<Rightarrow> [] | Some k \<Rightarrow> k)"

text \<open>
  The members of \<^verbatim>\<open>Producer\<close>. \<open>m_ekeyInfo\<close> is kept as the list of its entries in the
  order the loops visit them; \<open>m_keyRequests\<close> is keyed by the millisecond count of the
  timeslot (the conversion of the count to \<^verbatim>\<open>uint64_t\<close> is one-to-one, and the model keeps
  the count itself as the key).
\<close>

record Producer =
  m_db :: ProducerDB
  m_maxRepeatAttempts :: nat
  m_keyRetrievalLink :: Link
  m_linkSize :: nat
  m_useLink :: bool
  m_namespace :: Name
  m_ekeyInfo :: "(Name \<times> KeyInfo) list"
  m_keyRequests :: "int \<rightharpoonup> KeyRequest"

text \<open>
  A callback is known by an identifier; \<open>None\<close> is the null \<^verbatim>\<open>std::function\<close>. The error
  callback is called unguarded everywhere and is taken to be callable.
\<close>

type_synonym ProducerEKeyCallback = "nat option"
type_synonym ErrorCallBack = nat

text \<open>
  What a member function does to the outside: it hands an interest to the face together
  with the arguments bound into its three handlers, it calls the key callback with a list
  of packets (tagged here with the count that keys the completed request), or it calls
  the error callback.
\<close>

record PendingInterest =
  pInterest :: Interest
  pDelegationIndex :: nat
  pTimeslot :: TimePoint
  pCallback :: ProducerEKeyCallback
  pErrorCallback :: ErrorCallBack

datatype Effect =
  ExpressInterest PendingInterest
  | OnKeys int nat "EncryptedContent Data list"
  | OnError ErrorCallBack ErrorCode string

text \<open>
  The exceptions that leave a member function: \<^verbatim>\<open>std::out_of_range\<close> of
  \<^verbatim>\<open>m_keyRequests.at\<close>, the use of a request reference after its entry was erased, a
  component index outside a name, a component that is no ISO string, and what a cipher
  call has thrown and no handler on the way has caught.
\<close>

datatype Exn =
  OutOfRange | DanglingKeyRequest | NameIndex | IsoStringFormat | Uncaught Thrown

subsection \<open>Operations\<close>

definition START_TS_INDEX :: int where "START_TS_INDEX = - 2"
definition END_TS_INDEX :: int where "END_TS_INDEX = - 1"

text \<open>C++ integer division truncates towards zero.\<close>

definition getRoundedTimeslot :: "TimePoint \<Rightarrow> TimePoint" where
  "getRoundedTimeslot timeslot = (timeslot sdiv 3600000) * 3600000"

text \<open>The constructor: one E-KEY node for each non-empty prefix of the data type.\<close>

function ekeyNodes :: "Name \<Rightarrow> Name \<Rightarrow> (Name \<times> KeyInfo) list" where
  "ekeyNodes fixedPrefix fixedDataType =
     (if fixedDataType = [] then []
      else (fixedPrefix @ fixedDataType @ [NAME_COMPONENT_E_KEY], KeyInfo_default)
             # ekeyNodes fixedPrefix (getPrefix fixedDataType (- 1)))"
  by pat_completeness auto
termination
  by (relation "measure (\<lambda>(p, d). length d)") (auto simp: getPrefix_def nat_less_iff)

declare ekeyNodes.simps [simp del]

definition Producer_of :: "Name \<Rightarrow> Name \<Rightarrow> ProducerDB \<Rightarrow> nat \<Rightarrow> Link \<Rightarrow> Producer" where
  "Producer_of prefix dataType db maxAttempts keyRetrievalLink =
     \<lparr>m_db = db,
      m_maxRepeatAttempts = maxAttempts,
      m_keyRetrievalLink = keyRetrievalLink,
      m_linkSize = length keyRetrievalLink,
      m_useLink = (length keyRetrievalLink > 0),
      m_namespace = prefix @ [NAME_COMPONENT_SAMPLE] @ dataType,
      m_ekeyInfo = ekeyNodes (prefix @ [NAME_COMPONENT_READ]) dataType,
      m_keyRequests = Map.empty\<rparr>"

definition sendKeyInterest ::
  "Interest \<Rightarrow> nat \<Rightarrow> TimePoint \<Rightarrow> ProducerEKeyCallback \<Rightarrow> ErrorCallBack \<Rightarrow> Effect list" where
  "sendKeyInterest interest delegationIndex timeslot callback errorCallback =
     [ExpressInterest
        \<lparr>pInterest = interest, pDelegationIndex = delegationIndex, pTimeslot = timeslot,
         pCallback = callback, pErrorCallback = errorCallback\<rparr>]"

text \<open>
  \<^verbatim>\<open>updateKeyRequest\<close> works on a reference to the entry of \<open>timeCount\<close>: the argument
  \<open>keyRequest\<close> is the value the reference holds, and the result is written back there.
\<close>

definition updateKeyRequest ::
  "Producer \<Rightarrow> KeyRequest \<Rightarrow> int \<Rightarrow> ProducerEKeyCallback \<Rightarrow> Producer \<times> Effect list" where
  "updateKeyRequest p keyRequest timeCount callback =
     (let kr = keyRequest\<lparr>interestCount := interestCount keyRequest - 1\<rparr>
      in if interestCount kr = 0 \<and> callback \<noteq> None
         then (p\<lparr>m_keyRequests := (m_keyRequests p)(timeCount := None)\<rparr>,
               [OnKeys timeCount (the callback) (encryptedKeys kr)])
         else (p\<lparr>m_keyRequests := (m_keyRequests p)(timeCount \<mapsto> kr)\<rparr>, []))"

definition contentKeyName :: "Lib \<Rightarrow> Producer \<Rightarrow> TimePoint \<Rightarrow> Name" where
  "contentKeyName lib p timeslot =
     m_namespace p @ [NAME_COMPONENT_C_KEY] @ [toIsoString lib (getRoundedTimeslot timeslot)]"

text \<open>
  \<^verbatim>\<open>encryptContentKey\<close>. The handler around \<^verbatim>\<open>algo::encryptData\<close> is
  \<^verbatim>\<open>catch (algo::Error& e)\<close>: an exception of Crypto++ passes it and leaves the function.
\<close>

definition encryptContentKey ::
  "Lib \<Rightarrow> Producer \<Rightarrow> Buffer \<Rightarrow> Name \<Rightarrow> TimePoint \<Rightarrow> ProducerEKeyCallback \<Rightarrow> ErrorCallBack
     \<Rightarrow> Exn + (bool \<times> Producer \<times> Effect list)" where
  "encryptContentKey lib p encryptionKey eKeyName timeslot callback errorCallBack =
     (let timeCount = timeslot in
      case m_keyRequests p timeCount of
        None \<Rightarrow> Inl OutOfRange
      | Some keyRequest \<Rightarrow>
          (let keyName = contentKeyName lib p timeslot;
               contentKey = getContentKey (m_db p) timeslot;
               cKeyData = \<lparr>dataName = keyName, dataContent = (), dataSigned = False\<rparr>
           in case encryptData lib cKeyData contentKey eKeyName encryptionKey
                     AlgorithmRsaOaep [] of
                Inl (AlgoError what) \<Rightarrow>
                  Inr (False, p, [OnError errorCallBack EncryptionFailure what])
              | Inl (CryptoppException what) \<Rightarrow> Inl (Uncaught (CryptoppException what))
              | Inr encrypted \<Rightarrow>
                  (let signed = encrypted\<lparr>dataSigned := True\<rparr>;
                       kr = keyRequest\<lparr>encryptedKeys := encryptedKeys keyRequest @ [signed]\<rparr>;
                       (p', effs) = updateKeyRequest p kr timeCount callback
                   in Inr (True, p', effs))))"

text \<open>
  The packet that \<^verbatim>\<open>encryptContentKey\<close> appends when the cipher yields \<open>c\<close>: named as the
  content key, with the E-KEY name as locator, signed.
\<close>

definition wrappedKey :: "Lib \<Rightarrow> Producer \<Rightarrow> TimePoint \<Rightarrow> Name \<Rightarrow> Buffer \<Rightarrow> EncryptedContent Data" where
  "wrappedKey lib p timeslot eKeyName c =
     \<lparr>dataName = contentKeyName lib p timeslot,
      dataContent = \<lparr>algorithmType = AlgorithmRsaOaep, keyLocator = eKeyName,
                     initialVector = [], payload = c\<rparr>,
      dataSigned = True\<rparr>"

text \<open>
  One round of the loop of \<^verbatim>\<open>createContentKey\<close> over \<open>m_ekeyInfo\<close>. The loop holds a
  reference to the request of \<open>timeCount\<close> taken before it starts.
\<close>

definition eKeyInterest :: "Lib \<Rightarrow> Name \<Rightarrow> TimePoint \<Rightarrow> Interest" where
  "eKeyInterest lib eKeyPrefix timeslot =
     (Interest_of eKeyPrefix)
       \<lparr>exclude := [ExcludeAfter (toIsoString lib timeslot)], childSelector := Some 1\<rparr>"

definition createContentKeyRound ::
  "Lib \<Rightarrow> Producer \<Rightarrow> Name \<times> KeyInfo \<Rightarrow> TimePoint \<Rightarrow> ProducerEKeyCallback \<Rightarrow> ErrorCallBack
     \<Rightarrow> Exn + (Producer \<times> Effect list)" where
  "createContentKeyRound lib p it timeslot callback errorCallback =
     (let timeCount = timeslot in
      if timeslot < beginTimeslot (snd it) \<or> timeslot \<ge> endTimeslot (snd it) then
        (case m_keyRequests p timeCount of
           None \<Rightarrow> Inl DanglingKeyRequest
         | Some keyRequest \<Rightarrow>
             Inr (p\<lparr>m_keyRequests := (m_keyRequests p)(timeCount \<mapsto>
                      keyRequest\<lparr>repeatAttempts := (repeatAttempts keyRequest)(fst it \<mapsto> 0)\<rparr>)\<rparr>,
                  sendKeyInterest (eKeyInterest lib (fst it) timeslot) 0 timeslot
                    callback errorCallback))
      else
        (let eKeyName = fst it @ [toIsoString lib (beginTimeslot (snd it))]
                               @ [toIsoString lib (endTimeslot (snd it))]
         in case encryptContentKey lib p (keyBits (snd it)) eKeyName timeslot
                   callback errorCallback of
              Inl e \<Rightarrow> Inl e
            | Inr (ok, p', effs) \<Rightarrow> Inr (p', effs)))"

fun createContentKeyLoop ::
  "Lib \<Rightarrow> Producer \<Rightarrow> (Name \<times> KeyInfo) list \<Rightarrow> TimePoint \<Rightarrow> ProducerEKeyCallback
     \<Rightarrow> ErrorCallBack \<Rightarrow> Exn + (Producer \<times> Effect list)" where
  "createContentKeyLoop lib p [] timeslot callback errorCallback = Inr (p, [])"
| "createContentKeyLoop lib p (it # rest) timeslot callback errorCallback =
     (case createContentKeyRound lib p it timeslot callback errorCallback of
        Inl e \<Rightarrow> Inl e
      | Inr (p1, effs1) \<Rightarrow>
          (case createContentKeyLoop lib p1 rest timeslot callback errorCallback of
             Inl e \<Rightarrow> Inl e
           | Inr (p2, effs2) \<Rightarrow> Inr (p2, effs1 @ effs2)))"

text \<open>
  \<^verbatim>\<open>createContentKey\<close>; \<open>freshKey\<close> is what the random generator yields for the new AES
  key. \<^verbatim>\<open>insert\<close> leaves an existing entry of \<open>m_keyRequests\<close> as it is.
\<close>

definition createContentKey ::
  "Lib \<Rightarrow> Producer \<Rightarrow> Buffer \<Rightarrow> TimePoint \<Rightarrow> ProducerEKeyCallback \<Rightarrow> ErrorCallBack
     \<Rightarrow> Exn + (Name \<times> Producer \<times> Effect list)" where
  "createContentKey lib p freshKey timeslot callback errorCallback =
     (let hourSlot = getRoundedTimeslot timeslot;
          cKeyName = m_namespace p @ [NAME_COMPONENT_C_KEY] @ [toIsoString lib hourSlot]
      in if hasContentKey (m_db p) timeslot then Inr (cKeyName, p, [])
         else
           (let p1 = p\<lparr>m_db := addContentKey (m_db p) timeslot freshKey\<rparr>;
                timeCount = timeslot;
                p2 = (case m_keyRequests p1 timeCount of
                        None \<Rightarrow> p1\<lparr>m_keyRequests := (m_keyRequests p1)(timeCount \<mapsto>
                                     KeyRequest_of (length (m_ekeyInfo p1)))\<rparr>
                      | Some _ \<Rightarrow> p1)
            in case createContentKeyLoop lib p2 (m_ekeyInfo p2) timeslot callback
                      errorCallback of
                 Inl e \<Rightarrow> Inl e
               | Inr (p3, effs) \<Rightarrow> Inr (cKeyName, p3, effs)))"

text \<open>
  \<^verbatim>\<open>produce\<close> passes the null callback. \<open>iv\<close> is the random initial vector of the AES-CBC
  parameters. Nothing the content encryption throws is caught here.
\<close>

definition produce ::
  "Lib \<Rightarrow> Producer \<Rightarrow> Buffer \<Rightarrow> Buffer \<Rightarrow> unit Data \<Rightarrow> TimePoint \<Rightarrow> Buffer \<Rightarrow> ErrorCallBack
     \<Rightarrow> Exn + (EncryptedContent Data \<times> Producer \<times> Effect list)" where
  "produce lib p freshKey iv d timeslot plain errorCallBack =
     (case createContentKey lib p freshKey timeslot None errorCallBack of
        Inl e \<Rightarrow> Inl e
      | Inr (cKeyName, p', effs) \<Rightarrow>
          (let contentKey = getContentKey (m_db p') timeslot;
               dName = m_namespace p' @ [toIsoString lib timeslot]
           in case encryptData lib (d\<lparr>dataName := dName\<rparr>) plain cKeyName contentKey
                     AlgorithmAesCbc iv of
                Inl thrown \<Rightarrow> Inl (Uncaught thrown)
              | Inr encrypted \<Rightarrow> Inr (encrypted\<lparr>dataSigned := True\<rparr>, p', effs)))"

text \<open>
  The interest that \<^verbatim>\<open>handleCoveringKey\<close> sends after an E-KEY that ends too early: built
  anew from the name, with the exclude of the answered interest extended.
\<close>

definition laterKeyInterest :: "Interest \<Rightarrow> Component \<Rightarrow> Interest" where
  "laterKeyInterest interest startComponent =
     (Interest_of (interestName interest))
       \<lparr>exclude := exclude interest @ [ExcludeBefore startComponent],
        childSelector := Some 1\<rparr>"

definition handleCoveringKey ::
  "Lib \<Rightarrow> Producer \<Rightarrow> Interest \<Rightarrow> Buffer Data \<Rightarrow> nat \<Rightarrow> TimePoint \<Rightarrow> ProducerEKeyCallback
     \<Rightarrow> ErrorCallBack \<Rightarrow> Exn + (Producer \<times> Effect list)" where
  "handleCoveringKey lib p interest d delegationIndex timeslot callback errorCallback =
     (let timeCount = timeslot in
      case m_keyRequests p timeCount of
        None \<Rightarrow> Inl OutOfRange
      | Some keyRequest \<Rightarrow>
          (let iName = interestName interest; keyName = dataName d in
           case Name_get keyName START_TS_INDEX of
             None \<Rightarrow> Inl NameIndex
           | Some startComponent \<Rightarrow>
          (case fromIsoString lib (toUri lib startComponent) of
             None \<Rightarrow> Inl IsoStringFormat
           | Some beginTs \<Rightarrow>
          (case Name_get keyName END_TS_INDEX of
             None \<Rightarrow> Inl NameIndex
           | Some endComponent \<Rightarrow>
          (case fromIsoString lib (toUri lib endComponent) of
             None \<Rightarrow> Inl IsoStringFormat
           | Some endTs \<Rightarrow>
               if timeslot \<ge> endTs then
                 Inr (p\<lparr>m_keyRequests := (m_keyRequests p)(timeCount \<mapsto>
                          keyRequest\<lparr>repeatAttempts := (repeatAttempts keyRequest)(iName \<mapsto> 0)\<rparr>)\<rparr>,
                      sendKeyInterest (laterKeyInterest interest startComponent)
                        delegationIndex timeslot callback errorCallback)
               else
                 (let encryptionKey = dataContent d in
                  case encryptContentKey lib p encryptionKey keyName timeslot callback
                         errorCallback of
                    Inl e \<Rightarrow> Inl e
                  | Inr (ok, p', effs) \<Rightarrow>
                      if ok then
                        Inr (p'\<lparr>m_ekeyInfo := AList.update iName
                                  \<lparr>beginTimeslot = beginTs, endTimeslot = endTs,
                                   keyBits = encryptionKey\<rparr> (m_ekeyInfo p')\<rparr>, effs)
                      else Inr (p', effs)))))))"

text \<open>
  \<^verbatim>\<open>handleNack\<close>; \<open>outOfOptions\<close> is the tail of the function that every path without
  an early return reaches.
\<close>

definition outOfOptions ::
  "Producer \<Rightarrow> TimePoint \<Rightarrow> ProducerEKeyCallback \<Rightarrow> Exn + (Producer \<times> Effect list)" where
  "outOfOptions p timeslot callback =
     (let timeCount = timeslot in
      case m_keyRequests p timeCount of
        None \<Rightarrow> Inl OutOfRange
      | Some keyRequest \<Rightarrow> Inr (updateKeyRequest p keyRequest timeCount callback))"

definition handleNack ::
  "Producer \<Rightarrow> Interest \<Rightarrow> nat \<Rightarrow> TimePoint \<Rightarrow> ProducerEKeyCallback \<Rightarrow> ErrorCallBack
     \<Rightarrow> Exn + (Producer \<times> Effect list)" where
  "handleNack p interest delegationIndex timeslot callback errorCallback =
     (if m_useLink p then
        (if \<not> hasSelectedDelegation interest then
           Inr (p, sendKeyInterest
                     (setSelectedDelegation 0 (setLink (m_keyRetrievalLink p) interest))
                     0 timeslot callback errorCallback)
         else
           (let nextIndex = delegationIndex + 1 in
            if nextIndex < m_linkSize p then
              Inr (p, sendKeyInterest (setSelectedDelegation nextIndex interest)
                        nextIndex timeslot callback errorCallback)
            else outOfOptions p timeslot callback))
      else outOfOptions p timeslot callback)"

text \<open>
  \<^verbatim>\<open>repeatAttempts[interestName]\<close> reads zero for a name that has no entry yet, and
  leaves an entry behind.
\<close>

definition handleTimeout ::
  "Producer \<Rightarrow> Interest \<Rightarrow> nat \<Rightarrow> TimePoint \<Rightarrow> ProducerEKeyCallback \<Rightarrow> ErrorCallBack
     \<Rightarrow> Exn + (Producer \<times> Effect list)" where
  "handleTimeout p interest delegationIndex timeslot callback errorCallback =
     (let timeCount = timeslot in
      case m_keyRequests p timeCount of
        None \<Rightarrow> Inl OutOfRange
      | Some keyRequest \<Rightarrow>
          (let iName = interestName interest;
               attempts = (case repeatAttempts keyRequest iName of None \<Rightarrow> 0 | Some n \<Rightarrow> n)
           in if attempts < m_maxRepeatAttempts p then
                Inr (p\<lparr>m_keyRequests := (m_keyRequests p)(timeCount \<mapsto>
                         keyRequest\<lparr>repeatAttempts :=
                           (repeatAttempts keyRequest)(iName \<mapsto> attempts + 1)\<rparr>)\<rparr>,
                     sendKeyInterest interest delegationIndex timeslot callback errorCallback)
              else
                handleNack
                  (p\<lparr>m_keyRequests := (m_keyRequests p)(timeCount \<mapsto>
                       keyRequest\<lparr>repeatAttempts :=
                         (repeatAttempts keyRequest)(iName \<mapsto> attempts)\<rparr>)\<rparr>)
                  interest delegationIndex timeslot callback errorCallback))"

subsection \<open>The producer on its face\<close>

text \<open>
  The producer runs on the single thread of its face. The face holds the interests that
  were expressed and not yet answered, and answers each of them at most once, with a data
  packet, a NACK or a timeout, by calling the handler bound to it. The application calls
  \<^verbatim>\<open>createContentKey\<close> (directly, or through \<^verbatim>\<open>produce\<close> with the null callback). An
  answer for an interest the face does not hold is no event. The user's callbacks are
  opaque: they are recorded, not run.
\<close>

record System =
  producer :: Producer
  pending :: "PendingInterest list"

datatype Event =
  CallCreateContentKey Buffer TimePoint ProducerEKeyCallback ErrorCallBack
  | FaceData nat "Buffer Data"
  | FaceNack nat
  | FaceTimeout nat

fun expressed :: "Effect list \<Rightarrow> PendingInterest list" where
  "expressed [] = []"
| "expressed (ExpressInterest q # effs) = q # expressed effs"
| "expressed (_ # effs) = expressed effs"

definition answered :: "System \<Rightarrow> nat \<Rightarrow> Exn + (Producer \<times> Effect list) \<Rightarrow> Exn + (System \<times> Effect list)" where
  "answered s i r =
     (case r of
        Inl e \<Rightarrow> Inl e
      | Inr (p', effs) \<Rightarrow>
          Inr (\<lparr>producer = p',
                pending = take i (pending s) @ drop (Suc i) (pending s) @ expressed effs\<rparr>,
               effs))"

fun step :: "Lib \<Rightarrow> System \<Rightarrow> Event \<Rightarrow> Exn + (System \<times> Effect list)" where
  "step lib s (CallCreateContentKey freshKey timeslot callback errorCallback) =
     (case createContentKey lib (producer s) freshKey timeslot callback errorCallback of
        Inl e \<Rightarrow> Inl e
      | Inr (cKeyName, p', effs) \<Rightarrow>
          Inr (\<lparr>producer = p', pending = pending s @ expressed effs\<rparr>, effs))"
| "step lib s (FaceData i d) =
     (if i < length (pending s) then
        (let q = pending s ! i in
         answered s i
           (handleCoveringKey lib (producer s) (pInterest q) d (pDelegationIndex q)
              (pTimeslot q) (pCallback q) (pErrorCallback q)))
      else Inr (s, []))"
| "step lib s (FaceNack i) =
     (if i < length (pending s) then
        (let q = pending s ! i in
         answered s i
           (handleNack (producer s) (pInterest q) (pDelegationIndex q)
              (pTimeslot q) (pCallback q) (pErrorCallback q)))
      else Inr (s, []))"
| "step lib s (FaceTimeout i) =
     (if i < length (pending s) then
        (let q = pending s ! i in
         answered s i
           (handleTimeout (producer s) (pInterest q) (pDelegationIndex q)
              (pTimeslot q) (pCallback q) (pErrorCallback q)))
      else Inr (s, []))"

text \<open>
  A run stops at the first exception that leaves a handler: nothing in the producer
  catches it, and it leaves the event loop of the face.
\<close>

fun run :: "Lib \<Rightarrow> System \<Rightarrow> Event list \<Rightarrow> Exn + (System \<times> Effect list)" where
  "run lib s [] = Inr (s, [])"
| "run lib s (ev # evs) =
     (case step lib s ev of
        Inl e \<Rightarrow> Inl e
      | Inr (s1, effs1) \<Rightarrow>
          (case run lib s1 evs of
             Inl e \<Rightarrow> Inl e
           | Inr (s2, effs2) \<Rightarrow> Inr (s2, effs1 @ effs2)))"

definition System_of :: "Producer \<Rightarrow> System" where
  "System_of p = \<lparr>producer = p, pending = []\<rparr>"

subsection \<open>Counting requests, interests and completions\<close>

text \<open>
  The number of interests the face holds for a timeslot, and the requests completed by a
  list of effects (the counts their key callbacks were called for).
\<close>

definition pendingFor :: "System \<Rightarrow> TimePoint \<Rightarrow> nat" where
  "pendingFor s t = length (filter (\<lambda>q. pTimeslot q = t) (pending s))"

fun completions :: "Effect list \<Rightarrow> int list" where
  "completions [] = []"
| "completions (OnKeys t cb ks # effs) = t # completions effs"
| "completions (_ # effs) = completions effs"

text \<open>
  A state is consistent when every timeslot with an interest on the face has a request,
  no request counts fewer interests than the face holds for it, and every request has
  its content key in the database.
\<close>

definition consistent :: "System \<Rightarrow> bool" where
  "consistent s =
     (\<forall>t. case m_keyRequests (producer s) t of
             None \<Rightarrow> pendingFor s t = 0
           | Some kr \<Rightarrow> int (pendingFor s t) \<le> interestCount kr
                        \<and> hasContentKey (m_db (producer s)) t)"

text \<open>A timeslot is settled when its content key exists and its request is gone.\<close>

definition settled :: "System \<Rightarrow> TimePoint \<Rightarrow> bool" where
  "settled s t =
     (m_keyRequests (producer s) t = None \<and> hasContentKey (m_db (producer s)) t)"

text \<open>
  What running a handler for a timeslot, or one round of the loop of
  \<^verbatim>\<open>createContentKey\<close>, can do to the request \<open>kr\<close> of that timeslot: the database and
  the other requests stay; every interest sent is bound to the timeslot;
  the request is erased only from a count of one, with its completion and nothing else;
  otherwise the count drops by at most one, and not at all when an interest is sent.
\<close>

definition outcome :: "Producer \<Rightarrow> TimePoint \<Rightarrow> KeyRequest \<Rightarrow> Producer \<Rightarrow> Effect list \<Rightarrow> bool" where
  "outcome p t kr p' effs =
     (m_db p' = m_db p
      \<and> (\<forall>t'. t' \<noteq> t \<longrightarrow> m_keyRequests p' t' = m_keyRequests p t')
      \<and> (\<forall>q \<in> set (expressed effs). pTimeslot q = t)
      \<and> (case m_keyRequests p' t of
            None \<Rightarrow> interestCount kr = 1 \<and> expressed effs = [] \<and> completions effs = [t]
          | Some kr' \<Rightarrow> completions effs = []
                    \<and> interestCount kr + int (length (expressed effs))
                         \<le> interestCount kr' + 1))"

text \<open>The timeslot an event is about, when it is one the face or the application can raise.\<close>

fun eventTimeslot :: "System \<Rightarrow> Event \<Rightarrow> TimePoint option" where
  "eventTimeslot s (CallCreateContentKey freshKey timeslot callback errorCallback) =
     Some timeslot"
| "eventTimeslot s (FaceData i d) =
     (if i < length (pending s) then Some (pTimeslot (pending s ! i)) else None)"
| "eventTimeslot s (FaceNack i) =
     (if i < length (pending s) then Some (pTimeslot (pending s ! i)) else None)"
| "eventTimeslot s (FaceTimeout i) =
     (if i < length (pending s) then Some (pTimeslot (pending s ! i)) else None)"

section \<open>The consumer\<close>

subsection \<open>State and callbacks\<close>

text \<open>
  A TLV element of a packet's content either decodes as an encrypted-content record or
  does not (the constructor \<^verbatim>\<open>EncryptedContent(block)\<close> then raises). The content of a
  packet the consumer reads is the list of the elements it parses into.
\<close>

datatype Block = EncryptedContentBlock EncryptedContent | OpaqueBlock Buffer

text \<open>
  Modelled from the spec: the consumer's key database (its adapter is not among the
  sources); \<^verbatim>\<open>getKey\<close> returns the bytes stored under the name, or the empty buffer.
\<close>

type_synonym ConsumerDB = "Name \<rightharpoonup> Buffer"

definition getKey :: "ConsumerDB \<Rightarrow> Name \<Rightarrow> Buffer" where
  "getKey db n = (case db n of None \<Rightarrow> [] | Some k \<Rightarrow> k)"

record Consumer =
  m_consumerDb :: ConsumerDB
  m_groupName :: Name
  m_consumerName :: Name
  m_cKeyLink :: Link
  m_dKeyLink :: Link
  m_cKeyMap :: "Name \<rightharpoonup> Buffer"
  m_dKeyMap :: "Name \<rightharpoonup> Buffer"

text \<open>
  The closures of the consumer, each with the variables it captures. The plain-text
  callbacks are the one \<^verbatim>\<open>consume\<close> builds around the user's callback and the lambdas of
  \<^verbatim>\<open>decryptContent\<close>, \<^verbatim>\<open>decryptCKey\<close> and \<^verbatim>\<open>decryptDKey\<close>; the validation callbacks are
  the lambdas of \<^verbatim>\<open>consume\<close>, \<^verbatim>\<open>decryptContent\<close> and \<^verbatim>\<open>decryptCKey\<close>. The user's callbacks
  are known by an identifier.
\<close>

datatype PlainTextCallBack =
  ConsumptionCallBack nat "Block list Data"
  | ContentKeyReady Block Name PlainTextCallBack ErrorCallBack
  | DecryptionKeyReady Block Name PlainTextCallBack ErrorCallBack
  | NonceReady Block PlainTextCallBack ErrorCallBack

datatype OnDataValidated =
  ContentValidated nat ErrorCallBack
  | CKeyValidated Block Name PlainTextCallBack ErrorCallBack
  | DKeyValidated Block Name PlainTextCallBack ErrorCallBack

record ConsumerInterest =
  cInterest :: Interest
  cRetrials :: int
  cDelegations :: Link
  cDelegationIndex :: nat
  cValidationCallback :: OnDataValidated
  cErrorCallback :: ErrorCallBack

datatype ConsumerEffect =
  SendInterest ConsumerInterest
  | Consumed nat "Block list Data" Buffer
  | ReportError ErrorCallBack ErrorCode string

text \<open>
  The exceptions that leave a member function of the consumer: a block that is no
  encrypted content, a content without a first block, an iterator moved past the last
  element and read, and what a cipher call has thrown (the consumer catches none).
\<close>

datatype ConsumerExn =
  EncryptedContentFormat | EmptyContent | PastTheEnd | CipherThrown Thrown

subsection \<open>Operations\<close>

definition insertKey :: "(Name \<rightharpoonup> Buffer) \<Rightarrow> Name \<Rightarrow> Buffer \<Rightarrow> (Name \<rightharpoonup> Buffer)" where
  "insertKey m n k = (case m n of None \<Rightarrow> m(n \<mapsto> k) | Some _ \<Rightarrow> m)"

text \<open>
  \<^verbatim>\<open>decrypt\<close>, together with what each plain-text callback does when \<^verbatim>\<open>decrypt\<close> calls it.
\<close>

function decrypt ::
    "Lib \<Rightarrow> Consumer \<Rightarrow> Block \<Rightarrow> Buffer \<Rightarrow> PlainTextCallBack \<Rightarrow> ErrorCallBack
       \<Rightarrow> ConsumerExn + (Consumer \<times> ConsumerEffect list)"
  and plainText ::
    "Lib \<Rightarrow> Consumer \<Rightarrow> PlainTextCallBack \<Rightarrow> Buffer
       \<Rightarrow> ConsumerExn + (Consumer \<times> ConsumerEffect list)"
where
  "decrypt lib c encryptedBlock keyBuf plainTextCallBack errorCallback =
     (case encryptedBlock of
        OpaqueBlock _ \<Rightarrow> Inl EncryptedContentFormat
      | EncryptedContentBlock encryptedContent \<Rightarrow>
          (case algorithmType encryptedContent of
             AlgorithmAesCbc \<Rightarrow>
               (case aesCbcDecrypt lib keyBuf (initialVector encryptedContent)
                       (payload encryptedContent) of
                  Inl thrown \<Rightarrow> Inl (CipherThrown thrown)
                | Inr content \<Rightarrow> plainText lib c plainTextCallBack content)
           | AlgorithmRsaOaep \<Rightarrow>
               (case Rsa_decrypt lib keyBuf (payload encryptedContent) AlgorithmRsaOaep of
                  Inl thrown \<Rightarrow> Inl (CipherThrown thrown)
                | Inr content \<Rightarrow> plainText lib c plainTextCallBack content)
           | _ \<Rightarrow>
               Inr (c, [ReportError errorCallback UnsupportedEncryptionScheme
                          (algToString lib (algorithmType encryptedContent))])))"
| "plainText lib c (ConsumptionCallBack consumptionCallBack validData) plain =
     Inr (c, [Consumed consumptionCallBack validData plain])"
| "plainText lib c (ContentKeyReady encryptedContent cKeyName plainTextCallBack errorCallback)
       cKeyBits =
     (case decrypt lib c encryptedContent cKeyBits plainTextCallBack errorCallback of
        Inl e \<Rightarrow> Inl e
      | Inr (c', effs) \<Rightarrow>
          Inr (c'\<lparr>m_cKeyMap := insertKey (m_cKeyMap c') cKeyName cKeyBits\<rparr>, effs))"
| "plainText lib c (DecryptionKeyReady cKeyContent dKeyName plainTextCallBack errorCallback)
       dKeyBits =
     (case decrypt lib c cKeyContent dKeyBits plainTextCallBack errorCallback of
        Inl e \<Rightarrow> Inl e
      | Inr (c', effs) \<Rightarrow>
          Inr (c'\<lparr>m_dKeyMap := insertKey (m_dKeyMap c') dKeyName dKeyBits\<rparr>, effs))"
| "plainText lib c (NonceReady encryptedPayloadBlock plainTextCallBack errorCallback)
       nonceKeyBits =
     decrypt lib c encryptedPayloadBlock nonceKeyBits plainTextCallBack errorCallback"
  by pat_completeness auto
termination
  by (relation "measure (\<lambda>x. case x of
          Inl (lib, c, b, k, cb, ecb) \<Rightarrow> 2 * size cb + 1
        | Inr (lib, c, cb, k) \<Rightarrow> 2 * size cb)") auto

definition sendInterest ::
  "Interest \<Rightarrow> int \<Rightarrow> Link \<Rightarrow> nat \<Rightarrow> OnDataValidated \<Rightarrow> ErrorCallBack \<Rightarrow> ConsumerEffect list" where
  "sendInterest interest nRetrials delegations delegationIndex validationCallback errorCallback =
     [SendInterest
        \<lparr>cInterest = interest, cRetrials = nRetrials, cDelegations = delegations,
         cDelegationIndex = delegationIndex, cValidationCallback = validationCallback,
         cErrorCallback = errorCallback\<rparr>]"

definition getDecryptionKey :: "Consumer \<Rightarrow> Name \<Rightarrow> Buffer" where
  "getDecryptionKey c decryptionKeyName = getKey (m_consumerDb c) decryptionKeyName"

text \<open>
  \<^verbatim>\<open>decryptDKey\<close>. The format check reports the error and the function goes on: there is
  no \<^verbatim>\<open>return\<close> after it.
\<close>

definition decryptDKey ::
  "Lib \<Rightarrow> Consumer \<Rightarrow> Block list Data \<Rightarrow> PlainTextCallBack \<Rightarrow> ErrorCallBack
     \<Rightarrow> ConsumerExn + (Consumer \<times> ConsumerEffect list)" where
  "decryptDKey lib c dKeyData plainTextCallBack errorCallback =
     (let elements = dataContent dKeyData;
          reported =
            (if length elements \<noteq> 2 then
               [ReportError errorCallback InvalidEncryptedFormat
                  ''Data packet does not satisfy D-KEY packet format'']
             else [])
      in case elements of
           [] \<Rightarrow> Inl PastTheEnd
         | encryptedNonceBlock # others \<Rightarrow>
             (case encryptedNonceBlock of
                OpaqueBlock _ \<Rightarrow> Inl EncryptedContentFormat
              | EncryptedContentBlock encryptedNonce \<Rightarrow>
                  (let consumerKeyName = keyLocator encryptedNonce;
                       consumerKeyBuf = getDecryptionKey c consumerKeyName
                   in if consumerKeyBuf = [] then
                        Inr (c, reported @
                               [ReportError errorCallback NoDecryptKey
                                  ''No desired consumer decryption key in database''])
                      else
                        (case others of
                           [] \<Rightarrow> Inl PastTheEnd
                         | encryptedPayloadBlock # _ \<Rightarrow>
                             (case decrypt lib c encryptedNonceBlock consumerKeyBuf
                                     (NonceReady encryptedPayloadBlock plainTextCallBack
                                        errorCallback)
                                     errorCallback of
                                Inl e \<Rightarrow> Inl e
                              | Inr (c', effs) \<Rightarrow> Inr (c', reported @ effs))))))"

definition blockFromValue :: "Block list \<Rightarrow> ConsumerExn + Block" where
  "blockFromValue elements = (case elements of [] \<Rightarrow> Inl EmptyContent | b # _ \<Rightarrow> Inr b)"

definition dKeyNameOf :: "Name \<Rightarrow> Name" where
  "dKeyNameOf eKeyName =
     getPrefix eKeyName (- 3) @ [NAME_COMPONENT_D_KEY] @ getSubName eKeyName (- 2)"

definition decryptCKey ::
  "Lib \<Rightarrow> Consumer \<Rightarrow> Block list Data \<Rightarrow> PlainTextCallBack \<Rightarrow> ErrorCallBack
     \<Rightarrow> ConsumerExn + (Consumer \<times> ConsumerEffect list)" where
  "decryptCKey lib c cKeyData plainTextCallBack errorCallback =
     (case blockFromValue (dataContent cKeyData) of
        Inl e \<Rightarrow> Inl e
      | Inr cKeyContent \<Rightarrow>
          (case cKeyContent of
             OpaqueBlock _ \<Rightarrow> Inl EncryptedContentFormat
           | EncryptedContentBlock encrypted \<Rightarrow>
               (let eKeyName = keyLocator encrypted;
                    dKeyName = dKeyNameOf eKeyName
                in case m_dKeyMap c dKeyName of
                     Some dKeyBits \<Rightarrow>
                       decrypt lib c cKeyContent dKeyBits plainTextCallBack errorCallback
                   | None \<Rightarrow>
                       (let iName = dKeyName @ [NAME_COMPONENT_FOR] @ m_consumerName c
                        in Inr (c, sendInterest (Interest_of iName) 1 (m_dKeyLink c) 0
                                     (DKeyValidated cKeyContent dKeyName plainTextCallBack
                                        errorCallback)
                                     errorCallback)))))"

definition decryptContent ::
  "Lib \<Rightarrow> Consumer \<Rightarrow> Block list Data \<Rightarrow> PlainTextCallBack \<Rightarrow> ErrorCallBack
     \<Rightarrow> ConsumerExn + (Consumer \<times> ConsumerEffect list)" where
  "decryptContent lib c d plainTextCallBack errorCallback =
     (case blockFromValue (dataContent d) of
        Inl e \<Rightarrow> Inl e
      | Inr encryptedContent \<Rightarrow>
          (case encryptedContent of
             OpaqueBlock _ \<Rightarrow> Inl EncryptedContentFormat
           | EncryptedContentBlock encrypted \<Rightarrow>
               (let cKeyName = keyLocator encrypted
                in case m_cKeyMap c cKeyName of
                     Some cKeyBits \<Rightarrow>
                       decrypt lib c encryptedContent cKeyBits plainTextCallBack errorCallback
                   | None \<Rightarrow>
                       (let iName = cKeyName @ [NAME_COMPONENT_FOR] @ m_groupName c
                        in Inr (c, sendInterest (Interest_of iName) 1 (m_cKeyLink c) 0
                                     (CKeyValidated encryptedContent cKeyName plainTextCallBack
                                        errorCallback)
                                     errorCallback)))))"

definition consume :: "Name \<Rightarrow> nat \<Rightarrow> ErrorCallBack \<Rightarrow> Link \<Rightarrow> ConsumerEffect list" where
  "consume contentName consumptionCallBack errorCallback delegations =
     sendInterest (Interest_of contentName) 1 delegations 0
       (ContentValidated consumptionCallBack errorCallback) errorCallback"

text \<open>What a validation callback does with the validated packet.\<close>

fun validated ::
  "Lib \<Rightarrow> Consumer \<Rightarrow> OnDataValidated \<Rightarrow> Block list Data
     \<Rightarrow> ConsumerExn + (Consumer \<times> ConsumerEffect list)" where
  "validated lib c (ContentValidated consumptionCallBack errorCallback) validData =
     decryptContent lib c validData (ConsumptionCallBack consumptionCallBack validData)
       errorCallback"
| "validated lib c (CKeyValidated encryptedContent cKeyName plainTextCallBack errorCallback)
       validCKeyData =
     decryptCKey lib c validCKeyData
       (ContentKeyReady encryptedContent cKeyName plainTextCallBack errorCallback)
       errorCallback"
| "validated lib c (DKeyValidated cKeyContent dKeyName plainTextCallBack errorCallback)
       validDKeyData =
     decryptDKey lib c validDKeyData
       (DecryptionKeyReady cKeyContent dKeyName plainTextCallBack errorCallback)
       errorCallback"

text \<open>\<^verbatim>\<open>Consumer::handleNack\<close> and \<^verbatim>\<open>Consumer::handleTimeout\<close>.\<close>

definition retrievalFailure :: "Lib \<Rightarrow> Interest \<Rightarrow> ErrorCallBack \<Rightarrow> ConsumerEffect list" where
  "retrievalFailure lib interest errorCallback =
     [ReportError errorCallback DataRetrievalFailure (nameToUri lib (interestName interest))]"

definition consumerHandleNack ::
  "Lib \<Rightarrow> Interest \<Rightarrow> Link \<Rightarrow> nat \<Rightarrow> OnDataValidated \<Rightarrow> ErrorCallBack \<Rightarrow> ConsumerEffect list" where
  "consumerHandleNack lib interest delegations delegationIndex callback errorCallback =
     (if delegations \<noteq> [] then
        (if \<not> hasSelectedDelegation interest then
           sendInterest (setSelectedDelegation 0 (setLink delegations interest))
             0 delegations 0 callback errorCallback
         else
           (let nextIndex = delegationIndex + 1 in
            if nextIndex < length delegations then
              sendInterest (setSelectedDelegation nextIndex interest)
                0 delegations nextIndex callback errorCallback
            else retrievalFailure lib interest errorCallback))
      else retrievalFailure lib interest errorCallback)"

definition consumerHandleTimeout ::
  "Lib \<Rightarrow> Interest \<Rightarrow> int \<Rightarrow> Link \<Rightarrow> nat \<Rightarrow> OnDataValidated \<Rightarrow> ErrorCallBack
     \<Rightarrow> ConsumerEffect list" where
  "consumerHandleTimeout lib interest nRetrials delegations delegationIndex callback
       errorCallback =
     (if nRetrials > 0 then
        sendInterest interest (nRetrials - 1) delegations delegationIndex callback errorCallback
      else
        consumerHandleNack lib interest delegations delegationIndex callback errorCallback)"

text \<open>
  The interests and the final report that follow when the face answers an interest, and
  then each interest sent in its place, with a NACK; \<open>n\<close> bounds the number of answers.
\<close>

fun nackedThroughout :: "Lib \<Rightarrow> nat \<Rightarrow> ConsumerInterest \<Rightarrow> ConsumerEffect list" where
  "nackedThroughout lib 0 q = []"
| "nackedThroughout lib (Suc n) q =
     (case consumerHandleNack lib (cInterest q) (cDelegations q) (cDelegationIndex q)
             (cValidationCallback q) (cErrorCallback q) of
        [SendInterest q'] \<Rightarrow> SendInterest q' # nackedThroughout lib n q'
      | effs \<Rightarrow> effs)"

section \<open>An instance of the library functions\<close>

text \<open>
  To run the model on concrete packets, the library functions are instantiated: time
  points print in the ISO-8601 basic form \<^verbatim>\<open>YYYYMMDDTHHMMSS\<close> (with the fraction of a second
  when there is one), components are their own URI form, and the cipher pipelines are
  replaced by a stand-in that shifts every byte by the first byte of the key and rejects
  an empty key, as \<^verbatim>\<open>Load\<close> of Crypto++ rejects bytes that are no encoded key: with the
  exception of Crypto++.
\<close>

fun decimal :: "nat \<Rightarrow> int \<Rightarrow> string" where
  "decimal 0 n = []"
| "decimal (Suc k) n = decimal k (n div 10) @ [''0123456789'' ! nat (n mod 10)]"

fun numberOf :: "string \<Rightarrow> int option" where
  "numberOf [] = Some 0"
| "numberOf cs =
     (let c = last cs in
      if (48::nat) \<le> of_char c \<and> (of_char c :: nat) \<le> 57 then
        (case numberOf (butlast cs) of
           None \<Rightarrow> None
         | Some n \<Rightarrow> Some (10 * n + (of_char c - 48)))
      else None)"

definition civilFromDays :: "int \<Rightarrow> int \<times> int \<times> int" where
  "civilFromDays days =
     (let z = days + 719468;
          era = z div 146097;
          doe = z - era * 146097;
          yoe = (doe - doe div 1460 + doe div 36524 - doe div 146096) div 365;
          doy = doe - (365 * yoe + yoe div 4 - yoe div 100);
          mp = (5 * doy + 2) div 153;
          d = doy - (153 * mp + 2) div 5 + 1;
          m = (if mp < 10 then mp + 3 else mp - 9);
          y = yoe + era * 400 + (if m \<le> 2 then 1 else 0)
      in (y, m, d))"

definition daysFromCivil :: "int \<Rightarrow> int \<Rightarrow> int \<Rightarrow> int" where
  "daysFromCivil y m d =
     (let y1 = y - (if m \<le> 2 then 1 else 0);
          era = y1 div 400;
          yoe = y1 - era * 400;
          doy = (153 * (if m > 2 then m - 3 else m + 9) + 2) div 5 + d - 1;
          doe = yoe * 365 + yoe div 4 - yoe div 100 + doy
      in era * 146097 + doe - 719468)"

definition isoOfMillis :: "TimePoint \<Rightarrow> string" where
  "isoOfMillis t =
     (let secs = t div 1000; ms = t mod 1000;
          sod = secs mod 86400;
          (y, m, d) = civilFromDays (secs div 86400)
      in decimal 4 y @ decimal 2 m @ decimal 2 d @ ''T''
         @ decimal 2 (sod div 3600) @ decimal 2 (sod mod 3600 div 60) @ decimal 2 (sod mod 60)
         @ (if ms = 0 then [] else ''.'' @ decimal 3 ms @ ''000''))"

definition millisOfIso :: "string \<Rightarrow> TimePoint option" where
  "millisOfIso s =
     (if length s \<noteq> 15 \<or> s ! 8 \<noteq> CHR ''T'' then None
      else
        (case (numberOf (take 4 s), numberOf (take 2 (drop 4 s)), numberOf (take 2 (drop 6 s)),
               numberOf (take 2 (drop 9 s)), numberOf (take 2 (drop 11 s)),
               numberOf (take 2 (drop 13 s))) of
           (Some y, Some m, Some d, Some hh, Some mm, Some ss) \<Rightarrow>
             Some (((daysFromCivil y m d * 24 + hh) * 60 + mm) * 60000 + ss * 1000)
         | _ \<Rightarrow> None))"

definition shiftBytes :: "Buffer \<Rightarrow> Buffer \<Rightarrow> string + Buffer" where
  "shiftBytes key pl = (case key of [] \<Rightarrow> Inl ''empty key'' | k # _ \<Rightarrow> Inr (map (\<lambda>b. b + k) pl))"

definition unshiftBytes :: "Buffer \<Rightarrow> Buffer \<Rightarrow> string + Buffer" where
  "unshiftBytes key pl = (case key of [] \<Rightarrow> Inl ''empty key'' | k # _ \<Rightarrow> Inr (map (\<lambda>b. b - k) pl))"

definition exampleLib :: Lib where
  "exampleLib =
     \<lparr>toIsoString = isoOfMillis,
      fromIsoString = millisOfIso,
      toUri = (\<lambda>c. c),
      nameToUri = (\<lambda>n. concat (map (\<lambda>c. ''/'' @ c) n)),
      algToString = (\<lambda>a. case a of AlgorithmAesEcb \<Rightarrow> ''0'' | AlgorithmAesCbc \<Rightarrow> ''1''
                            | AlgorithmRsaPkcs \<Rightarrow> ''2'' | AlgorithmRsaOaep \<Rightarrow> ''3''),
      publicKeyLoad = (\<lambda>key. if key = [] then Some ''empty key'' else None),
      privateKeyLoad = (\<lambda>key. if key = [] then Some ''empty key'' else None),
      pkcs1v15Encryptor = shiftBytes,
      oaepShaEncryptor = shiftBytes,
      pkcs1v15Decryptor = unshiftBytes,
      oaepShaDecryptor = unshiftBytes,
      aesCbcEncrypt = (\<lambda>key iv pl. cryptopp (shiftBytes key pl)),
      aesCbcDecrypt = (\<lambda>key iv pl. cryptopp (unshiftBytes key pl))\<rparr>"
section \<open>Properties of the producer\<close>

subsection \<open>Effects of the operations on a request\<close>

lemma expressed_append: "expressed (a @ b) = expressed a @ expressed b"
  by (induction a rule: expressed.induct) auto

lemma completions_append: "completions (a @ b) = completions a @ completions b"
  by (induction a rule: completions.induct) auto

lemma encryptData_oaep:
  "encryptData lib d pl keyName key AlgorithmRsaOaep iv =
     (case oaepShaEncryptor lib key pl of
        Inl what \<Rightarrow> Inl (CryptoppException what)
      | Inr c \<Rightarrow> Inr \<lparr>dataName = dataName d,
               dataContent = \<lparr>algorithmType = AlgorithmRsaOaep, keyLocator = keyName,
                  initialVector = [], payload = c\<rparr>,
               dataSigned = dataSigned d\<rparr>)"
  by (simp add: encryptData_def Rsa_encrypt_def cryptopp_def split: sum.splits)

lemma updateKeyRequest_cases:
  assumes "updateKeyRequest p kr t cb = (p', effs)"
  shows "m_db p' = m_db p \<and> m_ekeyInfo p' = m_ekeyInfo p
       \<and> (\<forall>t'. t' \<noteq> t \<longrightarrow> m_keyRequests p' t' = m_keyRequests p t')
       \<and> expressed effs = []
       \<and> ((interestCount kr = 1 \<and> m_keyRequests p' t = None \<and> completions effs = [t])
          \<or> (m_keyRequests p' t = Some (kr\<lparr>interestCount := interestCount kr - 1\<rparr>)
              \<and> effs = []))"
  using assms by (auto simp: updateKeyRequest_def Let_def split: if_splits)

lemma encryptContentKey_cases:
  assumes "m_keyRequests p t = Some kr"
  shows "(\<exists>what. oaepShaEncryptor lib key (getContentKey (m_db p) t) = Inl what
            \<and> encryptContentKey lib p key eKeyName t cb ecb
                = Inl (Uncaught (CryptoppException what)))
       \<or> (\<exists>c p' effs. oaepShaEncryptor lib key (getContentKey (m_db p) t) = Inr c
            \<and> encryptContentKey lib p key eKeyName t cb ecb = Inr (True, p', effs)
            \<and> m_db p' = m_db p \<and> m_ekeyInfo p' = m_ekeyInfo p
            \<and> (\<forall>t'. t' \<noteq> t \<longrightarrow> m_keyRequests p' t' = m_keyRequests p t')
            \<and> expressed effs = []
            \<and> ((interestCount kr = 1 \<and> m_keyRequests p' t = None \<and> completions effs = [t])
               \<or> (effs = [] \<and> (\<exists>kr'. m_keyRequests p' t = Some kr'
                    \<and> interestCount kr' = interestCount kr - 1))))"
proof (cases "oaepShaEncryptor lib key (getContentKey (m_db p) t)")
  case (Inl what)
  then show ?thesis using assms
    by (simp add: encryptContentKey_def encryptData_oaep)
next
  case (Inr c)
  define kr1 where "kr1 = kr\<lparr>encryptedKeys := encryptedKeys kr @
      [\<lparr>dataName = contentKeyName lib p t,
        dataContent = \<lparr>algorithmType = AlgorithmRsaOaep, keyLocator = eKeyName,
                     initialVector = [], payload = c\<rparr>,
        dataSigned = True\<rparr>]\<rparr>"
  obtain p' effs where u: "updateKeyRequest p kr1 t cb = (p', effs)"
    by (cases "updateKeyRequest p kr1 t cb") auto
  have e: "encryptContentKey lib p key eKeyName t cb ecb = Inr (True, p', effs)"
    using assms Inr u by (simp add: encryptContentKey_def encryptData_oaep kr1_def)
  have k: "interestCount kr1 = interestCount kr" by (simp add: kr1_def)
  show ?thesis
    using updateKeyRequest_cases [OF u] e k Inr by auto
qed

lemma updateKeyRequest_outcome:
  assumes "updateKeyRequest p kr t cb = (p', effs)"
  shows "outcome p t kr p' effs"
  using updateKeyRequest_cases [OF assms] by (auto simp: outcome_def)

lemma encryptContentKey_outcome:
  assumes "m_keyRequests p t = Some kr"
  shows "(\<exists>what. oaepShaEncryptor lib key (getContentKey (m_db p) t) = Inl what
            \<and> encryptContentKey lib p key eKeyName t cb ecb
                = Inl (Uncaught (CryptoppException what)))
       \<or> (\<exists>c p' effs. oaepShaEncryptor lib key (getContentKey (m_db p) t) = Inr c
            \<and> encryptContentKey lib p key eKeyName t cb ecb = Inr (True, p', effs)
            \<and> outcome p t kr p' effs)"
  using encryptContentKey_cases [OF assms, of lib key eKeyName cb ecb] assms
  by (elim disjE exE conjE) (auto simp: outcome_def)

lemma round_outcome:
  assumes "m_keyRequests p t = Some kr"
  shows "(\<exists>what. createContentKeyRound lib p it t cb ecb
                   = Inl (Uncaught (CryptoppException what))
            \<and> \<not> (t < beginTimeslot (snd it) \<or> t \<ge> endTimeslot (snd it))
            \<and> oaepShaEncryptor lib (keyBits (snd it)) (getContentKey (m_db p) t) = Inl what)
       \<or> (\<exists>p' effs. createContentKeyRound lib p it t cb ecb = Inr (p', effs)
            \<and> outcome p t kr p' effs
            \<and> (\<not> (t < beginTimeslot (snd it) \<or> t \<ge> endTimeslot (snd it))
                 \<longrightarrow> (\<exists>c. oaepShaEncryptor lib (keyBits (snd it))
                               (getContentKey (m_db p) t) = Inr c)))"
proof (cases "t < beginTimeslot (snd it) \<or> t \<ge> endTimeslot (snd it)")
  case True
  then show ?thesis using assms
    by (auto simp: createContentKeyRound_def outcome_def sendKeyInterest_def)
next
  case False
  from encryptContentKey_outcome [OF assms, of lib "keyBits (snd it)"
      "fst it @ [toIsoString lib (beginTimeslot (snd it))]
              @ [toIsoString lib (endTimeslot (snd it))]" cb ecb]
  show ?thesis
  proof (elim disjE exE conjE)
    fix what
    assume "oaepShaEncryptor lib (keyBits (snd it)) (getContentKey (m_db p) t) = Inl what"
      and "encryptContentKey lib p (keyBits (snd it))
        (fst it @ [toIsoString lib (beginTimeslot (snd it))]
                @ [toIsoString lib (endTimeslot (snd it))])
        t cb ecb = Inl (Uncaught (CryptoppException what))"
    then show ?thesis using False by (simp add: createContentKeyRound_def)
  next
    fix c p' effs
    assume "oaepShaEncryptor lib (keyBits (snd it)) (getContentKey (m_db p) t) = Inr c"
      and "encryptContentKey lib p (keyBits (snd it))
        (fst it @ [toIsoString lib (beginTimeslot (snd it))]
                @ [toIsoString lib (endTimeslot (snd it))])
        t cb ecb = Inr (True, p', effs)"
      and "outcome p t kr p' effs"
    then show ?thesis using False by (simp add: createContentKeyRound_def)
  qed
qed

lemma loop_outcome:
  assumes "m_keyRequests p t = Some kr"
    and "int (length its) + int e \<le> interestCount kr"
  shows "(\<exists>what. createContentKeyLoop lib p its t cb ecb
                   = Inl (Uncaught (CryptoppException what))
            \<and> (\<exists>it \<in> set its. \<not> (t < beginTimeslot (snd it) \<or> t \<ge> endTimeslot (snd it))
                 \<and> oaepShaEncryptor lib (keyBits (snd it)) (getContentKey (m_db p) t)
                     = Inl what))
       \<or> (\<exists>p' effs. createContentKeyLoop lib p its t cb ecb = Inr (p', effs)
           \<and> (\<forall>it \<in> set its. \<not> (t < beginTimeslot (snd it) \<or> t \<ge> endTimeslot (snd it))
                 \<longrightarrow> (\<exists>c. oaepShaEncryptor lib (keyBits (snd it))
                               (getContentKey (m_db p) t) = Inr c))
           \<and> m_db p' = m_db p
           \<and> (\<forall>t'. t' \<noteq> t \<longrightarrow> m_keyRequests p' t' = m_keyRequests p t')
           \<and> (\<forall>q \<in> set (expressed effs). pTimeslot q = t)
           \<and> (case m_keyRequests p' t of
                 None \<Rightarrow> e = 0 \<and> expressed effs = [] \<and> completions effs = [t]
               | Some kr' \<Rightarrow> completions effs = []
                         \<and> int e + int (length (expressed effs)) \<le> interestCount kr'))"
  using assms
proof (induction its arbitrary: p kr e)
  case Nil
  then show ?case by simp
next
  case (Cons it rest)
  from round_outcome [OF Cons.prems(1), of lib it cb ecb]
  consider (raised) what where
      "createContentKeyRound lib p it t cb ecb = Inl (Uncaught (CryptoppException what))"
      "\<not> (t < beginTimeslot (snd it) \<or> t \<ge> endTimeslot (snd it))"
      "oaepShaEncryptor lib (keyBits (snd it)) (getContentKey (m_db p) t) = Inl what"
    | (returned) p1 effs1 where
      "createContentKeyRound lib p it t cb ecb = Inr (p1, effs1)"
      "outcome p t kr p1 effs1"
      "\<not> (t < beginTimeslot (snd it) \<or> t \<ge> endTimeslot (snd it))
         \<longrightarrow> (\<exists>c. oaepShaEncryptor lib (keyBits (snd it)) (getContentKey (m_db p) t) = Inr c)"
    by blast
  then show ?case
  proof cases
    case raised
    then have "createContentKeyLoop lib p (it # rest) t cb ecb
        = Inl (Uncaught (CryptoppException what))" by simp
    moreover have "\<exists>it' \<in> set (it # rest).
        \<not> (t < beginTimeslot (snd it') \<or> t \<ge> endTimeslot (snd it'))
        \<and> oaepShaEncryptor lib (keyBits (snd it')) (getContentKey (m_db p) t) = Inl what"
      using raised(2,3) by simp
    ultimately show ?thesis by blast
  next
    case returned
    note r = returned(1) and o = returned(2) and here = returned(3)
    have db1: "m_db p1 = m_db p" using o by (simp add: outcome_def)
    show ?thesis
    proof (cases "m_keyRequests p1 t")
      case None
      with o have k: "interestCount kr = 1" "expressed effs1 = []" "completions effs1 = [t]"
        by (auto simp: outcome_def)
      from Cons.prems(2) k(1) have "int (length rest) + int e \<le> 0" by simp
      then have "length rest = 0 \<and> e = 0" by linarith
      then have "rest = []" "e = 0" by simp_all
      then show ?thesis using r o None k here
        by (auto simp: outcome_def)
    next
      case (Some kr1)
      with o have c: "completions effs1 = []"
        and le: "interestCount kr + int (length (expressed effs1)) \<le> interestCount kr1 + 1"
        by (auto simp: outcome_def)
      define e1 where "e1 = e + length (expressed effs1)"
      have "int (length rest) + int e1 \<le> interestCount kr1"
        using le Cons.prems(2) by (simp add: e1_def)
      from Cons.IH [OF Some this]
      consider (raised2) what where
          "createContentKeyLoop lib p1 rest t cb ecb = Inl (Uncaught (CryptoppException what))"
          "\<exists>it' \<in> set rest. \<not> (t < beginTimeslot (snd it') \<or> t \<ge> endTimeslot (snd it'))
             \<and> oaepShaEncryptor lib (keyBits (snd it')) (getContentKey (m_db p1) t) = Inl what"
        | (returned2) p2 effs2 where
          "createContentKeyLoop lib p1 rest t cb ecb = Inr (p2, effs2)"
          "\<forall>it' \<in> set rest. \<not> (t < beginTimeslot (snd it') \<or> t \<ge> endTimeslot (snd it'))
             \<longrightarrow> (\<exists>c. oaepShaEncryptor lib (keyBits (snd it'))
                        (getContentKey (m_db p1) t) = Inr c)"
          "m_db p2 = m_db p1"
          "\<forall>t'. t' \<noteq> t \<longrightarrow> m_keyRequests p2 t' = m_keyRequests p1 t'"
          "\<forall>q \<in> set (expressed effs2). pTimeslot q = t"
          "case m_keyRequests p2 t of
                 None \<Rightarrow> e1 = 0 \<and> expressed effs2 = [] \<and> completions effs2 = [t]
               | Some kr' \<Rightarrow> completions effs2 = []
                         \<and> int e1 + int (length (expressed effs2)) \<le> interestCount kr'"
        by blast
      then show ?thesis
      proof cases
        case raised2
        have "createContentKeyLoop lib p (it # rest) t cb ecb
            = Inl (Uncaught (CryptoppException what))"
          using r raised2(1) by simp
        moreover have "\<exists>it' \<in> set (it # rest).
            \<not> (t < beginTimeslot (snd it') \<or> t \<ge> endTimeslot (snd it'))
            \<and> oaepShaEncryptor lib (keyBits (snd it')) (getContentKey (m_db p) t) = Inl what"
          using raised2(2) db1 by auto
        ultimately show ?thesis by blast
      next
        case returned2
        note l = returned2(1) and f = returned2(3,4,5) and k = returned2(6)
        have "createContentKeyLoop lib p (it # rest) t cb ecb = Inr (p2, effs1 @ effs2)"
          using r l by simp
        moreover have "\<forall>it' \<in> set (it # rest).
            \<not> (t < beginTimeslot (snd it') \<or> t \<ge> endTimeslot (snd it'))
             \<longrightarrow> (\<exists>c. oaepShaEncryptor lib (keyBits (snd it'))
                        (getContentKey (m_db p) t) = Inr c)"
          using here returned2(2) db1 by auto
        moreover have "m_db p2 = m_db p"
          "\<forall>t'. t' \<noteq> t \<longrightarrow> m_keyRequests p2 t' = m_keyRequests p t'"
          "\<forall>q \<in> set (expressed (effs1 @ effs2)). pTimeslot q = t"
          using f o by (auto simp: outcome_def expressed_append)
        moreover have "case m_keyRequests p2 t of
                 None \<Rightarrow> e = 0 \<and> expressed (effs1 @ effs2) = []
                         \<and> completions (effs1 @ effs2) = [t]
               | Some kr' \<Rightarrow> completions (effs1 @ effs2) = []
                         \<and> int e + int (length (expressed (effs1 @ effs2)))
                              \<le> interestCount kr'"
          using k c by (auto simp: e1_def expressed_append completions_append
              split: option.splits)
        ultimately show ?thesis by blast
      qed
    qed
  qed
qed

lemma outOfOptions_outcome:
  assumes "m_keyRequests p t = Some kr"
  shows "\<exists>p' effs. outOfOptions p t cb = Inr (p', effs) \<and> outcome p t kr p' effs"
proof -
  obtain p' effs where u: "updateKeyRequest p kr t cb = (p', effs)"
    by (cases "updateKeyRequest p kr t cb") auto
  from updateKeyRequest_outcome [OF u] u assms show ?thesis
    by (simp add: outOfOptions_def)
qed

lemma resend_outcome:
  assumes "m_keyRequests p t = Some kr"
  shows "outcome p t kr p (sendKeyInterest i di t cb ecb)"
  using assms by (simp add: outcome_def sendKeyInterest_def)

lemma handleNack_outcome:
  assumes "m_keyRequests p t = Some kr"
  shows "\<exists>p' effs. handleNack p i di t cb ecb = Inr (p', effs) \<and> outcome p t kr p' effs"
  using outOfOptions_outcome [OF assms] resend_outcome [OF assms]
  by (simp add: handleNack_def Let_def)

lemma outcome_attempts:
  assumes "m_keyRequests p t = Some kr"
    and "outcome (p\<lparr>m_keyRequests := (m_keyRequests p)(t \<mapsto> kr\<lparr>repeatAttempts := r\<rparr>)\<rparr>) t
           (kr\<lparr>repeatAttempts := r\<rparr>) p' effs"
  shows "outcome p t kr p' effs"
  using assms by (auto simp: outcome_def split: option.splits)

lemma handleTimeout_outcome:
  assumes "m_keyRequests p t = Some kr"
  shows "\<exists>p' effs. handleTimeout p i di t cb ecb = Inr (p', effs) \<and> outcome p t kr p' effs"
proof -
  define a where "a = (case repeatAttempts kr (interestName i) of None \<Rightarrow> 0 | Some n \<Rightarrow> n)"
  show ?thesis
  proof (cases "a < m_maxRepeatAttempts p")
    case True
    define r where "r = (repeatAttempts kr)(interestName i \<mapsto> a + 1)"
    define p0 where "p0 = p\<lparr>m_keyRequests := (m_keyRequests p)(t \<mapsto> kr\<lparr>repeatAttempts := r\<rparr>)\<rparr>"
    have "m_keyRequests p0 t = Some (kr\<lparr>repeatAttempts := r\<rparr>)" by (simp add: p0_def)
    from resend_outcome [OF this]
    have "outcome p0 t (kr\<lparr>repeatAttempts := r\<rparr>) p0 (sendKeyInterest i di t cb ecb)" .
    then have "outcome p t kr p0 (sendKeyInterest i di t cb ecb)"
      unfolding p0_def using assms by (rule outcome_attempts [rotated])
    moreover have "handleTimeout p i di t cb ecb = Inr (p0, sendKeyInterest i di t cb ecb)"
      using True assms by (simp add: handleTimeout_def a_def p0_def r_def Let_def)
    ultimately show ?thesis by blast
  next
    case False
    define r where "r = (repeatAttempts kr)(interestName i \<mapsto> a)"
    define p0 where "p0 = p\<lparr>m_keyRequests := (m_keyRequests p)(t \<mapsto> kr\<lparr>repeatAttempts := r\<rparr>)\<rparr>"
    have "m_keyRequests p0 t = Some (kr\<lparr>repeatAttempts := r\<rparr>)" by (simp add: p0_def)
    from handleNack_outcome [OF this]
    obtain p' effs where h: "handleNack p0 i di t cb ecb = Inr (p', effs)"
      and o: "outcome p0 t (kr\<lparr>repeatAttempts := r\<rparr>) p' effs" by blast
    from o have "outcome p t kr p' effs"
      unfolding p0_def using assms by (rule outcome_attempts [rotated])
    moreover have "handleTimeout p i di t cb ecb = Inr (p', effs)"
      using False assms h by (simp add: handleTimeout_def a_def p0_def r_def Let_def)
    ultimately show ?thesis by blast
  qed
qed

lemma outcome_ekeyInfo:
  "outcome p t kr p' effs \<Longrightarrow> outcome p t kr (p'\<lparr>m_ekeyInfo := x\<rparr>) effs"
  by (simp add: outcome_def)

lemma handleCoveringKey_outcome:
  assumes "m_keyRequests p t = Some kr"
  shows "handleCoveringKey lib p i d di t cb ecb = Inl NameIndex
       \<or> handleCoveringKey lib p i d di t cb ecb = Inl IsoStringFormat
       \<or> (\<exists>what. handleCoveringKey lib p i d di t cb ecb
                    = Inl (Uncaught (CryptoppException what)))
       \<or> (\<exists>p' effs. handleCoveringKey lib p i d di t cb ecb = Inr (p', effs)
             \<and> outcome p t kr p' effs)"
proof -
  have stale: "outcome p t kr
      (p\<lparr>m_keyRequests := (m_keyRequests p)(t \<mapsto> kr\<lparr>repeatAttempts := r\<rparr>)\<rparr>)
      (sendKeyInterest j di t cb ecb)" for r j
    using assms by (simp add: outcome_def sendKeyInterest_def)
  from encryptContentKey_outcome [OF assms, of lib "dataContent d" "dataName d" cb ecb]
  consider (raised) what where
      "encryptContentKey lib p (dataContent d) (dataName d) t cb ecb
         = Inl (Uncaught (CryptoppException what))"
    | (returned) p' effs where
      "encryptContentKey lib p (dataContent d) (dataName d) t cb ecb = Inr (True, p', effs)"
      "outcome p t kr p' effs"
    by blast
  then show ?thesis
  proof cases
    case raised
    then show ?thesis using assms stale
      by (simp add: handleCoveringKey_def Let_def split: option.splits)
  next
    case returned
    then show ?thesis using assms stale outcome_ekeyInfo [OF returned(2)]
      by (simp add: handleCoveringKey_def Let_def split: option.splits)
  qed
qed

subsection \<open>Consistency of the producer on its face\<close>

lemma pendingFor_append:
  "pendingFor \<lparr>producer = p', pending = xs @ qs\<rparr> t
     = pendingFor \<lparr>producer = p, pending = xs\<rparr> t + length (filter (\<lambda>q. pTimeslot q = t) qs)"
  by (simp add: pendingFor_def)

lemma filter_bound:
  "\<forall>q \<in> set qs. pTimeslot q = t0 \<Longrightarrow>
     length (filter (\<lambda>q. pTimeslot q = t) qs) = (if t = t0 then length qs else 0)"
  by (induction qs) auto

lemma pendingFor_removed:
  assumes "i < length (pending s)"
  shows "pendingFor s t
     = pendingFor \<lparr>producer = p', pending = take i (pending s) @ drop (Suc i) (pending s)\<rparr> t
       + (if pTimeslot (pending s ! i) = t then 1 else 0)"
proof -
  have "pending s = take i (pending s) @ (pending s ! i) # drop (Suc i) (pending s)"
    using assms by (rule id_take_nth_drop)
  then have "filter (\<lambda>q. pTimeslot q = t) (pending s)
      = filter (\<lambda>q. pTimeslot q = t) (take i (pending s) @ (pending s ! i) # drop (Suc i) (pending s))"
    by simp
  then show ?thesis
    by (simp add: pendingFor_def)
qed

lemma pendingFor_answered:
  assumes "i < length (pending s)" and "\<forall>q \<in> set qs. pTimeslot q = pTimeslot (pending s ! i)"
  shows "pendingFor \<lparr>producer = p', pending = take i (pending s) @ drop (Suc i) (pending s) @ qs\<rparr> t
           + (if pTimeslot (pending s ! i) = t then 1 else 0)
         = pendingFor s t + (if pTimeslot (pending s ! i) = t then length qs else 0)"
proof -
  have "pendingFor \<lparr>producer = p', pending = (take i (pending s) @ drop (Suc i) (pending s)) @ qs\<rparr> t
      = pendingFor \<lparr>producer = p', pending = take i (pending s) @ drop (Suc i) (pending s)\<rparr> t
        + length (filter (\<lambda>q. pTimeslot q = t) qs)"
    by (rule pendingFor_append)
  then show ?thesis
    using pendingFor_removed [OF assms(1), of t p'] filter_bound [OF assms(2), of t]
    by auto
qed

lemma consistentD:
  "consistent s \<Longrightarrow>
     (case m_keyRequests (producer s) t of
        None \<Rightarrow> pendingFor s t = 0
      | Some kr \<Rightarrow> int (pendingFor s t) \<le> interestCount kr
                   \<and> hasContentKey (m_db (producer s)) t)"
  by (simp add: consistent_def)

lemma answered_consistent:
  assumes c: "consistent s" and i: "i < length (pending s)"
    and k: "m_keyRequests (producer s) (pTimeslot (pending s ! i)) = Some kr"
    and o: "outcome (producer s) (pTimeslot (pending s ! i)) kr p' effs"
  shows "consistent \<lparr>producer = p',
           pending = take i (pending s) @ drop (Suc i) (pending s) @ expressed effs\<rparr>"
proof -
  define t0 where "t0 = pTimeslot (pending s ! i)"
  define s' where "s' = \<lparr>producer = p',
           pending = take i (pending s) @ drop (Suc i) (pending s) @ expressed effs\<rparr>"
  have ex: "\<forall>q \<in> set (expressed effs). pTimeslot q = pTimeslot (pending s ! i)"
    using o by (simp add: outcome_def)
  have pf: "pendingFor s' t + (if t0 = t then 1 else 0)
         = pendingFor s t + (if t0 = t then length (expressed effs) else 0)" for t
    unfolding s'_def t0_def by (rule pendingFor_answered [OF i ex])
  have db: "m_db p' = m_db (producer s)" using o by (simp add: outcome_def)
  have other: "t \<noteq> t0 \<Longrightarrow> m_keyRequests p' t = m_keyRequests (producer s) t" for t
    using o by (simp add: outcome_def t0_def)
  have old: "int (pendingFor s t0) \<le> interestCount kr" "hasContentKey (m_db (producer s)) t0"
    using consistentD [OF c, of t0] k by (simp_all add: t0_def)
  have "case m_keyRequests (producer s') t of
             None \<Rightarrow> pendingFor s' t = 0
           | Some kr \<Rightarrow> int (pendingFor s' t) \<le> interestCount kr
                        \<and> hasContentKey (m_db (producer s')) t" for t
  proof (cases "t = t0")
    case False
    then have "pendingFor s' t = pendingFor s t" using pf [of t] by simp
    moreover have "m_keyRequests (producer s') t = m_keyRequests (producer s) t"
      using other [OF False] by (simp add: s'_def)
    moreover have "m_db (producer s') = m_db (producer s)" using db by (simp add: s'_def)
    ultimately show ?thesis using consistentD [OF c, of t] by (simp split: option.splits)
  next
    case True
    have pf0: "pendingFor s' t0 + 1 = pendingFor s t0 + length (expressed effs)"
      using pf [of t0] by simp
    show ?thesis
    proof (cases "m_keyRequests p' t0")
      case None
      with o have "interestCount kr = 1" "expressed effs = []"
        by (auto simp: outcome_def t0_def)
      with pf0 old(1) have "pendingFor s' t0 = 0" by simp
      with None True show ?thesis by (simp add: s'_def)
    next
      case (Some kr')
      with o have "interestCount kr + int (length (expressed effs)) \<le> interestCount kr' + 1"
        by (auto simp: outcome_def t0_def)
      with pf0 old(1) have "int (pendingFor s' t0) \<le> interestCount kr'" by linarith
      with Some True old(2) db show ?thesis by (simp add: s'_def)
    qed
  qed
  then show ?thesis unfolding s'_def consistent_def by blast
qed

lemma pending_has_request:
  assumes "consistent s" and "i < length (pending s)"
  shows "\<exists>kr. m_keyRequests (producer s) (pTimeslot (pending s ! i)) = Some kr"
proof (cases "m_keyRequests (producer s) (pTimeslot (pending s ! i))")
  case None
  with consistentD [OF assms(1), of "pTimeslot (pending s ! i)"]
  have "pendingFor s (pTimeslot (pending s ! i)) = 0" by simp
  moreover have "pending s ! i \<in> set (pending s)" using assms(2) by simp
  ultimately show ?thesis by (auto simp: pendingFor_def filter_empty_conv)
next
  case (Some kr)
  then show ?thesis by blast
qed

lemma pending_positive:
  assumes "i < length (pending s)"
  shows "0 < pendingFor s (pTimeslot (pending s ! i))"
proof -
  have "pending s ! i \<in> set (pending s)" using assms by simp
  then have "filter (\<lambda>q. pTimeslot q = pTimeslot (pending s ! i)) (pending s) \<noteq> []"
    by (auto simp: filter_empty_conv)
  then show ?thesis by (simp add: pendingFor_def)
qed

lemma outcome_completions:
  "outcome p t kr p' effs \<Longrightarrow> set (completions effs) \<subseteq> {t}"
  by (auto simp: outcome_def split: option.splits)

lemma answered_settled:
  assumes k: "m_keyRequests (producer s) (pTimeslot (pending s ! i)) = Some kr"
    and o: "outcome (producer s) (pTimeslot (pending s ! i)) kr p' effs"
    and st: "settled s t"
  shows "settled \<lparr>producer = p', pending = qs\<rparr> t \<and> t \<notin> set (completions effs)"
proof -
  have ne: "t \<noteq> pTimeslot (pending s ! i)" using st k by (auto simp: settled_def)
  then have "m_keyRequests p' t = m_keyRequests (producer s) t" "m_db p' = m_db (producer s)"
    using o by (simp_all add: outcome_def)
  moreover have "t \<notin> set (completions effs)"
    using outcome_completions [OF o] ne by auto
  ultimately show ?thesis using st by (simp add: settled_def)
qed

lemma answered_completed:
  assumes c: "consistent s"
    and k: "m_keyRequests (producer s) (pTimeslot (pending s ! i)) = Some kr"
    and o: "outcome (producer s) (pTimeslot (pending s ! i)) kr p' effs"
    and t: "t \<in> set (completions effs)"
  shows "settled \<lparr>producer = p', pending = qs\<rparr> t \<and> completions effs = [t]"
proof -
  have t0: "t = pTimeslot (pending s ! i)" using outcome_completions [OF o] t by auto
  have "hasContentKey (m_db (producer s)) t" using consistentD [OF c, of t] k t0 by simp
  moreover have "m_db p' = m_db (producer s)" using o by (simp add: outcome_def)
  moreover have "m_keyRequests p' t = None \<and> completions effs = [t]"
    using o t unfolding t0 by (auto simp: outcome_def split: option.splits)
  ultimately show ?thesis by (simp add: settled_def)
qed

lemma hasContentKey_add:
  "hasContentKey (addContentKey db t key) t' \<longleftrightarrow> hasContentKey db t' \<or> dbRow t' = dbRow t"
  by (auto simp: hasContentKey_def addContentKey_def)

lemma createContentKey_fresh:
  assumes "\<not> hasContentKey (m_db p) t" and "m_keyRequests p t = None"
  shows "(\<exists>what. createContentKey lib p key t cb ecb
                   = Inl (Uncaught (CryptoppException what))
            \<and> (\<exists>it \<in> set (m_ekeyInfo p).
                  \<not> (t < beginTimeslot (snd it) \<or> t \<ge> endTimeslot (snd it))
                  \<and> oaepShaEncryptor lib (keyBits (snd it))
                      (getContentKey (addContentKey (m_db p) t key) t) = Inl what))
       \<or> (\<exists>p' effs. createContentKey lib p key t cb ecb
             = Inr (m_namespace p @ [NAME_COMPONENT_C_KEY]
                      @ [toIsoString lib (getRoundedTimeslot t)], p', effs)
           \<and> (\<forall>it \<in> set (m_ekeyInfo p).
                  \<not> (t < beginTimeslot (snd it) \<or> t \<ge> endTimeslot (snd it))
                  \<longrightarrow> (\<exists>c. oaepShaEncryptor lib (keyBits (snd it))
                         (getContentKey (addContentKey (m_db p) t key) t) = Inr c))
           \<and> m_db p' = addContentKey (m_db p) t key
           \<and> (\<forall>t'. t' \<noteq> t \<longrightarrow> m_keyRequests p' t' = m_keyRequests p t')
           \<and> (\<forall>q \<in> set (expressed effs). pTimeslot q = t)
           \<and> (case m_keyRequests p' t of
                 None \<Rightarrow> expressed effs = [] \<and> completions effs = [t]
               | Some kr' \<Rightarrow> completions effs = []
                         \<and> int (length (expressed effs)) \<le> interestCount kr'))"
proof -
  define p2 where "p2 = p\<lparr>m_db := addContentKey (m_db p) t key,
      m_keyRequests := (m_keyRequests p)(t \<mapsto> KeyRequest_of (length (m_ekeyInfo p)))\<rparr>"
  have k: "m_keyRequests p2 t = Some (KeyRequest_of (length (m_ekeyInfo p)))"
    by (simp add: p2_def)
  have n: "int (length (m_ekeyInfo p2)) + int 0
             \<le> interestCount (KeyRequest_of (length (m_ekeyInfo p)))"
    by (simp add: p2_def KeyRequest_of_def)
  have db2: "m_db p2 = addContentKey (m_db p) t key" and ek2: "m_ekeyInfo p2 = m_ekeyInfo p"
    by (simp_all add: p2_def)
  have cck: "createContentKey lib p key t cb ecb =
      (case createContentKeyLoop lib p2 (m_ekeyInfo p2) t cb ecb of
         Inl e \<Rightarrow> Inl e
       | Inr (p3, effs) \<Rightarrow> Inr (m_namespace p @ [NAME_COMPONENT_C_KEY]
                      @ [toIsoString lib (getRoundedTimeslot t)], p3, effs))"
    using assms by (simp add: createContentKey_def p2_def Let_def split: sum.splits)
  from loop_outcome [OF k n, of lib cb ecb]
  consider (raised) what where
      "createContentKeyLoop lib p2 (m_ekeyInfo p2) t cb ecb
         = Inl (Uncaught (CryptoppException what))"
      "\<exists>it \<in> set (m_ekeyInfo p2). \<not> (t < beginTimeslot (snd it) \<or> t \<ge> endTimeslot (snd it))
          \<and> oaepShaEncryptor lib (keyBits (snd it)) (getContentKey (m_db p2) t) = Inl what"
    | (returned) p' effs where
      "createContentKeyLoop lib p2 (m_ekeyInfo p2) t cb ecb = Inr (p', effs)"
      "\<forall>it \<in> set (m_ekeyInfo p2). \<not> (t < beginTimeslot (snd it) \<or> t \<ge> endTimeslot (snd it))
          \<longrightarrow> (\<exists>c. oaepShaEncryptor lib (keyBits (snd it)) (getContentKey (m_db p2) t) = Inr c)"
      "m_db p' = m_db p2"
      "\<forall>t'. t' \<noteq> t \<longrightarrow> m_keyRequests p' t' = m_keyRequests p2 t'"
      "\<forall>q \<in> set (expressed effs). pTimeslot q = t"
      "case m_keyRequests p' t of
                 None \<Rightarrow> 0 = (0::nat) \<and> expressed effs = [] \<and> completions effs = [t]
               | Some kr' \<Rightarrow> completions effs = []
                         \<and> int 0 + int (length (expressed effs)) \<le> interestCount kr'"
    by blast
  then show ?thesis
  proof cases
    case raised
    have "createContentKey lib p key t cb ecb = Inl (Uncaught (CryptoppException what))"
      using cck raised(1) by simp
    with raised(2) show ?thesis unfolding db2 ek2 by blast
  next
    case returned
    have "createContentKey lib p key t cb ecb
             = Inr (m_namespace p @ [NAME_COMPONENT_C_KEY]
                      @ [toIsoString lib (getRoundedTimeslot t)], p', effs)"
      using cck returned(1) by simp
    moreover have "m_db p' = addContentKey (m_db p) t key"
      "\<forall>t'. t' \<noteq> t \<longrightarrow> m_keyRequests p' t' = m_keyRequests p t'"
      using returned(3,4) by (simp_all add: p2_def)
    moreover have "case m_keyRequests p' t of
                 None \<Rightarrow> expressed effs = [] \<and> completions effs = [t]
               | Some kr' \<Rightarrow> completions effs = []
                         \<and> int (length (expressed effs)) \<le> interestCount kr'"
      using returned(6) by (simp split: option.splits)
    ultimately show ?thesis using returned(2,5) unfolding db2 ek2 by blast
  qed
qed

lemma createContentKey_known:
  "hasContentKey (m_db p) t \<Longrightarrow>
     createContentKey lib p key t cb ecb
       = Inr (m_namespace p @ [NAME_COMPONENT_C_KEY]
                @ [toIsoString lib (getRoundedTimeslot t)], p, [])"
  by (simp add: createContentKey_def)

lemma consistent_no_request:
  assumes "consistent s" and "\<not> hasContentKey (m_db (producer s)) t"
  shows "m_keyRequests (producer s) t = None \<and> pendingFor s t = 0"
  using consistentD [OF assms(1), of t] assms(2) by (simp split: option.splits)

text \<open>created: the state after a call of createContentKey that made a key\<close>

lemma created_facts:
  assumes c: "consistent s" and h: "\<not> hasContentKey (m_db (producer s)) t"
    and db: "m_db p' = addContentKey (m_db (producer s)) t key"
    and other: "\<forall>t'. t' \<noteq> t \<longrightarrow> m_keyRequests p' t' = m_keyRequests (producer s) t'"
    and ex: "\<forall>q \<in> set (expressed effs). pTimeslot q = t"
    and k: "case m_keyRequests p' t of
                 None \<Rightarrow> expressed effs = [] \<and> completions effs = [t]
               | Some kr' \<Rightarrow> completions effs = []
                         \<and> int (length (expressed effs)) \<le> interestCount kr'"
  shows "consistent \<lparr>producer = p', pending = pending s @ expressed effs\<rparr>"
    and "settled s t1 \<Longrightarrow> settled \<lparr>producer = p', pending = pending s @ expressed effs\<rparr> t1
           \<and> t1 \<notin> set (completions effs)"
    and "t1 \<in> set (completions effs) \<Longrightarrow>
           settled \<lparr>producer = p', pending = pending s @ expressed effs\<rparr> t1
           \<and> completions effs = [t1]"
proof -
  define s' where "s' = \<lparr>producer = p', pending = pending s @ expressed effs\<rparr>"
  have none: "m_keyRequests (producer s) t = None" "pendingFor s t = 0"
    using consistent_no_request [OF c h] by simp_all
  have pf: "pendingFor s' t' = pendingFor s t' + (if t' = t then length (expressed effs) else 0)"
    for t'
    using pendingFor_append [of p' "pending s" "expressed effs" t' "producer s"]
      filter_bound [OF ex, of t']
    by (simp add: s'_def pendingFor_def)
  have comp: "set (completions effs) \<subseteq> {t}"
    using k by (auto split: option.splits)
  have mono: "hasContentKey (m_db (producer s)) t' \<Longrightarrow> hasContentKey (m_db p') t'" for t'
    by (simp add: db hasContentKey_add)
  have here: "hasContentKey (m_db p') t" by (simp add: db hasContentKey_add)
  have "case m_keyRequests (producer s') t' of
             None \<Rightarrow> pendingFor s' t' = 0
           | Some kr \<Rightarrow> int (pendingFor s' t') \<le> interestCount kr
                        \<and> hasContentKey (m_db (producer s')) t'" for t'
  proof (cases "t' = t")
    case False
    then have "pendingFor s' t' = pendingFor s t'"
      "m_keyRequests (producer s') t' = m_keyRequests (producer s) t'"
      using pf [of t'] other by (simp_all add: s'_def)
    then show ?thesis using consistentD [OF c, of t'] mono [of t']
      by (simp add: s'_def split: option.splits)
  next
    case True
    then show ?thesis using pf [of t] none k here
      by (simp add: s'_def split: option.splits)
  qed
  then show "consistent \<lparr>producer = p', pending = pending s @ expressed effs\<rparr>"
    unfolding s'_def consistent_def by blast
  show "settled \<lparr>producer = p', pending = pending s @ expressed effs\<rparr> t1
           \<and> t1 \<notin> set (completions effs)" if st: "settled s t1"
  proof -
    have ne: "t1 \<noteq> t" using st h by (auto simp: settled_def)
    then have "m_keyRequests p' t1 = m_keyRequests (producer s) t1" using other by simp
    moreover have "hasContentKey (m_db p') t1" using st mono by (simp add: settled_def)
    moreover have "t1 \<notin> set (completions effs)" using comp ne by auto
    ultimately show ?thesis using st by (simp add: settled_def)
  qed
  show "settled \<lparr>producer = p', pending = pending s @ expressed effs\<rparr> t1
           \<and> completions effs = [t1]" if t1: "t1 \<in> set (completions effs)"
  proof -
    have e: "t1 = t" using comp t1 by auto
    have "m_keyRequests p' t = None \<and> completions effs = [t]"
      using k t1 by (auto split: option.splits)
    then show ?thesis using here e by (simp add: settled_def)
  qed
qed

lemma step_cases [consumes 1, case_names Raised Idle Answered Created]:
  assumes c: "consistent s"
  obtains
    (Raised) "step lib s ev = Inl NameIndex \<or> step lib s ev = Inl IsoStringFormat
       \<or> (\<exists>what. step lib s ev = Inl (Uncaught (CryptoppException what)))"
  | (Idle) "step lib s ev = Inr (s, [])"
  | (Answered) i kr p' effs where
      "i < length (pending s)"
      "eventTimeslot s ev = Some (pTimeslot (pending s ! i))"
      "m_keyRequests (producer s) (pTimeslot (pending s ! i)) = Some kr"
      "outcome (producer s) (pTimeslot (pending s ! i)) kr p' effs"
      "step lib s ev = Inr (\<lparr>producer = p',
          pending = take i (pending s) @ drop (Suc i) (pending s) @ expressed effs\<rparr>, effs)"
  | (Created) t key p' effs where
      "eventTimeslot s ev = Some t"
      "\<not> hasContentKey (m_db (producer s)) t"
      "m_db p' = addContentKey (m_db (producer s)) t key"
      "\<forall>t'. t' \<noteq> t \<longrightarrow> m_keyRequests p' t' = m_keyRequests (producer s) t'"
      "\<forall>q \<in> set (expressed effs). pTimeslot q = t"
      "case m_keyRequests p' t of
         None \<Rightarrow> expressed effs = [] \<and> completions effs = [t]
       | Some kr' \<Rightarrow> completions effs = []
                 \<and> int (length (expressed effs)) \<le> interestCount kr'"
      "step lib s ev = Inr (\<lparr>producer = p', pending = pending s @ expressed effs\<rparr>, effs)"
proof (cases ev)
  case (CallCreateContentKey key t cb ecb)
  show ?thesis
  proof (cases "hasContentKey (m_db (producer s)) t")
    case True
    then have "step lib s ev = Inr (s, [])"
      using CallCreateContentKey by (simp add: createContentKey_known)
    then show ?thesis by (rule Idle)
  next
    case False
    from consistent_no_request [OF c False]
    have n: "m_keyRequests (producer s) t = None" by simp
    from createContentKey_fresh [OF False n, of lib key cb ecb]
    consider (raised) what where
        "createContentKey lib (producer s) key t cb ecb
           = Inl (Uncaught (CryptoppException what))"
      | (returned) p' effs where
        "createContentKey lib (producer s) key t cb ecb
             = Inr (m_namespace (producer s) @ [NAME_COMPONENT_C_KEY]
                      @ [toIsoString lib (getRoundedTimeslot t)], p', effs)"
        "m_db p' = addContentKey (m_db (producer s)) t key"
        "\<forall>t'. t' \<noteq> t \<longrightarrow> m_keyRequests p' t' = m_keyRequests (producer s) t'"
        "\<forall>q \<in> set (expressed effs). pTimeslot q = t"
        "case m_keyRequests p' t of
           None \<Rightarrow> expressed effs = [] \<and> completions effs = [t]
         | Some kr' \<Rightarrow> completions effs = []
                 \<and> int (length (expressed effs)) \<le> interestCount kr'"
      by blast
    then show ?thesis
    proof cases
      case raised
      then have "step lib s ev = Inl (Uncaught (CryptoppException what))"
        using CallCreateContentKey by simp
      then show ?thesis using Raised by blast
    next
      case returned
      have "step lib s ev = Inr (\<lparr>producer = p', pending = pending s @ expressed effs\<rparr>, effs)"
        using CallCreateContentKey returned(1) by simp
      moreover have "eventTimeslot s ev = Some t" using CallCreateContentKey by simp
      ultimately show ?thesis using False returned(2-5) by (rule Created [rotated 6])
    qed
  qed
next
  case (FaceData i d)
  show ?thesis
  proof (cases "i < length (pending s)")
    case False
    then have "step lib s ev = Inr (s, [])" using FaceData by simp
    then show ?thesis by (rule Idle)
  next
    case True
    define q where "q = pending s ! i"
    from pending_has_request [OF c True]
    obtain kr where k: "m_keyRequests (producer s) (pTimeslot (pending s ! i)) = Some kr"
      by blast
    have e: "eventTimeslot s ev = Some (pTimeslot (pending s ! i))"
      using FaceData True by simp
    have st: "step lib s ev = answered s i
           (handleCoveringKey lib (producer s) (pInterest q) d (pDelegationIndex q)
              (pTimeslot q) (pCallback q) (pErrorCallback q))"
      using FaceData True by (simp add: q_def Let_def)
    from handleCoveringKey_outcome [OF k, of lib "pInterest q" d "pDelegationIndex q"
        "pCallback q" "pErrorCallback q"]
    consider
      "handleCoveringKey lib (producer s) (pInterest q) d (pDelegationIndex q)
              (pTimeslot q) (pCallback q) (pErrorCallback q) = Inl NameIndex"
    | "handleCoveringKey lib (producer s) (pInterest q) d (pDelegationIndex q)
              (pTimeslot q) (pCallback q) (pErrorCallback q) = Inl IsoStringFormat"
    | what where "handleCoveringKey lib (producer s) (pInterest q) d (pDelegationIndex q)
              (pTimeslot q) (pCallback q) (pErrorCallback q)
                = Inl (Uncaught (CryptoppException what))"
    | p' effs where "handleCoveringKey lib (producer s) (pInterest q) d (pDelegationIndex q)
              (pTimeslot q) (pCallback q) (pErrorCallback q) = Inr (p', effs)"
        "outcome (producer s) (pTimeslot (pending s ! i)) kr p' effs"
      unfolding q_def by blast
    then show ?thesis
    proof cases
      case 1
      then have "step lib s ev = Inl NameIndex" using st by (simp add: answered_def)
      then show ?thesis using Raised by blast
    next
      case 2
      then have "step lib s ev = Inl IsoStringFormat" using st by (simp add: answered_def)
      then show ?thesis using Raised by blast
    next
      case 3
      then have "step lib s ev = Inl (Uncaught (CryptoppException what))"
        using st by (simp add: answered_def)
      then show ?thesis using Raised by blast
    next
      case 4
      then have "step lib s ev = Inr (\<lparr>producer = p',
          pending = take i (pending s) @ drop (Suc i) (pending s) @ expressed effs\<rparr>, effs)"
        using st by (simp add: answered_def)
      with True e k 4(2) show ?thesis by (rule Answered)
    qed
  qed
next
  case (FaceNack i)
  show ?thesis
  proof (cases "i < length (pending s)")
    case False
    then have "step lib s ev = Inr (s, [])" using FaceNack by simp
    then show ?thesis by (rule Idle)
  next
    case True
    define q where "q = pending s ! i"
    from pending_has_request [OF c True]
    obtain kr where k: "m_keyRequests (producer s) (pTimeslot (pending s ! i)) = Some kr"
      by blast
    have e: "eventTimeslot s ev = Some (pTimeslot (pending s ! i))"
      using FaceNack True by simp
    have st: "step lib s ev = answered s i
           (handleNack (producer s) (pInterest q) (pDelegationIndex q)
              (pTimeslot q) (pCallback q) (pErrorCallback q))"
      using FaceNack True by (simp add: q_def Let_def)
    from handleNack_outcome [OF k, of "pInterest q" "pDelegationIndex q"
        "pCallback q" "pErrorCallback q"]
    obtain p' effs where "handleNack (producer s) (pInterest q) (pDelegationIndex q)
              (pTimeslot q) (pCallback q) (pErrorCallback q) = Inr (p', effs)"
        and o: "outcome (producer s) (pTimeslot (pending s ! i)) kr p' effs"
      unfolding q_def by blast
    then have "step lib s ev = Inr (\<lparr>producer = p',
          pending = take i (pending s) @ drop (Suc i) (pending s) @ expressed effs\<rparr>, effs)"
      using st by (simp add: answered_def)
    with True e k o show ?thesis by (rule Answered)
  qed
next
  case (FaceTimeout i)
  show ?thesis
  proof (cases "i < length (pending s)")
    case False
    then have "step lib s ev = Inr (s, [])" using FaceTimeout by simp
    then show ?thesis by (rule Idle)
  next
    case True
    define q where "q = pending s ! i"
    from pending_has_request [OF c True]
    obtain kr where k: "m_keyRequests (producer s) (pTimeslot (pending s ! i)) = Some kr"
      by blast
    have e: "eventTimeslot s ev = Some (pTimeslot (pending s ! i))"
      using FaceTimeout True by simp
    have st: "step lib s ev = answered s i
           (handleTimeout (producer s) (pInterest q) (pDelegationIndex q)
              (pTimeslot q) (pCallback q) (pErrorCallback q))"
      using FaceTimeout True by (simp add: q_def Let_def)
    from handleTimeout_outcome [OF k, of "pInterest q" "pDelegationIndex q"
        "pCallback q" "pErrorCallback q"]
    obtain p' effs where "handleTimeout (producer s) (pInterest q) (pDelegationIndex q)
              (pTimeslot q) (pCallback q) (pErrorCallback q) = Inr (p', effs)"
        and o: "outcome (producer s) (pTimeslot (pending s ! i)) kr p' effs"
      unfolding q_def by blast
    then have "step lib s ev = Inr (\<lparr>producer = p',
          pending = take i (pending s) @ drop (Suc i) (pending s) @ expressed effs\<rparr>, effs)"
      using st by (simp add: answered_def)
    with True e k o show ?thesis by (rule Answered)
  qed
qed

subsection \<open>Steps and runs\<close>

lemma step_lookup:
  assumes "consistent s"
  shows "step lib s ev \<noteq> Inl OutOfRange \<and> step lib s ev \<noteq> Inl DanglingKeyRequest"
  using assms by (cases rule: step_cases [of s lib ev]) auto

lemma step_consistent:
  assumes "consistent s" and "step lib s ev = Inr (s', effs)"
  shows "consistent s'"
  using assms(1)
proof (cases rule: step_cases [of s lib ev])
  case Raised
  then show ?thesis using assms(2) by auto
next
  case Idle
  then show ?thesis using assms by simp
next
  case (Answered i kr p' effs')
  then show ?thesis using assms(2) answered_consistent [OF assms(1) Answered(1,3,4)] by simp
next
  case (Created t key p' effs')
  then show ?thesis using assms(2) created_facts(1) [OF assms(1) Created(2-6)] by simp
qed

lemma step_settled:
  assumes "consistent s" and "step lib s ev = Inr (s', effs)" and "settled s t"
  shows "settled s' t \<and> t \<notin> set (completions effs)"
  using assms(1)
proof (cases rule: step_cases [of s lib ev])
  case Raised
  then show ?thesis using assms(2) by auto
next
  case Idle
  then show ?thesis using assms by simp
next
  case (Answered i kr p' effs')
  then show ?thesis using assms(2) answered_settled [OF Answered(3,4) assms(3)] by simp
next
  case (Created t0 key p' effs')
  then show ?thesis using assms(2) created_facts(2) [OF assms(1) Created(2-6) assms(3)] by simp
qed

lemma step_completed:
  assumes "consistent s" and "step lib s ev = Inr (s', effs)" and "t \<in> set (completions effs)"
  shows "settled s' t \<and> completions effs = [t]"
  using assms(1)
proof (cases rule: step_cases [of s lib ev])
  case Raised
  then show ?thesis using assms(2) by auto
next
  case Idle
  then show ?thesis using assms by simp
next
  case (Answered i kr p' effs')
  then have e: "effs = effs'" using assms(2) by simp
  show ?thesis
    using Answered(5) assms(2) answered_completed [OF assms(1) Answered(3,4) assms(3) [unfolded e]]
    by simp
next
  case (Created t0 key p' effs')
  then have e: "effs = effs'" using assms(2) by simp
  show ?thesis
    using Created(7) assms(2) created_facts(3) [OF assms(1) Created(2-6) assms(3) [unfolded e]]
    by simp
qed

lemma run_lookup:
  "consistent s \<Longrightarrow> run lib s evs \<noteq> Inl OutOfRange \<and> run lib s evs \<noteq> Inl DanglingKeyRequest"
proof (induction evs arbitrary: s)
  case Nil
  then show ?case by simp
next
  case (Cons ev evs)
  show ?case
  proof (cases "step lib s ev")
    case (Inl e)
    then show ?thesis using step_lookup [OF Cons.prems, of lib ev] by auto
  next
    case (Inr r)
    obtain s1 effs1 where r: "r = (s1, effs1)" by (cases r)
    have "consistent s1" using step_consistent [OF Cons.prems] Inr r by simp
    from Cons.IH [OF this] show ?thesis using Inr r by (auto split: sum.splits)
  qed
qed

lemma run_consistent:
  "consistent s \<Longrightarrow> run lib s evs = Inr (s', effs) \<Longrightarrow> consistent s'"
proof (induction evs arbitrary: s effs)
  case Nil
  then show ?case by simp
next
  case (Cons ev evs)
  from Cons.prems(2) obtain s1 effs1 effs2 where
    st: "step lib s ev = Inr (s1, effs1)" and r: "run lib s1 evs = Inr (s', effs2)"
    by (auto split: sum.splits)
  have "consistent s1" using step_consistent [OF Cons.prems(1) st] .
  from Cons.IH [OF this r] show ?case .
qed

lemma run_settled:
  "consistent s \<Longrightarrow> settled s t \<Longrightarrow> run lib s evs = Inr (s', effs) \<Longrightarrow>
     settled s' t \<and> t \<notin> set (completions effs)"
proof (induction evs arbitrary: s effs)
  case Nil
  then show ?case by simp
next
  case (Cons ev evs)
  from Cons.prems(3) obtain s1 effs1 effs2 where
    st: "step lib s ev = Inr (s1, effs1)" and r: "run lib s1 evs = Inr (s', effs2)"
    and e: "effs = effs1 @ effs2"
    by (auto split: sum.splits)
  have c1: "consistent s1" using step_consistent [OF Cons.prems(1) st] .
  have s1: "settled s1 t" "t \<notin> set (completions effs1)"
    using step_settled [OF Cons.prems(1) st Cons.prems(2)] by simp_all
  from Cons.IH [OF c1 s1(1) r] s1(2) show ?case by (simp add: e completions_append)
qed

lemma run_once:
  "consistent s \<Longrightarrow> run lib s evs = Inr (s', effs) \<Longrightarrow> count_list (completions effs) t \<le> 1"
proof (induction evs arbitrary: s effs)
  case Nil
  then show ?case by simp
next
  case (Cons ev evs)
  from Cons.prems(2) obtain s1 effs1 effs2 where
    st: "step lib s ev = Inr (s1, effs1)" and r: "run lib s1 evs = Inr (s', effs2)"
    and e: "effs = effs1 @ effs2"
    by (auto split: sum.splits)
  have c1: "consistent s1" using step_consistent [OF Cons.prems(1) st] .
  show ?case
  proof (cases "t \<in> set (completions effs1)")
    case True
    from step_completed [OF Cons.prems(1) st True]
    have s1: "settled s1 t" and o: "completions effs1 = [t]" by simp_all
    from run_settled [OF c1 s1 r] have "t \<notin> set (completions effs2)" by simp
    then have "count_list (completions effs2) t = 0" by (simp add: count_list_0_iff)
    then show ?thesis by (simp add: e completions_append o)
  next
    case False
    then have "count_list (completions effs1) t = 0" by (simp add: count_list_0_iff)
    then show ?thesis using Cons.IH [OF c1 r] by (simp add: e completions_append)
  qed
qed

lemma consistent_initial:
  "consistent (System_of (Producer_of prefix dataType db maxAttempts keyRetrievalLink))"
  by (simp add: consistent_def System_of_def Producer_of_def pendingFor_def)

subsection \<open>Running the model on concrete input\<close>

lemma ekeyNodes_Nil: "ekeyNodes fixedPrefix [] = []"
  by (subst ekeyNodes.simps) simp

lemma ekeyNodes_Cons:
  "ekeyNodes fixedPrefix (c # d) =
     (fixedPrefix @ (c # d) @ [NAME_COMPONENT_E_KEY], KeyInfo_default)
       # ekeyNodes fixedPrefix (take (length d) (c # d))"
  by (subst ekeyNodes.simps) (simp add: getPrefix_def)

lemma iso_examples:
  "isoOfMillis 0 = ''19700101T000000''"
  "isoOfMillis 3600000 = ''19700101T010000''"
  "isoOfMillis 86400000 = ''19700102T000000''"
  "isoOfMillis (- 1) = ''19691231T235959.999000''"
  "isoOfMillis (- 3600000) = ''19691231T230000''"
  "millisOfIso ''19700101T000000'' = Some 0"
  "millisOfIso ''19700101T010000'' = Some 3600000"
  "millisOfIso ''19700102T000000'' = Some 86400000"
  by code_simp+

lemmas name_defs =
  NAME_COMPONENT_FOR_def NAME_COMPONENT_READ_def NAME_COMPONENT_SAMPLE_def
  NAME_COMPONENT_ACCESS_def NAME_COMPONENT_E_KEY_def NAME_COMPONENT_D_KEY_def
  NAME_COMPONENT_C_KEY_def Name_get_def getPrefix_def getSubName_def
  START_TS_INDEX_def END_TS_INDEX_def

lemmas producer_defs =
  System_of_def Producer_of_def ekeyNodes_Nil ekeyNodes_Cons KeyInfo_default_def
  KeyRequest_of_def hasContentKey_def addContentKey_def getContentKey_def dbRow_def
  getRoundedTimeslot_def signed_divide_int_def
  createContentKey_def createContentKeyRound_def eKeyInterest_def Interest_of_def
  sendKeyInterest_def encryptContentKey_def contentKeyName_def updateKeyRequest_def
  encryptData_def Rsa_encrypt_def cryptopp_def handleCoveringKey_def laterKeyInterest_def
  handleNack_def outOfOptions_def handleTimeout_def hasSelectedDelegation_def setLink_def
  setSelectedDelegation_def answered_def produce_def

lemmas example_defs =
  exampleLib_def iso_examples shiftBytes_def unshiftBytes_def

text \<open>
  C9. When the database already has the content key of the timeslot,
  \<^verbatim>\<open>createContentKey\<close> returns the content-key name and nothing else happens: the
  producer (its requests, its cached E-KEYs, its database) is as before whatever the
  random generator would have yielded, no interest is sent and no callback is called; as
  seen from the face, the call is no step at all.
\<close>

theorem createContentKey_existing_key:
  assumes "hasContentKey (m_db (producer s)) timeslot"
  shows "createContentKey lib (producer s) freshKey timeslot callback errorCallback
           = Inr (m_namespace (producer s) @ [NAME_COMPONENT_C_KEY]
                    @ [toIsoString lib (getRoundedTimeslot timeslot)], producer s, [])
       \<and> step lib s (CallCreateContentKey freshKey timeslot callback errorCallback)
           = Inr (s, [])"
  using assms by (simp add: createContentKey_known)

theorem createContentKey_existing_key_witness:
  "hasContentKey (m_db (producer (System_of (Producer_of [''p''] [''x''] [0 \<mapsto> [1]] 1 []))))
     300000
   \<and> createContentKey exampleLib
         (producer (System_of (Producer_of [''p''] [''x''] [0 \<mapsto> [1]] 1 [])))
         [2] 300000 (Some 7) 9
       = Inr ([''p'', ''SAMPLE'', ''x'', ''C-KEY'', ''19700101T000000''],
              producer (System_of (Producer_of [''p''] [''x''] [0 \<mapsto> [1]] 1 [])), [])
   \<and> step exampleLib (System_of (Producer_of [''p''] [''x''] [0 \<mapsto> [1]] 1 []))
         (CallCreateContentKey [2] 300000 (Some 7) 9)
       = Inr (System_of (Producer_of [''p''] [''x''] [0 \<mapsto> [1]] 1 []), [])"
proof -
  have h: "hasContentKey
      (m_db (producer (System_of (Producer_of [''p''] [''x''] [0 \<mapsto> [1]] 1 [])))) 300000"
    by (simp add: System_of_def Producer_of_def hasContentKey_def dbRow_def)
  have n: "m_namespace (producer (System_of (Producer_of [''p''] [''x''] [0 \<mapsto> [1]] 1 [])))
             @ [NAME_COMPONENT_C_KEY] @ [toIsoString exampleLib (getRoundedTimeslot 300000)]
           = [''p'', ''SAMPLE'', ''x'', ''C-KEY'', ''19700101T000000'']"
    by (simp add: System_of_def Producer_of_def name_defs getRoundedTimeslot_def
        signed_divide_int_def example_defs)
  show ?thesis
    using h createContentKey_existing_key [OF h, of exampleLib "[2]" "Some 7" 9] n
    by simp
qed

lemma getRoundedTimeslot_floor:
  "0 \<le> timeslot \<Longrightarrow> getRoundedTimeslot timeslot = (timeslot div 3600000) * 3600000"
  by (simp add: getRoundedTimeslot_def signed_divide_int_def sgn_if)

lemma same_hour_same_name:
  assumes "0 \<le> t1" "0 \<le> t2" "t1 div 3600000 = t2 div 3600000"
  shows "contentKeyName lib p t1 = contentKeyName lib p t2 \<and> dbRow t1 = dbRow t2"
  using assms by (simp add: contentKeyName_def getRoundedTimeslot_floor dbRow_def)

text \<open>
  C7. The rounding at a timeslot before the epoch: one millisecond before
  1970-01-01T00:00:00 lies in the hour that starts at 1969-12-31T23:00:00, and the code
  rounds it to the epoch, the start of the next hour. The content key of that timeslot is
  named after the epoch, while the timeslot at the start of the same hour gets the name
  of that hour.
\<close>

theorem getRoundedTimeslot_before_epoch:
  "getRoundedTimeslot (- 1) = 0
   \<and> ((- 1) div 3600000) * 3600000 = (- 3600000 :: int)
   \<and> map_sum id fst
        (createContentKey exampleLib (Producer_of [''p''] [''x''] Map.empty 1 []) [1] (- 1)
           None 9)
       = Inr [''p'', ''SAMPLE'', ''x'', ''C-KEY'', ''19700101T000000'']
   \<and> map_sum id fst
        (createContentKey exampleLib (Producer_of [''p''] [''x''] Map.empty 1 []) [1]
           (- 3600000) None 9)
       = Inr [''p'', ''SAMPLE'', ''x'', ''C-KEY'', ''19691231T230000'']"
  by (simp add: name_defs producer_defs example_defs Let_def)

text \<open>
  C10. Started from a freshly constructed producer, no sequence of calls of
  \<^verbatim>\<open>createContentKey\<close> and of answers of the face ends in the exception of
  \<^verbatim>\<open>m_keyRequests.at\<close>, nor in the use of a request after its entry was erased; and in
  every state reached, each interest the face still holds has its request in
  \<open>m_keyRequests\<close>, so that whichever answer comes next, the handler finds the request.
\<close>

theorem request_lookup_never_fails:
  "run lib (System_of (Producer_of prefix dataType db maxAttempts keyRetrievalLink)) evs
     \<noteq> Inl OutOfRange
   \<and> run lib (System_of (Producer_of prefix dataType db maxAttempts keyRetrievalLink)) evs
     \<noteq> Inl DanglingKeyRequest
   \<and> (\<forall>s effs.
        run lib (System_of (Producer_of prefix dataType db maxAttempts keyRetrievalLink)) evs
          = Inr (s, effs) \<longrightarrow>
        (\<forall>q \<in> set (pending s). m_keyRequests (producer s) (pTimeslot q) \<noteq> None)
        \<and> (\<forall>ev. step lib s ev \<noteq> Inl OutOfRange))"
proof -
  define s0 where "s0 = System_of (Producer_of prefix dataType db maxAttempts keyRetrievalLink)"
  have c0: "consistent s0" unfolding s0_def by (rule consistent_initial)
  have "(\<forall>q \<in> set (pending s). m_keyRequests (producer s) (pTimeslot q) \<noteq> None)
        \<and> (\<forall>ev. step lib s ev \<noteq> Inl OutOfRange)"
    if r: "run lib s0 evs = Inr (s, effs)" for s effs
  proof -
    have c: "consistent s" using run_consistent [OF c0 r] .
    have "m_keyRequests (producer s) (pTimeslot q) \<noteq> None" if "q \<in> set (pending s)" for q
    proof -
      from that obtain i where "i < length (pending s)" "pending s ! i = q"
        by (auto simp: in_set_conv_nth)
      with pending_has_request [OF c, of i] show ?thesis by auto
    qed
    moreover have "step lib s ev \<noteq> Inl OutOfRange" for ev
      using step_lookup [OF c, of lib ev] by simp
    ultimately show ?thesis by blast
  qed
  then show ?thesis
    using run_lookup [OF c0, of lib evs] unfolding s0_def by blast
qed

theorem request_lookup_never_fails_witness:
  "run exampleLib (System_of (Producer_of [''p''] [''x''] Map.empty 1 []))
     [CallCreateContentKey [1] 0 (Some 7) 9, FaceTimeout 0] \<noteq> Inl OutOfRange
   \<and> (\<exists>s effs.
        run exampleLib (System_of (Producer_of [''p''] [''x''] Map.empty 1 []))
          [CallCreateContentKey [1] 0 (Some 7) 9, FaceTimeout 0] = Inr (s, effs)
        \<and> pending s \<noteq> []
        \<and> (\<forall>q \<in> set (pending s). m_keyRequests (producer s) (pTimeslot q) \<noteq> None)
        \<and> (\<forall>ev. step exampleLib s ev \<noteq> Inl OutOfRange))"
proof -
  have "\<exists>s effs.
        run exampleLib (System_of (Producer_of [''p''] [''x''] Map.empty 1 []))
          [CallCreateContentKey [1] 0 (Some 7) 9, FaceTimeout 0] = Inr (s, effs)
        \<and> pending s \<noteq> []"
    by (simp add: name_defs producer_defs example_defs Let_def)
  then show ?thesis
    using request_lookup_never_fails [of exampleLib "[''p'']" "[''x'']" Map.empty 1 "[]"
        "[CallCreateContentKey [1] 0 (Some 7) 9, FaceTimeout 0]"]
    by blast
qed

subsection \<open>Wrapping the content key\<close>

lemma encryptContentKey_raises:
  "m_keyRequests p timeslot = Some kr \<Longrightarrow>
   oaepShaEncryptor lib encryptionKey (getContentKey (m_db p) timeslot) = Inl what \<Longrightarrow>
   encryptContentKey lib p encryptionKey eKeyName timeslot callback errorCallBack =
     Inl (Uncaught (CryptoppException what))"
  by (simp add: encryptContentKey_def encryptData_oaep)

lemma encryptContentKey_success:
  "m_keyRequests p timeslot = Some kr \<Longrightarrow>
   oaepShaEncryptor lib encryptionKey (getContentKey (m_db p) timeslot) = Inr c \<Longrightarrow>
   encryptContentKey lib p encryptionKey eKeyName timeslot callback errorCallBack =
     Inr (True, updateKeyRequest p
            (kr\<lparr>encryptedKeys := encryptedKeys kr @ [wrappedKey lib p timeslot eKeyName c]\<rparr>)
            timeslot callback)"
  by (simp add: encryptContentKey_def encryptData_oaep wrappedKey_def split: prod.splits)

text \<open>
  With the RSA-OAEP parameters that \<^verbatim>\<open>encryptContentKey\<close> passes, no path of
  \<^verbatim>\<open>Rsa::encrypt\<close> throws an \<^verbatim>\<open>algo::Error\<close>: the function never returns false, and none of
  its effects is a call of the error callback.
\<close>

lemma Rsa_encrypt_oaep_no_algo_error:
  "Rsa_encrypt lib key pl AlgorithmRsaOaep \<noteq> Inl (AlgoError what)"
  by (simp add: Rsa_encrypt_def cryptopp_def split: sum.splits)

lemma encryptContentKey_never_false:
  "encryptContentKey lib p encryptionKey eKeyName timeslot callback errorCallBack
     \<noteq> Inr (False, p', effs)"
  by (auto simp: encryptContentKey_def encryptData_oaep Let_def
      split: option.splits sum.splits prod.splits)

lemma encryptContentKey_no_report:
  "encryptContentKey lib p encryptionKey eKeyName timeslot callback errorCallBack
     = Inr (ok, p', effs) \<Longrightarrow> OnError ecb code what \<notin> set effs"
  by (auto simp: encryptContentKey_def encryptData_oaep updateKeyRequest_def Let_def
      split: option.splits sum.splits prod.splits if_splits)

text \<open>
  C1. An E-KEY packet whose content is no public key (here the empty content) answers the
  only interest of a request. \<^verbatim>\<open>Rsa::encrypt\<close> throws the exception of Crypto++ for the
  key; it is no \<^verbatim>\<open>algo::Error\<close>, so the handler in \<^verbatim>\<open>encryptContentKey\<close> does not catch it:
  the error callback is not called with \<open>EncryptionFailure\<close>, the function does not
  return false, and the exception leaves \<^verbatim>\<open>encryptContentKey\<close>, \<^verbatim>\<open>handleCoveringKey\<close> and
  the callback of the face.
\<close>

theorem encryptContentKey_cipher_exception_escapes:
  "Rsa_encrypt exampleLib [] [1] AlgorithmRsaOaep = Inl (CryptoppException ''empty key'')
   \<and> encryptContentKey exampleLib
        ((Producer_of [''p''] [''x''] [0 \<mapsto> [1]] 1 [])\<lparr>m_keyRequests := [0 \<mapsto> KeyRequest_of 1]\<rparr>)
        [] [''p'', ''READ'', ''x'', ''E-KEY'', ''19700101T000000'', ''19700102T000000''] 0
        (Some 7) 9
     = Inl (Uncaught (CryptoppException ''empty key''))
   \<and> handleCoveringKey exampleLib
        ((Producer_of [''p''] [''x''] [0 \<mapsto> [1]] 1 [])\<lparr>m_keyRequests := [0 \<mapsto> KeyRequest_of 1]\<rparr>)
        \<lparr>interestName = [''p'', ''READ'', ''x'', ''E-KEY''],
         exclude = [ExcludeAfter ''19700101T000000''], childSelector = Some 1,
         link = None, selectedDelegation = None\<rparr>
        \<lparr>dataName = [''p'', ''READ'', ''x'', ''E-KEY'', ''19700101T000000'',
                      ''19700102T000000''],
         dataContent = [], dataSigned = True\<rparr>
        0 0 (Some 7) 9
     = Inl (Uncaught (CryptoppException ''empty key''))
   \<and> run exampleLib (System_of (Producer_of [''p''] [''x''] Map.empty 1 []))
        [CallCreateContentKey [1] 0 (Some 7) 9,
         FaceData 0
           \<lparr>dataName = [''p'', ''READ'', ''x'', ''E-KEY'', ''19700101T000000'',
                         ''19700102T000000''],
            dataContent = [], dataSigned = True\<rparr>]
     = Inl (Uncaught (CryptoppException ''empty key''))"
  by (simp add: name_defs producer_defs example_defs Let_def)

text \<open>
  C3, as stated, fails for the null callback. \<^verbatim>\<open>produce\<close> is called for a timeslot that the
  cached E-KEY of the only node covers: the content key is wrapped at once, the count of
  the new request reaches zero, and yet no callback is called and the request stays in
  \<open>m_keyRequests\<close>.
\<close>

theorem produce_null_callback_keeps_request:
  "produce exampleLib
     ((Producer_of [''p''] [''x''] Map.empty 1 [])
        \<lparr>m_ekeyInfo := [([''p'', ''READ'', ''x'', ''E-KEY''],
             \<lparr>beginTimeslot = 0, endTimeslot = 86400000, keyBits = [5]\<rparr>)]\<rparr>)
     [2] [0] \<lparr>dataName = [], dataContent = (), dataSigned = False\<rparr> 3600000 [10] 9
   = Inr (\<lparr>dataName = [''p'', ''SAMPLE'', ''x'', ''19700101T010000''],
           dataContent =
             \<lparr>algorithmType = AlgorithmAesCbc,
              keyLocator = [''p'', ''SAMPLE'', ''x'', ''C-KEY'', ''19700101T010000''],
              initialVector = [0], payload = [12]\<rparr>,
           dataSigned = True\<rparr>,
          (Producer_of [''p''] [''x''] [1 \<mapsto> [2]] 1 [])
            \<lparr>m_ekeyInfo := [([''p'', ''READ'', ''x'', ''E-KEY''],
                 \<lparr>beginTimeslot = 0, endTimeslot = 86400000, keyBits = [5]\<rparr>)],
             m_keyRequests :=
               [3600000 \<mapsto>
                  \<lparr>interestCount = 0, repeatAttempts = Map.empty,
                   encryptedKeys =
                     [\<lparr>dataName = [''p'', ''SAMPLE'', ''x'', ''C-KEY'', ''19700101T010000''],
                       dataContent =
                         \<lparr>algorithmType = AlgorithmRsaOaep,
                          keyLocator = [''p'', ''READ'', ''x'', ''E-KEY'',
                                        ''19700101T000000'', ''19700102T000000''],
                          initialVector = [], payload = [7]\<rparr>,
                       dataSigned = True\<rparr>]\<rparr>]\<rparr>,
          [])"
  by (simp add: name_defs producer_defs example_defs Let_def)

text \<open>
  C3, amended. A successful wrap appends the signed packet and decrements the count by
  one. If that brings the count to zero and the caller supplied a callback, the callback
  is called with the accumulated packets and the request is erased; if the count stays
  away from zero, or the callback is the null one that \<^verbatim>\<open>produce\<close> passes, nothing is called
  and the request stays, with the decremented count. Over any run from a freshly
  constructed producer the key callback is called at most once for the request of a
  timeslot.
\<close>

theorem key_request_completion:
  "(m_keyRequests p timeslot = Some kr
      \<and> oaepShaEncryptor lib encryptionKey (getContentKey (m_db p) timeslot) = Inr c
    \<longrightarrow> encryptContentKey lib p encryptionKey eKeyName timeslot callback errorCallBack
        = Inr (True,
            if interestCount kr - 1 = 0 \<and> callback \<noteq> None
            then (p\<lparr>m_keyRequests := (m_keyRequests p)(timeslot := None)\<rparr>,
                  [OnKeys timeslot (the callback)
                     (encryptedKeys kr @ [wrappedKey lib p timeslot eKeyName c])])
            else (p\<lparr>m_keyRequests := (m_keyRequests p)(timeslot \<mapsto>
                     kr\<lparr>encryptedKeys :=
                          encryptedKeys kr @ [wrappedKey lib p timeslot eKeyName c],
                        interestCount := interestCount kr - 1\<rparr>)\<rparr>,
                  [])))
   \<and> (run lib (System_of (Producer_of prefix dataType db maxAttempts keyRetrievalLink)) evs
         = Inr (s, effs)
      \<longrightarrow> count_list (completions effs) t \<le> 1)"
proof (intro conjI impI)
  assume a: "m_keyRequests p timeslot = Some kr
      \<and> oaepShaEncryptor lib encryptionKey (getContentKey (m_db p) timeslot) = Inr c"
  then have "encryptContentKey lib p encryptionKey eKeyName timeslot callback errorCallBack =
     Inr (True, updateKeyRequest p
            (kr\<lparr>encryptedKeys := encryptedKeys kr @ [wrappedKey lib p timeslot eKeyName c]\<rparr>)
            timeslot callback)"
    using encryptContentKey_success by blast
  then show "encryptContentKey lib p encryptionKey eKeyName timeslot callback errorCallBack
        = Inr (True,
            if interestCount kr - 1 = 0 \<and> callback \<noteq> None
            then (p\<lparr>m_keyRequests := (m_keyRequests p)(timeslot := None)\<rparr>,
                  [OnKeys timeslot (the callback)
                     (encryptedKeys kr @ [wrappedKey lib p timeslot eKeyName c])])
            else (p\<lparr>m_keyRequests := (m_keyRequests p)(timeslot \<mapsto>
                     kr\<lparr>encryptedKeys :=
                          encryptedKeys kr @ [wrappedKey lib p timeslot eKeyName c],
                        interestCount := interestCount kr - 1\<rparr>)\<rparr>,
                  []))"
    by (simp add: updateKeyRequest_def Let_def)
next
  assume "run lib (System_of (Producer_of prefix dataType db maxAttempts keyRetrievalLink)) evs
         = Inr (s, effs)"
  from run_once [OF consistent_initial this] show "count_list (completions effs) t \<le> 1" .
qed

theorem key_request_completion_witness:
  "m_keyRequests
     ((Producer_of [''p''] [''x''] [0 \<mapsto> [1]] 1 [])\<lparr>m_keyRequests := [0 \<mapsto> KeyRequest_of 1]\<rparr>) 0
     = Some (KeyRequest_of 1)
   \<and> oaepShaEncryptor exampleLib [5]
        (getContentKey
           (m_db ((Producer_of [''p''] [''x''] [0 \<mapsto> [1]] 1 [])
                    \<lparr>m_keyRequests := [0 \<mapsto> KeyRequest_of 1]\<rparr>)) 0)
     = Inr [6]
   \<and> encryptContentKey exampleLib
        ((Producer_of [''p''] [''x''] [0 \<mapsto> [1]] 1 [])\<lparr>m_keyRequests := [0 \<mapsto> KeyRequest_of 1]\<rparr>)
        [5] [''p'', ''READ'', ''x'', ''E-KEY'', ''19700101T000000'', ''19700102T000000''] 0
        (Some 7) 9
     = Inr (True,
            (Producer_of [''p''] [''x''] [0 \<mapsto> [1]] 1 [])\<lparr>m_keyRequests := Map.empty\<rparr>,
            [OnKeys 0 7
               [\<lparr>dataName = [''p'', ''SAMPLE'', ''x'', ''C-KEY'', ''19700101T000000''],
                 dataContent =
                   \<lparr>algorithmType = AlgorithmRsaOaep,
                    keyLocator = [''p'', ''READ'', ''x'', ''E-KEY'', ''19700101T000000'',
                                  ''19700102T000000''],
                    initialVector = [], payload = [6]\<rparr>,
                 dataSigned = True\<rparr>]])
   \<and> (\<exists>s effs.
        run exampleLib (System_of (Producer_of [''p''] [''x''] Map.empty 1 []))
          [CallCreateContentKey [1] 0 (Some 7) 9,
           FaceData 0
             \<lparr>dataName = [''p'', ''READ'', ''x'', ''E-KEY'', ''19700101T000000'',
                           ''19700102T000000''],
              dataContent = [5], dataSigned = True\<rparr>] = Inr (s, effs)
        \<and> completions effs = [0]
        \<and> count_list (completions effs) 0 \<le> 1)"
proof -
  define p where "p = (Producer_of [''p''] [''x''] [0 \<mapsto> [1]] 1 [])
      \<lparr>m_keyRequests := [0 \<mapsto> KeyRequest_of 1]\<rparr>"
  define d :: "Buffer Data" where "d =
      \<lparr>dataName = [''p'', ''READ'', ''x'', ''E-KEY'', ''19700101T000000'', ''19700102T000000''],
       dataContent = [5], dataSigned = True\<rparr>"
  have h1: "m_keyRequests p 0 = Some (KeyRequest_of 1)" by (simp add: p_def)
  have h2: "oaepShaEncryptor exampleLib [5] (getContentKey (m_db p) 0) = Inr [6]"
    by (simp add: example_defs p_def Producer_of_def getContentKey_def dbRow_def)
  have h3: "\<exists>s effs.
        run exampleLib (System_of (Producer_of [''p''] [''x''] Map.empty 1 []))
          [CallCreateContentKey [1] 0 (Some 7) 9, FaceData 0 d] = Inr (s, effs)
        \<and> completions effs = [0]"
    by (simp add: name_defs producer_defs example_defs Let_def d_def)
  then obtain s effs where
    r: "run exampleLib (System_of (Producer_of [''p''] [''x''] Map.empty 1 []))
          [CallCreateContentKey [1] 0 (Some 7) 9, FaceData 0 d] = Inr (s, effs)"
      "completions effs = [0]"
    by blast
  from key_request_completion [of p 0 "KeyRequest_of 1" exampleLib "[5]" "[6]"
      "[''p'', ''READ'', ''x'', ''E-KEY'', ''19700101T000000'', ''19700102T000000'']"
      "Some 7" 9 "[''p'']" "[''x'']" Map.empty 1 "[]"
      "[CallCreateContentKey [1] 0 (Some 7) 9, FaceData 0 d]" s effs 0]
  have e: "encryptContentKey exampleLib p [5]
          [''p'', ''READ'', ''x'', ''E-KEY'', ''19700101T000000'', ''19700102T000000''] 0
          (Some 7) 9
        = Inr (True,
            if interestCount (KeyRequest_of 1) - 1 = 0 \<and> Some (7::nat) \<noteq> None
            then (p\<lparr>m_keyRequests := (m_keyRequests p)(0 := None)\<rparr>,
                  [OnKeys 0 (the (Some 7))
                     (encryptedKeys (KeyRequest_of 1) @ [wrappedKey exampleLib p 0
                        [''p'', ''READ'', ''x'', ''E-KEY'', ''19700101T000000'',
                         ''19700102T000000''] [6]])])
            else (p\<lparr>m_keyRequests := (m_keyRequests p)(0 \<mapsto>
                     (KeyRequest_of 1)\<lparr>encryptedKeys :=
                          encryptedKeys (KeyRequest_of 1) @ [wrappedKey exampleLib p 0
                            [''p'', ''READ'', ''x'', ''E-KEY'', ''19700101T000000'',
                             ''19700102T000000''] [6]],
                        interestCount := interestCount (KeyRequest_of 1) - 1\<rparr>)\<rparr>,
                  []))"
    and o: "count_list (completions effs) 0 \<le> 1"
    using h1 h2 r by blast+
  have e': "encryptContentKey exampleLib p [5]
          [''p'', ''READ'', ''x'', ''E-KEY'', ''19700101T000000'', ''19700102T000000''] 0
          (Some 7) 9
     = Inr (True,
            (Producer_of [''p''] [''x''] [0 \<mapsto> [1]] 1 [])\<lparr>m_keyRequests := Map.empty\<rparr>,
            [OnKeys 0 7
               [\<lparr>dataName = [''p'', ''SAMPLE'', ''x'', ''C-KEY'', ''19700101T000000''],
                 dataContent =
                   \<lparr>algorithmType = AlgorithmRsaOaep,
                    keyLocator = [''p'', ''READ'', ''x'', ''E-KEY'', ''19700101T000000'',
                                  ''19700102T000000''],
                    initialVector = [], payload = [6]\<rparr>,
                 dataSigned = True\<rparr>]])"
    unfolding e
    by (simp add: p_def KeyRequest_of_def wrappedKey_def contentKeyName_def Producer_of_def
        name_defs getRoundedTimeslot_def example_defs)
  show ?thesis using h1 h2 e' r o unfolding p_def d_def by blast
qed

subsection \<open>Interests for the E-KEYs\<close>










subsection \<open>Arrival of an E-KEY\<close>

lemma iso_more_examples:
  "isoOfMillis 172800000 = ''19700103T000000''"
  "millisOfIso ''19700103T000000'' = Some 172800000"
  by code_simp+

text \<open>
  C5, as stated, fails for an interest that carries a link. The producer has a link; the
  answered interest had the link attached and delegation 0 selected (as after a NACK); the
  E-KEY received ends before the timeslot. The interest sent next is built anew from the
  name: it has the extended exclude and child selector 1, but neither the link nor the
  selected delegation, so it is not the answered interest with its exclude extended.
\<close>

theorem handleCoveringKey_reissue_drops_link:
  "handleCoveringKey exampleLib
     ((Producer_of [''p''] [''x''] [48 \<mapsto> [1]] 1 [(0, [''hub''])])
        \<lparr>m_keyRequests := [172800000 \<mapsto> KeyRequest_of 1]\<rparr>)
     \<lparr>interestName = [''p'', ''READ'', ''x'', ''E-KEY''],
      exclude = [ExcludeAfter ''19700103T000000''], childSelector = Some 1,
      link = Some [(0, [''hub''])], selectedDelegation = Some 0\<rparr>
     \<lparr>dataName = [''p'', ''READ'', ''x'', ''E-KEY'', ''19700101T000000'', ''19700102T000000''],
      dataContent = [5], dataSigned = True\<rparr>
     0 172800000 (Some 7) 9
   = Inr ((Producer_of [''p''] [''x''] [48 \<mapsto> [1]] 1 [(0, [''hub''])])
            \<lparr>m_keyRequests :=
               [172800000 \<mapsto> (KeyRequest_of 1)
                  \<lparr>repeatAttempts := [[''p'', ''READ'', ''x'', ''E-KEY''] \<mapsto> 0]\<rparr>]\<rparr>,
          [ExpressInterest
             \<lparr>pInterest =
                \<lparr>interestName = [''p'', ''READ'', ''x'', ''E-KEY''],
                 exclude = [ExcludeAfter ''19700103T000000'',
                            ExcludeBefore ''19700101T000000''],
                 childSelector = Some 1, link = None, selectedDelegation = None\<rparr>,
              pDelegationIndex = 0, pTimeslot = 172800000, pCallback = Some 7,
              pErrorCallback = 9\<rparr>])
   \<and> \<lparr>interestName = [''p'', ''READ'', ''x'', ''E-KEY''],
       exclude = [ExcludeAfter ''19700103T000000'', ExcludeBefore ''19700101T000000''],
       childSelector = Some 1, link = None, selectedDelegation = None\<rparr>
     \<noteq> \<lparr>interestName = [''p'', ''READ'', ''x'', ''E-KEY''],
         exclude = [ExcludeAfter ''19700103T000000''], childSelector = Some 1,
         link = Some [(0, [''hub''])], selectedDelegation = Some 0\<rparr>
        \<lparr>exclude := [ExcludeAfter ''19700103T000000''] @ [ExcludeBefore ''19700101T000000'']\<rparr>"
  by (simp add: name_defs producer_defs example_defs Let_def)

lemma encryptContentKey_ekeyInfo:
  "encryptContentKey lib p key eKeyName t cb ecb = Inr (ok, p', effs) \<Longrightarrow>
     m_ekeyInfo p' = m_ekeyInfo p"
  by (auto simp: encryptContentKey_def updateKeyRequest_def Let_def
      split: option.splits sum.splits Thrown.splits if_splits)

text \<open>
  C5, amended. When the request of the timeslot exists and the last two components of
  the data name are ISO strings for \<open>beginTs\<close> and \<open>endTs\<close>: if the E-KEY ends at or before
  the timeslot, \<open>repeatAttempts\<close> of the interest's name is reset to zero and a new
  interest for the same name is sent, with the exclude of the answered interest extended
  by the exclude-before of the received begin component and with child selector 1, but
  without link and selected delegation, bound to the same delegation index; \<open>m_ekeyInfo\<close>
  is unchanged. Otherwise the content key is wrapped under the received key: when the
  cipher yields a payload the wrapping returns true and \<open>m_ekeyInfo\<close> of the interest's
  name becomes \<open>{beginTs, endTs, payload}\<close>; when the cipher throws, the exception leaves
  the handler and nothing is updated; and whatever the wrapping returns, \<open>m_ekeyInfo\<close> is
  updated exactly when it returns true.
\<close>

theorem handleCoveringKey_cases:
  "m_keyRequests p timeslot = Some kr
   \<and> Name_get (dataName d) START_TS_INDEX = Some startComponent
   \<and> fromIsoString lib (toUri lib startComponent) = Some beginTs
   \<and> Name_get (dataName d) END_TS_INDEX = Some endComponent
   \<and> fromIsoString lib (toUri lib endComponent) = Some endTs
   \<longrightarrow>
   (timeslot \<ge> endTs \<longrightarrow>
      handleCoveringKey lib p interest d delegationIndex timeslot callback errorCallback
      = Inr (p\<lparr>m_keyRequests := (m_keyRequests p)(timeslot \<mapsto>
                kr\<lparr>repeatAttempts := (repeatAttempts kr)(interestName interest \<mapsto> 0)\<rparr>)\<rparr>,
             [ExpressInterest
                \<lparr>pInterest =
                   \<lparr>interestName = interestName interest,
                    exclude = exclude interest @ [ExcludeBefore startComponent],
                    childSelector = Some 1, link = None, selectedDelegation = None\<rparr>,
                 pDelegationIndex = delegationIndex, pTimeslot = timeslot,
                 pCallback = callback, pErrorCallback = errorCallback\<rparr>]))
   \<and> (timeslot < endTs \<longrightarrow>
      (oaepShaEncryptor lib (dataContent d) (getContentKey (m_db p) timeslot) = Inr c
        \<longrightarrow> (\<exists>p' effs.
             encryptContentKey lib p (dataContent d) (dataName d) timeslot callback
               errorCallback = Inr (True, p', effs)
             \<and> m_ekeyInfo p' = m_ekeyInfo p
             \<and> handleCoveringKey lib p interest d delegationIndex timeslot callback
                 errorCallback
               = Inr (p'\<lparr>m_ekeyInfo := AList.update (interestName interest)
                            \<lparr>beginTimeslot = beginTs, endTimeslot = endTs,
                             keyBits = dataContent d\<rparr> (m_ekeyInfo p)\<rparr>, effs)))
      \<and> (oaepShaEncryptor lib (dataContent d) (getContentKey (m_db p) timeslot) = Inl what
        \<longrightarrow> encryptContentKey lib p (dataContent d) (dataName d) timeslot callback
               errorCallback = Inl (Uncaught (CryptoppException what))
            \<and> handleCoveringKey lib p interest d delegationIndex timeslot callback
                 errorCallback = Inl (Uncaught (CryptoppException what)))
      \<and> (encryptContentKey lib p (dataContent d) (dataName d) timeslot callback errorCallback
           = Inr (ok, p1, effs1)
        \<longrightarrow> m_ekeyInfo p1 = m_ekeyInfo p
            \<and> handleCoveringKey lib p interest d delegationIndex timeslot callback
                 errorCallback
               = Inr (if ok
                      then p1\<lparr>m_ekeyInfo := AList.update (interestName interest)
                                \<lparr>beginTimeslot = beginTs, endTimeslot = endTs,
                                 keyBits = dataContent d\<rparr> (m_ekeyInfo p)\<rparr>
                      else p1, effs1)))"
proof (intro impI conjI)
  assume a: "m_keyRequests p timeslot = Some kr
   \<and> Name_get (dataName d) START_TS_INDEX = Some startComponent
   \<and> fromIsoString lib (toUri lib startComponent) = Some beginTs
   \<and> Name_get (dataName d) END_TS_INDEX = Some endComponent
   \<and> fromIsoString lib (toUri lib endComponent) = Some endTs"
  from a have k: "m_keyRequests p timeslot = Some kr" by simp
  have later: "handleCoveringKey lib p interest d delegationIndex timeslot callback errorCallback
         = (case encryptContentKey lib p (dataContent d) (dataName d) timeslot callback
                   errorCallback of
              Inl e \<Rightarrow> Inl e
            | Inr (ok, p', effs) \<Rightarrow>
                Inr (if ok
                     then p'\<lparr>m_ekeyInfo := AList.update (interestName interest)
                               \<lparr>beginTimeslot = beginTs, endTimeslot = endTs,
                                keyBits = dataContent d\<rparr> (m_ekeyInfo p')\<rparr>
                     else p', effs))"
    if "timeslot < endTs"
    using a that by (simp add: handleCoveringKey_def split: sum.splits)
  {
    assume "timeslot \<ge> endTs"
    with a show "handleCoveringKey lib p interest d delegationIndex timeslot callback
        errorCallback
      = Inr (p\<lparr>m_keyRequests := (m_keyRequests p)(timeslot \<mapsto>
                kr\<lparr>repeatAttempts := (repeatAttempts kr)(interestName interest \<mapsto> 0)\<rparr>)\<rparr>,
             [ExpressInterest
                \<lparr>pInterest =
                   \<lparr>interestName = interestName interest,
                    exclude = exclude interest @ [ExcludeBefore startComponent],
                    childSelector = Some 1, link = None, selectedDelegation = None\<rparr>,
                 pDelegationIndex = delegationIndex, pTimeslot = timeslot,
                 pCallback = callback, pErrorCallback = errorCallback\<rparr>])"
      by (simp add: handleCoveringKey_def sendKeyInterest_def laterKeyInterest_def
          Interest_of_def)
  }
  {
    assume lt: "timeslot < endTs"
      and o: "oaepShaEncryptor lib (dataContent d) (getContentKey (m_db p) timeslot) = Inr c"
    from encryptContentKey_cases [OF k, of lib "dataContent d" "dataName d" callback
        errorCallback] o
    obtain p' effs where
      e: "encryptContentKey lib p (dataContent d) (dataName d) timeslot callback errorCallback
           = Inr (True, p', effs)"
      by auto
    have m: "m_ekeyInfo p' = m_ekeyInfo p" using encryptContentKey_ekeyInfo [OF e] .
    have "handleCoveringKey lib p interest d delegationIndex timeslot callback errorCallback
           = Inr (p'\<lparr>m_ekeyInfo := AList.update (interestName interest)
                            \<lparr>beginTimeslot = beginTs, endTimeslot = endTs,
                             keyBits = dataContent d\<rparr> (m_ekeyInfo p)\<rparr>, effs)"
      using later [OF lt] e m by simp
    with e m show "\<exists>p' effs.
             encryptContentKey lib p (dataContent d) (dataName d) timeslot callback
               errorCallback = Inr (True, p', effs)
             \<and> m_ekeyInfo p' = m_ekeyInfo p
             \<and> handleCoveringKey lib p interest d delegationIndex timeslot callback
                 errorCallback
               = Inr (p'\<lparr>m_ekeyInfo := AList.update (interestName interest)
                            \<lparr>beginTimeslot = beginTs, endTimeslot = endTs,
                             keyBits = dataContent d\<rparr> (m_ekeyInfo p)\<rparr>, effs)"
      by blast
  }
  {
    assume lt: "timeslot < endTs"
      and o: "oaepShaEncryptor lib (dataContent d) (getContentKey (m_db p) timeslot) = Inl what"
    from encryptContentKey_raises [OF k o]
    show e: "encryptContentKey lib p (dataContent d) (dataName d) timeslot callback
               errorCallback = Inl (Uncaught (CryptoppException what))" .
    show "handleCoveringKey lib p interest d delegationIndex timeslot callback
                 errorCallback = Inl (Uncaught (CryptoppException what))"
      using later [OF lt] e by simp
  }
  {
    assume lt: "timeslot < endTs"
      and e: "encryptContentKey lib p (dataContent d) (dataName d) timeslot callback
           errorCallback = Inr (ok, p1, effs1)"
    show m: "m_ekeyInfo p1 = m_ekeyInfo p" using encryptContentKey_ekeyInfo [OF e] .
    show "handleCoveringKey lib p interest d delegationIndex timeslot callback
                 errorCallback
               = Inr (if ok
                      then p1\<lparr>m_ekeyInfo := AList.update (interestName interest)
                                \<lparr>beginTimeslot = beginTs, endTimeslot = endTs,
                                 keyBits = dataContent d\<rparr> (m_ekeyInfo p)\<rparr>
                      else p1, effs1)"
      using later [OF lt] e m by simp
  }
qed

theorem handleCoveringKey_cases_witness:
  "Name_get (dataName (\<lparr>dataName = [''p'', ''READ'', ''x'', ''E-KEY'', ''19700101T000000'', ''19700102T000000''],
        dataContent = [5], dataSigned = True\<rparr> :: Buffer Data)) START_TS_INDEX = Some ''19700101T000000''
   \<and> fromIsoString exampleLib (toUri exampleLib ''19700101T000000'') = Some 0
   \<and> Name_get (dataName (\<lparr>dataName = [''p'', ''READ'', ''x'', ''E-KEY'', ''19700101T000000'', ''19700102T000000''],
        dataContent = [5], dataSigned = True\<rparr> :: Buffer Data)) END_TS_INDEX = Some ''19700102T000000''
   \<and> fromIsoString exampleLib (toUri exampleLib ''19700102T000000'') = Some 86400000
   \<and> m_keyRequests ((Producer_of [''p''] [''x''] [48 \<mapsto> [1]] 1 [])
        \<lparr>m_keyRequests := [172800000 \<mapsto> KeyRequest_of 1]\<rparr>) 172800000 = Some (KeyRequest_of 1)
   \<and> handleCoveringKey exampleLib ((Producer_of [''p''] [''x''] [48 \<mapsto> [1]] 1 [])
        \<lparr>m_keyRequests := [172800000 \<mapsto> KeyRequest_of 1]\<rparr>) \<lparr>interestName = [''p'', ''READ'', ''x'', ''E-KEY''],
        exclude = [ExcludeAfter ''19700103T000000''], childSelector = Some 1,
        link = None, selectedDelegation = None\<rparr> \<lparr>dataName = [''p'', ''READ'', ''x'', ''E-KEY'', ''19700101T000000'', ''19700102T000000''],
        dataContent = [5], dataSigned = True\<rparr> 0 172800000 (Some 7) 9
       = Inr (((Producer_of [''p''] [''x''] [48 \<mapsto> [1]] 1 [])
        \<lparr>m_keyRequests := [172800000 \<mapsto> KeyRequest_of 1]\<rparr>)\<lparr>m_keyRequests :=
                [172800000 \<mapsto> (KeyRequest_of 1)
                   \<lparr>repeatAttempts := [[''p'', ''READ'', ''x'', ''E-KEY''] \<mapsto> 0]\<rparr>]\<rparr>,
              [ExpressInterest
                 \<lparr>pInterest =
                    \<lparr>interestName = [''p'', ''READ'', ''x'', ''E-KEY''],
                     exclude = [ExcludeAfter ''19700103T000000'',
                                ExcludeBefore ''19700101T000000''],
                     childSelector = Some 1, link = None, selectedDelegation = None\<rparr>,
                  pDelegationIndex = 0, pTimeslot = 172800000, pCallback = Some 7,
                  pErrorCallback = 9\<rparr>])
   \<and> m_keyRequests ((Producer_of [''p''] [''x''] [1 \<mapsto> [2]] 1 [])
        \<lparr>m_keyRequests := [3600000 \<mapsto> KeyRequest_of 1]\<rparr>) 3600000 = Some (KeyRequest_of 1)
   \<and> oaepShaEncryptor exampleLib [5]
        (getContentKey (m_db ((Producer_of [''p''] [''x''] [1 \<mapsto> [2]] 1 [])
           \<lparr>m_keyRequests := [3600000 \<mapsto> KeyRequest_of 1]\<rparr>)) 3600000) = Inr [7]
   \<and> (\<exists>p' effs.
        encryptContentKey exampleLib ((Producer_of [''p''] [''x''] [1 \<mapsto> [2]] 1 [])
        \<lparr>m_keyRequests := [3600000 \<mapsto> KeyRequest_of 1]\<rparr>) [5]
          [''p'', ''READ'', ''x'', ''E-KEY'', ''19700101T000000'', ''19700102T000000'']
          3600000 (Some 7) 9 = Inr (True, p', effs)
        \<and> m_ekeyInfo p' = m_ekeyInfo ((Producer_of [''p''] [''x''] [1 \<mapsto> [2]] 1 [])
        \<lparr>m_keyRequests := [3600000 \<mapsto> KeyRequest_of 1]\<rparr>)
        \<and> handleCoveringKey exampleLib ((Producer_of [''p''] [''x''] [1 \<mapsto> [2]] 1 [])
        \<lparr>m_keyRequests := [3600000 \<mapsto> KeyRequest_of 1]\<rparr>) \<lparr>interestName = [''p'', ''READ'', ''x'', ''E-KEY''],
        exclude = [ExcludeAfter ''19700101T010000''], childSelector = Some 1,
        link = None, selectedDelegation = None\<rparr> \<lparr>dataName = [''p'', ''READ'', ''x'', ''E-KEY'', ''19700101T000000'', ''19700102T000000''],
        dataContent = [5], dataSigned = True\<rparr> 0 3600000 (Some 7) 9
          = Inr (p'\<lparr>m_ekeyInfo :=
                     [([''p'', ''READ'', ''x'', ''E-KEY''],
                       \<lparr>beginTimeslot = 0, endTimeslot = 86400000, keyBits = [5]\<rparr>)]\<rparr>,
                 effs)
        \<and> (if True then p'\<lparr>m_ekeyInfo :=
                     [([''p'', ''READ'', ''x'', ''E-KEY''],
                       \<lparr>beginTimeslot = 0, endTimeslot = 86400000, keyBits = [5]\<rparr>)]\<rparr>
            else p') = p'\<lparr>m_ekeyInfo :=
                     [([''p'', ''READ'', ''x'', ''E-KEY''],
                       \<lparr>beginTimeslot = 0, endTimeslot = 86400000, keyBits = [5]\<rparr>)]\<rparr>)
   \<and> oaepShaEncryptor exampleLib []
        (getContentKey (m_db ((Producer_of [''p''] [''x''] [1 \<mapsto> [2]] 1 [])
           \<lparr>m_keyRequests := [3600000 \<mapsto> KeyRequest_of 1]\<rparr>)) 3600000) = Inl ''empty key''
   \<and> handleCoveringKey exampleLib ((Producer_of [''p''] [''x''] [1 \<mapsto> [2]] 1 [])
        \<lparr>m_keyRequests := [3600000 \<mapsto> KeyRequest_of 1]\<rparr>) \<lparr>interestName = [''p'', ''READ'', ''x'', ''E-KEY''],
        exclude = [ExcludeAfter ''19700101T010000''], childSelector = Some 1,
        link = None, selectedDelegation = None\<rparr> \<lparr>dataName = [''p'', ''READ'', ''x'', ''E-KEY'', ''19700101T000000'', ''19700102T000000''],
        dataContent = [], dataSigned = True\<rparr> 0 3600000 (Some 7) 9
       = Inl (Uncaught (CryptoppException ''empty key''))"
proof -
  define pa where "pa = ((Producer_of [''p''] [''x''] [48 \<mapsto> [1]] 1 [])
        \<lparr>m_keyRequests := [172800000 \<mapsto> KeyRequest_of 1]\<rparr>)"
  define pb where "pb = ((Producer_of [''p''] [''x''] [1 \<mapsto> [2]] 1 [])
        \<lparr>m_keyRequests := [3600000 \<mapsto> KeyRequest_of 1]\<rparr>)"
  define d :: "Buffer Data" where "d = \<lparr>dataName = [''p'', ''READ'', ''x'', ''E-KEY'', ''19700101T000000'', ''19700102T000000''],
        dataContent = [5], dataSigned = True\<rparr>"
  define d0 :: "Buffer Data" where "d0 = \<lparr>dataName = [''p'', ''READ'', ''x'', ''E-KEY'', ''19700101T000000'', ''19700102T000000''],
        dataContent = [], dataSigned = True\<rparr>"
  define ia where "ia = \<lparr>interestName = [''p'', ''READ'', ''x'', ''E-KEY''],
        exclude = [ExcludeAfter ''19700103T000000''], childSelector = Some 1,
        link = None, selectedDelegation = None\<rparr>"
  define ib where "ib = \<lparr>interestName = [''p'', ''READ'', ''x'', ''E-KEY''],
        exclude = [ExcludeAfter ''19700101T010000''], childSelector = Some 1,
        link = None, selectedDelegation = None\<rparr>"
  have n: "Name_get (dataName d) START_TS_INDEX = Some ''19700101T000000''"
    "fromIsoString exampleLib (toUri exampleLib ''19700101T000000'') = Some 0"
    "Name_get (dataName d) END_TS_INDEX = Some ''19700102T000000''"
    "fromIsoString exampleLib (toUri exampleLib ''19700102T000000'') = Some 86400000"
    by (simp_all add: d_def name_defs example_defs)
  have n0: "Name_get (dataName d0) START_TS_INDEX = Some ''19700101T000000''"
    "Name_get (dataName d0) END_TS_INDEX = Some ''19700102T000000''"
    by (simp_all add: d0_def name_defs)
  have ka: "m_keyRequests pa 172800000 = Some (KeyRequest_of 1)" by (simp add: pa_def)
  have kb: "m_keyRequests pb 3600000 = Some (KeyRequest_of 1)" by (simp add: pb_def)
  have o5: "oaepShaEncryptor exampleLib (dataContent d) (getContentKey (m_db pb) 3600000)
      = Inr [7]"
    by (simp add: d_def pb_def Producer_of_def getContentKey_def dbRow_def example_defs)
  have o0: "oaepShaEncryptor exampleLib (dataContent d0) (getContentKey (m_db pb) 3600000)
      = Inl ''empty key''"
    by (simp add: d0_def example_defs)
  from handleCoveringKey_cases [where p = pa and timeslot = 172800000
      and kr = "KeyRequest_of 1" and d = d and startComponent = "''19700101T000000''"
      and lib = exampleLib and beginTs = 0 and endComponent = "''19700102T000000''"
      and endTs = 86400000 and interest = ia and delegationIndex = 0
      and callback = "Some 7" and errorCallback = 9] n ka
  have a: "handleCoveringKey exampleLib pa ia d 0 172800000 (Some 7) 9
      = Inr (pa\<lparr>m_keyRequests := (m_keyRequests pa)(172800000 \<mapsto>
                (KeyRequest_of 1)\<lparr>repeatAttempts :=
                   (repeatAttempts (KeyRequest_of 1))(interestName ia \<mapsto> 0)\<rparr>)\<rparr>,
             [ExpressInterest
                \<lparr>pInterest =
                   \<lparr>interestName = interestName ia,
                    exclude = exclude ia @ [ExcludeBefore ''19700101T000000''],
                    childSelector = Some 1, link = None, selectedDelegation = None\<rparr>,
                 pDelegationIndex = 0, pTimeslot = 172800000,
                 pCallback = Some 7, pErrorCallback = 9\<rparr>])"
    by simp
  have a': "handleCoveringKey exampleLib pa ia d 0 172800000 (Some 7) 9
       = Inr (pa\<lparr>m_keyRequests :=
                [172800000 \<mapsto> (KeyRequest_of 1)
                   \<lparr>repeatAttempts := [[''p'', ''READ'', ''x'', ''E-KEY''] \<mapsto> 0]\<rparr>]\<rparr>,
              [ExpressInterest
                 \<lparr>pInterest =
                    \<lparr>interestName = [''p'', ''READ'', ''x'', ''E-KEY''],
                     exclude = [ExcludeAfter ''19700103T000000'',
                                ExcludeBefore ''19700101T000000''],
                     childSelector = Some 1, link = None, selectedDelegation = None\<rparr>,
                  pDelegationIndex = 0, pTimeslot = 172800000, pCallback = Some 7,
                  pErrorCallback = 9\<rparr>])"
    unfolding a by (simp add: pa_def ia_def KeyRequest_of_def)
  from handleCoveringKey_cases [where p = pb and timeslot = 3600000
      and kr = "KeyRequest_of 1" and d = d and startComponent = "''19700101T000000''"
      and lib = exampleLib and beginTs = 0 and endComponent = "''19700102T000000''"
      and endTs = 86400000 and interest = ib and delegationIndex = 0
      and callback = "Some 7" and errorCallback = 9 and c = "[7]" and ok = True
      and ?p1.0 = pb and ?effs1.0 = "[]"] n kb o5
  obtain p' effs where
    e: "encryptContentKey exampleLib pb (dataContent d) (dataName d) 3600000 (Some 7) 9
           = Inr (True, p', effs)"
    and m: "m_ekeyInfo p' = m_ekeyInfo pb"
    and h: "handleCoveringKey exampleLib pb ib d 0 3600000 (Some 7) 9
           = Inr (p'\<lparr>m_ekeyInfo := AList.update (interestName ib)
                            \<lparr>beginTimeslot = 0, endTimeslot = 86400000,
                             keyBits = dataContent d\<rparr> (m_ekeyInfo pb)\<rparr>, effs)"
    by auto
  from handleCoveringKey_cases [where p = pb and timeslot = 3600000
      and kr = "KeyRequest_of 1" and d = d and startComponent = "''19700101T000000''"
      and lib = exampleLib and beginTs = 0 and endComponent = "''19700102T000000''"
      and endTs = 86400000 and interest = ib and delegationIndex = 0
      and callback = "Some 7" and errorCallback = 9 and ok = True and ?p1.0 = p'
      and ?effs1.0 = effs] n kb e
  have h': "handleCoveringKey exampleLib pb ib d 0 3600000 (Some 7) 9
           = Inr (if True
                  then p'\<lparr>m_ekeyInfo := AList.update (interestName ib)
                            \<lparr>beginTimeslot = 0, endTimeslot = 86400000,
                             keyBits = dataContent d\<rparr> (m_ekeyInfo pb)\<rparr>
                  else p', effs)"
    by simp
  from handleCoveringKey_cases [where p = pb and timeslot = 3600000
      and kr = "KeyRequest_of 1" and d = d0 and startComponent = "''19700101T000000''"
      and lib = exampleLib and beginTs = 0 and endComponent = "''19700102T000000''"
      and endTs = 86400000 and interest = ib and delegationIndex = 0
      and callback = "Some 7" and errorCallback = 9 and what = "''empty key''"]
    n0 n(2,4) kb o0
  have r: "handleCoveringKey exampleLib pb ib d0 0 3600000 (Some 7) 9
      = Inl (Uncaught (CryptoppException ''empty key''))"
    by simp
  have u: "AList.update (interestName ib)
             \<lparr>beginTimeslot = 0, endTimeslot = 86400000, keyBits = dataContent d\<rparr>
             (m_ekeyInfo pb)
           = [([''p'', ''READ'', ''x'', ''E-KEY''],
               \<lparr>beginTimeslot = 0, endTimeslot = 86400000, keyBits = [5]\<rparr>)]"
    by (simp add: pb_def ib_def d_def Producer_of_def ekeyNodes_Nil ekeyNodes_Cons name_defs)
  have b: "\<exists>p' effs.
        encryptContentKey exampleLib pb [5]
          [''p'', ''READ'', ''x'', ''E-KEY'', ''19700101T000000'', ''19700102T000000'']
          3600000 (Some 7) 9 = Inr (True, p', effs)
        \<and> m_ekeyInfo p' = m_ekeyInfo pb
        \<and> handleCoveringKey exampleLib pb ib d 0 3600000 (Some 7) 9
          = Inr (p'\<lparr>m_ekeyInfo :=
                     [([''p'', ''READ'', ''x'', ''E-KEY''],
                       \<lparr>beginTimeslot = 0, endTimeslot = 86400000, keyBits = [5]\<rparr>)]\<rparr>,
                 effs)
        \<and> (if True then p'\<lparr>m_ekeyInfo :=
                     [([''p'', ''READ'', ''x'', ''E-KEY''],
                       \<lparr>beginTimeslot = 0, endTimeslot = 86400000, keyBits = [5]\<rparr>)]\<rparr>
            else p') = p'\<lparr>m_ekeyInfo :=
                     [([''p'', ''READ'', ''x'', ''E-KEY''],
                       \<lparr>beginTimeslot = 0, endTimeslot = 86400000, keyBits = [5]\<rparr>)]\<rparr>"
    using e m h h' u by (auto simp: d_def)
  have o5': "oaepShaEncryptor exampleLib [5] (getContentKey (m_db pb) 3600000) = Inr [7]"
    using o5 by (simp add: d_def)
  have o0': "oaepShaEncryptor exampleLib [] (getContentKey (m_db pb) 3600000)
      = Inl ''empty key''"
    using o0 by (simp add: d0_def)
  show ?thesis
    using n ka a' kb o5' b o0' r unfolding pa_def pb_def d_def d0_def ia_def ib_def by blast
qed

section \<open>Properties of the consumer\<close>

lemmas consumer_defs =
  decryptDKey_def decryptCKey_def decryptContent_def getDecryptionKey_def getKey_def
  sendInterest_def blockFromValue_def dKeyNameOf_def insertKey_def Rsa_decrypt_def cryptopp_def
  consumerHandleNack_def consumerHandleTimeout_def retrievalFailure_def consume_def
  hasSelectedDelegation_def setLink_def setSelectedDelegation_def Interest_of_def

lemma decryptDKey_reports_format:
  assumes "length (dataContent dKeyData) \<noteq> 2"
    and "decryptDKey lib c dKeyData plainTextCallBack errorCallback = Inr (c', effs)"
  shows "\<exists>rest. effs = ReportError errorCallback InvalidEncryptedFormat
                          ''Data packet does not satisfy D-KEY packet format'' # rest"
  using assms
  by (auto simp: decryptDKey_def Let_def split: list.splits Block.splits if_splits sum.splits)

text \<open>
  C2. A D-KEY packet whose content parses into three sub-blocks, the first two well
  formed, for a consumer that has the key named by the first: the error callback is called
  with \<open>InvalidEncryptedFormat\<close>, and then the function goes on as for a good packet; it
  decrypts the nonce with the consumer's key and the second block with the nonce, and calls
  the plain-text callback with the result.
\<close>

theorem decryptDKey_goes_on_after_format_error:
  "decryptDKey exampleLib
     \<lparr>m_consumerDb = [[''c'', ''k''] \<mapsto> [3]], m_groupName = [''g''],
      m_consumerName = [''c''], m_cKeyLink = [], m_dKeyLink = [],
      m_cKeyMap = Map.empty, m_dKeyMap = Map.empty\<rparr>
     \<lparr>dataName = [''p'', ''READ'', ''x'', ''D-KEY'', ''19700101T000000'', ''19700102T000000'',
                   ''FOR'', ''c''],
      dataContent =
        [EncryptedContentBlock
           \<lparr>algorithmType = AlgorithmRsaOaep, keyLocator = [''c'', ''k''],
            initialVector = [], payload = [7]\<rparr>,
         EncryptedContentBlock
           \<lparr>algorithmType = AlgorithmAesCbc, keyLocator = [''nonce''],
            initialVector = [0], payload = [9, 10]\<rparr>,
         OpaqueBlock [1]],
      dataSigned = True\<rparr>
     (ConsumptionCallBack 1 \<lparr>dataName = [], dataContent = [], dataSigned = True\<rparr>) 9
   = Inr (\<lparr>m_consumerDb = [[''c'', ''k''] \<mapsto> [3]], m_groupName = [''g''],
           m_consumerName = [''c''], m_cKeyLink = [], m_dKeyLink = [],
           m_cKeyMap = Map.empty, m_dKeyMap = Map.empty\<rparr>,
          [ReportError 9 InvalidEncryptedFormat
             ''Data packet does not satisfy D-KEY packet format'',
           Consumed 1 \<lparr>dataName = [], dataContent = [], dataSigned = True\<rparr> [5, 6]])"
  by (simp add: consumer_defs example_defs)

text \<open>The interest with the link and delegation \<open>j\<close>, as the face holds it after a NACK.\<close>

lemma nack_first:
  assumes "delegations \<noteq> []" and "selectedDelegation interest = None"
  shows "consumerHandleNack lib interest delegations delegationIndex callback errorCallback
     = [SendInterest
          \<lparr>cInterest = interest\<lparr>link := Some delegations, selectedDelegation := Some 0\<rparr>,
           cRetrials = 0, cDelegations = delegations, cDelegationIndex = 0,
           cValidationCallback = callback, cErrorCallback = errorCallback\<rparr>]"
  using assms
  by (simp add: consumerHandleNack_def hasSelectedDelegation_def sendInterest_def
      setLink_def setSelectedDelegation_def)

lemma nack_next:
  assumes "delegations \<noteq> []" and "selectedDelegation interest \<noteq> None"
    and "delegationIndex + 1 < length delegations"
  shows "consumerHandleNack lib interest delegations delegationIndex callback errorCallback
     = [SendInterest
          \<lparr>cInterest = interest\<lparr>selectedDelegation := Some (delegationIndex + 1)\<rparr>,
           cRetrials = 0, cDelegations = delegations, cDelegationIndex = delegationIndex + 1,
           cValidationCallback = callback, cErrorCallback = errorCallback\<rparr>]"
  using assms
  by (simp add: consumerHandleNack_def hasSelectedDelegation_def sendInterest_def
      setSelectedDelegation_def Let_def)

lemma nack_last:
  assumes "delegations = [] \<or> (selectedDelegation interest \<noteq> None
             \<and> \<not> delegationIndex + 1 < length delegations)"
  shows "consumerHandleNack lib interest delegations delegationIndex callback errorCallback
     = [ReportError errorCallback DataRetrievalFailure (nameToUri lib (interestName interest))]"
  using assms
  by (auto simp: consumerHandleNack_def hasSelectedDelegation_def retrievalFailure_def Let_def)

lemma nacked_from:
  assumes "j < length delegations" and "length delegations - j \<le> n"
  shows "nackedThroughout lib n
       \<lparr>cInterest = interest\<lparr>link := Some delegations, selectedDelegation := Some j\<rparr>,
        cRetrials = 0, cDelegations = delegations, cDelegationIndex = j,
        cValidationCallback = callback, cErrorCallback = errorCallback\<rparr>
     = map (\<lambda>k. SendInterest
               \<lparr>cInterest = interest\<lparr>link := Some delegations, selectedDelegation := Some k\<rparr>,
                cRetrials = 0, cDelegations = delegations, cDelegationIndex = k,
                cValidationCallback = callback, cErrorCallback = errorCallback\<rparr>)
         [Suc j..<length delegations]
       @ [ReportError errorCallback DataRetrievalFailure
            (nameToUri lib (interestName interest))]"
  using assms
proof (induction n arbitrary: j)
  case 0
  then show ?case by simp
next
  case (Suc n)
  have ne: "delegations \<noteq> []" using Suc.prems(1) by auto
  show ?case
  proof (cases "j + 1 < length delegations")
    case True
    have "consumerHandleNack lib
            (interest\<lparr>link := Some delegations, selectedDelegation := Some j\<rparr>)
            delegations j callback errorCallback
        = [SendInterest
             \<lparr>cInterest = interest\<lparr>link := Some delegations, selectedDelegation := Some j\<rparr>
                  \<lparr>selectedDelegation := Some (j + 1)\<rparr>,
              cRetrials = 0, cDelegations = delegations, cDelegationIndex = j + 1,
              cValidationCallback = callback, cErrorCallback = errorCallback\<rparr>]"
      using ne True by (intro nack_next) simp_all
    moreover have "length delegations - Suc j \<le> n" using Suc.prems(2) True by simp
    moreover have "[Suc j..<length delegations] = Suc j # [Suc (Suc j)..<length delegations]"
      using True by (simp add: upt_conv_Cons)
    ultimately show ?thesis
      using Suc.IH [of "Suc j"] True by simp
  next
    case False
    then have "[Suc j..<length delegations] = []" by simp
    moreover have "consumerHandleNack lib
            (interest\<lparr>link := Some delegations, selectedDelegation := Some j\<rparr>)
            delegations j callback errorCallback
        = [ReportError errorCallback DataRetrievalFailure
             (nameToUri lib (interestName interest))]"
      using nack_last [of delegations
          "interest\<lparr>link := Some delegations, selectedDelegation := Some j\<rparr>" j lib
          callback errorCallback] False
      by simp
    ultimately show ?thesis by simp
  qed
qed

lemma nacked_fresh:
  assumes "delegations \<noteq> []" and "selectedDelegation interest = None"
    and "length delegations < n"
  shows "nackedThroughout lib n
       \<lparr>cInterest = interest, cRetrials = nRetrials, cDelegations = delegations,
        cDelegationIndex = delegationIndex,
        cValidationCallback = callback, cErrorCallback = errorCallback\<rparr>
     = map (\<lambda>k. SendInterest
               \<lparr>cInterest = interest\<lparr>link := Some delegations, selectedDelegation := Some k\<rparr>,
                cRetrials = 0, cDelegations = delegations, cDelegationIndex = k,
                cValidationCallback = callback, cErrorCallback = errorCallback\<rparr>)
         [0..<length delegations]
       @ [ReportError errorCallback DataRetrievalFailure
            (nameToUri lib (interestName interest))]"
proof -
  obtain m where n: "n = Suc m" using assms(3) by (cases n) auto
  have pos: "0 < length delegations" using assms(1) by simp
  have le: "length delegations - 0 \<le> m" using assms(3) n by simp
  have u: "[0..<length delegations] = 0 # [Suc 0..<length delegations]"
    using pos by (simp add: upt_conv_Cons)
  show ?thesis
    unfolding n u
    using nack_first [OF assms(1,2), of lib delegationIndex callback errorCallback]
      nacked_from [OF pos le, of lib interest callback errorCallback]
    by simp
qed

text \<open>
  C6. On a timeout with a positive budget the same interest is sent again with the budget
  less one, delegations and index as they were; with no budget left the timeout is handled
  as a NACK. On a NACK with delegations, an interest without a selected delegation is sent
  again with the link attached and delegation 0 selected; one that has a delegation
  selected is sent again with the next index selected, when there is one; each with budget
  zero. When there are no delegations, or none is left, the error callback is called with
  \<open>DataRetrievalFailure\<close> and the URI of the interest's name. If every answer is a NACK, an
  interest without a selected delegation is followed by one interest for each delegation,
  in index order, each once, and then by the failure report.
\<close>

theorem consumer_retry_and_delegations:
  "(0 < nRetrials \<longrightarrow>
      consumerHandleTimeout lib interest nRetrials delegations delegationIndex callback
        errorCallback
      = [SendInterest
           \<lparr>cInterest = interest, cRetrials = nRetrials - 1, cDelegations = delegations,
            cDelegationIndex = delegationIndex, cValidationCallback = callback,
            cErrorCallback = errorCallback\<rparr>])
   \<and> (nRetrials \<le> 0 \<longrightarrow>
      consumerHandleTimeout lib interest nRetrials delegations delegationIndex callback
        errorCallback
      = consumerHandleNack lib interest delegations delegationIndex callback errorCallback)
   \<and> (delegations \<noteq> [] \<and> selectedDelegation interest = None \<longrightarrow>
      consumerHandleNack lib interest delegations delegationIndex callback errorCallback
      = [SendInterest
           \<lparr>cInterest = interest\<lparr>link := Some delegations, selectedDelegation := Some 0\<rparr>,
            cRetrials = 0, cDelegations = delegations, cDelegationIndex = 0,
            cValidationCallback = callback, cErrorCallback = errorCallback\<rparr>])
   \<and> (delegations \<noteq> [] \<and> selectedDelegation interest \<noteq> None
        \<and> delegationIndex + 1 < length delegations \<longrightarrow>
      consumerHandleNack lib interest delegations delegationIndex callback errorCallback
      = [SendInterest
           \<lparr>cInterest = interest\<lparr>selectedDelegation := Some (delegationIndex + 1)\<rparr>,
            cRetrials = 0, cDelegations = delegations, cDelegationIndex = delegationIndex + 1,
            cValidationCallback = callback, cErrorCallback = errorCallback\<rparr>])
   \<and> (delegations = [] \<or> (selectedDelegation interest \<noteq> None
          \<and> \<not> delegationIndex + 1 < length delegations) \<longrightarrow>
      consumerHandleNack lib interest delegations delegationIndex callback errorCallback
      = [ReportError errorCallback DataRetrievalFailure
           (nameToUri lib (interestName interest))])
   \<and> (delegations \<noteq> [] \<and> selectedDelegation interest = None \<and> length delegations < n \<longrightarrow>
      nackedThroughout lib n
        \<lparr>cInterest = interest, cRetrials = nRetrials, cDelegations = delegations,
         cDelegationIndex = delegationIndex,
         cValidationCallback = callback, cErrorCallback = errorCallback\<rparr>
      = map (\<lambda>k. SendInterest
                \<lparr>cInterest = interest\<lparr>link := Some delegations, selectedDelegation := Some k\<rparr>,
                 cRetrials = 0, cDelegations = delegations, cDelegationIndex = k,
                 cValidationCallback = callback, cErrorCallback = errorCallback\<rparr>)
          [0..<length delegations]
        @ [ReportError errorCallback DataRetrievalFailure
             (nameToUri lib (interestName interest))])"
  using nack_first [of delegations interest lib delegationIndex callback errorCallback]
    nack_next [of delegations interest delegationIndex lib callback errorCallback]
    nack_last [of delegations interest delegationIndex lib callback errorCallback]
    nacked_fresh [of delegations interest n lib nRetrials delegationIndex callback errorCallback]
  by (simp add: consumerHandleTimeout_def sendInterest_def)

theorem consumer_retry_and_delegations_witness:
  "(0::int) < 1
   \<and> consumerHandleTimeout exampleLib (Interest_of [''a'', ''b'']) 1 [(0, [''h1'']), (1, [''h2''])] 0 (ContentValidated 1 9) 9
       = [SendInterest \<lparr>cInterest = (Interest_of [''a'', ''b'']), cRetrials = 0, cDelegations = [(0, [''h1'']), (1, [''h2''])],
          cDelegationIndex = 0, cValidationCallback = (ContentValidated 1 9), cErrorCallback = 9\<rparr>]
   \<and> [(0, [''h1'']), (1, [''h2''])] \<noteq> [] \<and> selectedDelegation (Interest_of [''a'', ''b'']) = None
   \<and> consumerHandleNack exampleLib (Interest_of [''a'', ''b'']) [(0, [''h1'']), (1, [''h2''])] 0 (ContentValidated 1 9) 9
       = [SendInterest \<lparr>cInterest = \<lparr>interestName = [''a'', ''b''], exclude = [], childSelector = None,
            link = Some [(0, [''h1'']), (1, [''h2''])], selectedDelegation = Some 0\<rparr>, cRetrials = 0, cDelegations = [(0, [''h1'']), (1, [''h2''])],
          cDelegationIndex = 0, cValidationCallback = (ContentValidated 1 9), cErrorCallback = 9\<rparr>]
   \<and> length [(0, [''h1'']), (1, [''h2''])] < 3
   \<and> nackedThroughout exampleLib 3 \<lparr>cInterest = (Interest_of [''a'', ''b'']), cRetrials = 1, cDelegations = [(0, [''h1'']), (1, [''h2''])],
          cDelegationIndex = 0, cValidationCallback = (ContentValidated 1 9), cErrorCallback = 9\<rparr>
       = [SendInterest \<lparr>cInterest = \<lparr>interestName = [''a'', ''b''], exclude = [], childSelector = None,
            link = Some [(0, [''h1'']), (1, [''h2''])], selectedDelegation = Some 0\<rparr>, cRetrials = 0, cDelegations = [(0, [''h1'']), (1, [''h2''])],
          cDelegationIndex = 0, cValidationCallback = (ContentValidated 1 9), cErrorCallback = 9\<rparr>,
          SendInterest \<lparr>cInterest = \<lparr>interestName = [''a'', ''b''], exclude = [], childSelector = None,
            link = Some [(0, [''h1'']), (1, [''h2''])], selectedDelegation = Some 1\<rparr>, cRetrials = 0, cDelegations = [(0, [''h1'']), (1, [''h2''])],
          cDelegationIndex = 1, cValidationCallback = (ContentValidated 1 9), cErrorCallback = 9\<rparr>,
          ReportError 9 DataRetrievalFailure ''/a/b'']
   \<and> (0::int) \<le> 0 \<and> selectedDelegation (\<lparr>interestName = [''a'', ''b''], exclude = [], childSelector = None,
            link = Some [(0, [''h1'']), (1, [''h2''])], selectedDelegation = Some 0\<rparr>) \<noteq> None
   \<and> 0 + 1 < length [(0, [''h1'']), (1, [''h2''])]
   \<and> consumerHandleTimeout exampleLib (\<lparr>interestName = [''a'', ''b''], exclude = [], childSelector = None,
            link = Some [(0, [''h1'']), (1, [''h2''])], selectedDelegation = Some 0\<rparr>) 0 [(0, [''h1'']), (1, [''h2''])] 0 (ContentValidated 1 9) 9
       = [SendInterest \<lparr>cInterest = \<lparr>interestName = [''a'', ''b''], exclude = [], childSelector = None,
            link = Some [(0, [''h1'']), (1, [''h2''])], selectedDelegation = Some 1\<rparr>, cRetrials = 0, cDelegations = [(0, [''h1'']), (1, [''h2''])],
          cDelegationIndex = 1, cValidationCallback = (ContentValidated 1 9), cErrorCallback = 9\<rparr>]
   \<and> selectedDelegation (\<lparr>interestName = [''a'', ''b''], exclude = [], childSelector = None,
            link = Some [(0, [''h1'']), (1, [''h2''])], selectedDelegation = Some 1\<rparr>) \<noteq> None \<and> \<not> 1 + 1 < length [(0, [''h1'']), (1, [''h2''])]
   \<and> consumerHandleNack exampleLib (\<lparr>interestName = [''a'', ''b''], exclude = [], childSelector = None,
            link = Some [(0, [''h1'']), (1, [''h2''])], selectedDelegation = Some 1\<rparr>) [(0, [''h1'']), (1, [''h2''])] 1 (ContentValidated 1 9) 9
       = [ReportError 9 DataRetrievalFailure ''/a/b'']"
proof -
  define i where "i = (Interest_of [''a'', ''b''])"
  define ds :: Link where "ds = [(0, [''h1'']), (1, [''h2''])]"
  define i0 where "i0 = \<lparr>interestName = [''a'', ''b''], exclude = [], childSelector = None,
            link = Some [(0, [''h1'']), (1, [''h2''])], selectedDelegation = Some 0\<rparr>"
  define i1 where "i1 = \<lparr>interestName = [''a'', ''b''], exclude = [], childSelector = None,
            link = Some [(0, [''h1'']), (1, [''h2''])], selectedDelegation = Some 1\<rparr>"
  have h: "(0::int) < 1" "ds \<noteq> []" "selectedDelegation i = None" "length ds < 3"
    "(0::int) \<le> 0" "selectedDelegation i0 \<noteq> None" "0 + 1 < length ds"
    "selectedDelegation i1 \<noteq> None" "\<not> 1 + 1 < length ds"
    by (simp_all add: i_def ds_def i0_def i1_def Interest_of_def)
  have e: "i\<lparr>link := Some ds, selectedDelegation := Some 0\<rparr> = i0"
    "i0\<lparr>selectedDelegation := Some (0 + 1)\<rparr> = i1"
    "nameToUri exampleLib (interestName i) = ''/a/b''"
    "nameToUri exampleLib (interestName i1) = ''/a/b''"
    "map (\<lambda>k. SendInterest
                \<lparr>cInterest = i\<lparr>link := Some ds, selectedDelegation := Some k\<rparr>,
                 cRetrials = 0, cDelegations = ds, cDelegationIndex = k,
                 cValidationCallback = (ContentValidated 1 9), cErrorCallback = 9\<rparr>)
          [0..<length ds]
     = [SendInterest \<lparr>cInterest = i0, cRetrials = 0, cDelegations = ds, cDelegationIndex = 0,
                      cValidationCallback = (ContentValidated 1 9), cErrorCallback = 9\<rparr>,
        SendInterest \<lparr>cInterest = i1, cRetrials = 0, cDelegations = ds, cDelegationIndex = 1,
                      cValidationCallback = (ContentValidated 1 9), cErrorCallback = 9\<rparr>]"
    by (simp_all add: i_def ds_def i0_def i1_def Interest_of_def exampleLib_def upt_conv_Cons)
  from consumer_retry_and_delegations [of 1 exampleLib i ds 0 "(ContentValidated 1 9)" 9 3] h e
  have a: "consumerHandleTimeout exampleLib i 1 ds 0 (ContentValidated 1 9) 9
       = [SendInterest \<lparr>cInterest = i, cRetrials = 0, cDelegations = ds, cDelegationIndex = 0,
                         cValidationCallback = (ContentValidated 1 9), cErrorCallback = 9\<rparr>]"
    "consumerHandleNack exampleLib i ds 0 (ContentValidated 1 9) 9
       = [SendInterest \<lparr>cInterest = i0, cRetrials = 0, cDelegations = ds,
                         cDelegationIndex = 0, cValidationCallback = (ContentValidated 1 9),
                         cErrorCallback = 9\<rparr>]"
    "nackedThroughout exampleLib 3
        \<lparr>cInterest = i, cRetrials = 1, cDelegations = ds, cDelegationIndex = 0,
         cValidationCallback = (ContentValidated 1 9), cErrorCallback = 9\<rparr>
       = [SendInterest \<lparr>cInterest = i0, cRetrials = 0, cDelegations = ds, cDelegationIndex = 0,
                      cValidationCallback = (ContentValidated 1 9), cErrorCallback = 9\<rparr>,
          SendInterest \<lparr>cInterest = i1, cRetrials = 0, cDelegations = ds, cDelegationIndex = 1,
                      cValidationCallback = (ContentValidated 1 9), cErrorCallback = 9\<rparr>,
          ReportError 9 DataRetrievalFailure ''/a/b'']"
    by simp_all
  from consumer_retry_and_delegations [of 0 exampleLib i0 ds 0 "(ContentValidated 1 9)" 9 0] h e
  have b: "consumerHandleTimeout exampleLib i0 0 ds 0 (ContentValidated 1 9) 9
       = [SendInterest \<lparr>cInterest = i1, cRetrials = 0, cDelegations = ds, cDelegationIndex = 1,
                         cValidationCallback = (ContentValidated 1 9), cErrorCallback = 9\<rparr>]"
    by simp
  from consumer_retry_and_delegations [of 0 exampleLib i1 ds 1 "(ContentValidated 1 9)" 9 0] h e
  have c: "consumerHandleNack exampleLib i1 ds 1 (ContentValidated 1 9) 9
       = [ReportError 9 DataRetrievalFailure ''/a/b'']"
    by simp
  show ?thesis
    using h a b c unfolding i_def ds_def i0_def i1_def by simp
qed

lemma dKeyNameOf_take_drop:
  assumes "3 \<le> length eKeyName"
  shows "dKeyNameOf eKeyName
     = take (length eKeyName - 3) eKeyName @ [NAME_COMPONENT_D_KEY]
       @ drop (length eKeyName - 2) eKeyName"
proof -
  have "nat (int (length eKeyName) - 3) = length eKeyName - 3"
    "nat (int (length eKeyName) - 2) = length eKeyName - 2"
    using assms by simp_all
  then show ?thesis by (simp add: dKeyNameOf_def getPrefix_def getSubName_def)
qed

lemma dKeyNameOf_last_three:
  "dKeyNameOf (pre @ [a, b, c]) = pre @ [NAME_COMPONENT_D_KEY, b, c]"
proof -
  have "length (pre @ [a, b, c]) - 3 = length pre"
    "length (pre @ [a, b, c]) - 2 = Suc (length pre)"
    by simp_all
  then show ?thesis
    using dKeyNameOf_take_drop [of "pre @ [a, b, c]"] by simp
qed

text \<open>
  C8. For an E-KEY name of at least three components, the D-KEY name the consumer derives
  is the E-KEY name without its last three components, then \<open>D-KEY\<close>, then the last two
  components of the E-KEY name. When the content of a C-KEY packet starts with an
  encrypted-content block and no D-KEY is cached under the name derived from its locator,
  \<^verbatim>\<open>decryptCKey\<close> leaves the consumer as it is and sends one interest, for
  \<open>&lt;dKeyName&gt;/FOR/&lt;consumerName&gt;\<close>, with budget 1, the D-KEY link and index 0, whose
  validation callback is the D-KEY stage for that name.
\<close>

theorem decryptCKey_fetches_derived_name:
  "(3 \<le> length eKeyName \<longrightarrow>
      dKeyNameOf eKeyName
      = take (length eKeyName - 3) eKeyName @ [NAME_COMPONENT_D_KEY]
        @ drop (length eKeyName - 2) eKeyName)
   \<and> dKeyNameOf (pre @ [a, b, c]) = pre @ [NAME_COMPONENT_D_KEY, b, c]
   \<and> (dataContent cKeyData = EncryptedContentBlock encrypted # others
        \<and> m_dKeyMap consumer (dKeyNameOf (keyLocator encrypted)) = None \<longrightarrow>
      decryptCKey lib consumer cKeyData plainTextCallBack errorCallback
      = Inr (consumer,
             [SendInterest
                \<lparr>cInterest =
                   \<lparr>interestName = dKeyNameOf (keyLocator encrypted) @ [NAME_COMPONENT_FOR]
                                     @ m_consumerName consumer,
                    exclude = [], childSelector = None, link = None,
                    selectedDelegation = None\<rparr>,
                 cRetrials = 1, cDelegations = m_dKeyLink consumer, cDelegationIndex = 0,
                 cValidationCallback =
                   DKeyValidated (EncryptedContentBlock encrypted)
                     (dKeyNameOf (keyLocator encrypted)) plainTextCallBack errorCallback,
                 cErrorCallback = errorCallback\<rparr>]))"
  using dKeyNameOf_take_drop [of eKeyName] dKeyNameOf_last_three [of pre a b c]
  by (simp add: decryptCKey_def blockFromValue_def sendInterest_def Interest_of_def Let_def)

theorem decryptCKey_fetches_derived_name_witness:
  "3 \<le> length [''p'', ''READ'', ''x'', ''E-KEY'', ''19700101T000000'', ''19700102T000000'']
   \<and> dKeyNameOf [''p'', ''READ'', ''x'', ''E-KEY'', ''19700101T000000'', ''19700102T000000'']
       = [''p'', ''READ'', ''x'', ''D-KEY'', ''19700101T000000'', ''19700102T000000'']
   \<and> m_dKeyMap
        \<lparr>m_consumerDb = [[''c'', ''k''] \<mapsto> [3]], m_groupName = [''g''],
         m_consumerName = [''c''], m_cKeyLink = [], m_dKeyLink = [(0, [''h''])],
         m_cKeyMap = Map.empty, m_dKeyMap = Map.empty\<rparr>
        (dKeyNameOf [''p'', ''READ'', ''x'', ''E-KEY'', ''19700101T000000'',
                     ''19700102T000000'']) = None
   \<and> decryptCKey exampleLib
        \<lparr>m_consumerDb = [[''c'', ''k''] \<mapsto> [3]], m_groupName = [''g''],
         m_consumerName = [''c''], m_cKeyLink = [], m_dKeyLink = [(0, [''h''])],
         m_cKeyMap = Map.empty, m_dKeyMap = Map.empty\<rparr>
        \<lparr>dataName = [''p'', ''SAMPLE'', ''x'', ''C-KEY'', ''19700101T010000''],
         dataContent =
           [EncryptedContentBlock
              \<lparr>algorithmType = AlgorithmRsaOaep,
               keyLocator = [''p'', ''READ'', ''x'', ''E-KEY'', ''19700101T000000'',
                             ''19700102T000000''],
               initialVector = [], payload = [7]\<rparr>],
         dataSigned = True\<rparr>
        (ConsumptionCallBack 1 \<lparr>dataName = [], dataContent = [], dataSigned = True\<rparr>) 9
       = Inr (\<lparr>m_consumerDb = [[''c'', ''k''] \<mapsto> [3]], m_groupName = [''g''],
               m_consumerName = [''c''], m_cKeyLink = [], m_dKeyLink = [(0, [''h''])],
               m_cKeyMap = Map.empty, m_dKeyMap = Map.empty\<rparr>,
              [SendInterest
                 \<lparr>cInterest =
                    \<lparr>interestName = [''p'', ''READ'', ''x'', ''D-KEY'', ''19700101T000000'',
                                      ''19700102T000000'', ''FOR'', ''c''],
                     exclude = [], childSelector = None, link = None,
                     selectedDelegation = None\<rparr>,
                  cRetrials = 1, cDelegations = [(0, [''h''])], cDelegationIndex = 0,
                  cValidationCallback =
                    DKeyValidated
                      (EncryptedContentBlock
                         \<lparr>algorithmType = AlgorithmRsaOaep,
                          keyLocator = [''p'', ''READ'', ''x'', ''E-KEY'', ''19700101T000000'',
                                        ''19700102T000000''],
                          initialVector = [], payload = [7]\<rparr>)
                      [''p'', ''READ'', ''x'', ''D-KEY'', ''19700101T000000'',
                       ''19700102T000000'']
                      (ConsumptionCallBack 1
                         \<lparr>dataName = [], dataContent = [], dataSigned = True\<rparr>) 9,
                  cErrorCallback = 9\<rparr>])"
proof -
  define e where "e = [''p'', ''READ'', ''x'', ''E-KEY'', ''19700101T000000'', ''19700102T000000'']"
  define c where "c =
        \<lparr>m_consumerDb = [[''c'', ''k''] \<mapsto> [3::8 word]], m_groupName = [''g''],
         m_consumerName = [''c''], m_cKeyLink = [], m_dKeyLink = [(0, [''h''])],
         m_cKeyMap = Map.empty, m_dKeyMap = Map.empty\<rparr>"
  define enc where "enc = \<lparr>algorithmType = AlgorithmRsaOaep, keyLocator = e,
               initialVector = [], payload = [7::8 word]\<rparr>"
  define d :: "Block list Data" where "d =
        \<lparr>dataName = [''p'', ''SAMPLE'', ''x'', ''C-KEY'', ''19700101T010000''],
         dataContent = [EncryptedContentBlock enc], dataSigned = True\<rparr>"
  define cb where "cb = ConsumptionCallBack 1
      \<lparr>dataName = [], dataContent = [], dataSigned = True\<rparr>"
  have l: "3 \<le> length e" by (simp add: e_def)
  have t: "take (length e - 3) e @ [NAME_COMPONENT_D_KEY] @ drop (length e - 2) e
      = [''p'', ''READ'', ''x'', ''D-KEY'', ''19700101T000000'', ''19700102T000000'']"
    by (simp add: e_def NAME_COMPONENT_D_KEY_def)
  have h: "dataContent d = EncryptedContentBlock enc # []" by (simp add: d_def)
  have m: "m_dKeyMap c x = None" for x by (simp add: c_def)
  from decryptCKey_fetches_derived_name [of e "[''p'', ''READ'', ''x'']" "''E-KEY''"
      "''19700101T000000''" "''19700102T000000''" d enc "[]"
      c exampleLib cb 9] l h m [of "dKeyNameOf (keyLocator enc)"]
  have n: "dKeyNameOf e = take (length e - 3) e @ [NAME_COMPONENT_D_KEY] @ drop (length e - 2) e"
    and r: "decryptCKey exampleLib c d cb 9
      = Inr (c,
             [SendInterest
                \<lparr>cInterest =
                   \<lparr>interestName = dKeyNameOf (keyLocator enc) @ [NAME_COMPONENT_FOR]
                                     @ m_consumerName c,
                    exclude = [], childSelector = None, link = None,
                    selectedDelegation = None\<rparr>,
                 cRetrials = 1, cDelegations = m_dKeyLink c, cDelegationIndex = 0,
                 cValidationCallback =
                   DKeyValidated (EncryptedContentBlock enc)
                     (dKeyNameOf (keyLocator enc)) cb 9,
                 cErrorCallback = 9\<rparr>])"
    by simp_all
  have n': "dKeyNameOf e
      = [''p'', ''READ'', ''x'', ''D-KEY'', ''19700101T000000'', ''19700102T000000'']"
    using n t by simp
  have k: "keyLocator enc = e" by (simp add: enc_def)
  have r': "decryptCKey exampleLib c d cb 9
      = Inr (c,
             [SendInterest
                \<lparr>cInterest =
                   \<lparr>interestName = [''p'', ''READ'', ''x'', ''D-KEY'', ''19700101T000000'',
                                      ''19700102T000000'', ''FOR'', ''c''],
                    exclude = [], childSelector = None, link = None,
                    selectedDelegation = None\<rparr>,
                 cRetrials = 1, cDelegations = [(0, [''h''])], cDelegationIndex = 0,
                 cValidationCallback =
                   DKeyValidated (EncryptedContentBlock enc)
                     [''p'', ''READ'', ''x'', ''D-KEY'', ''19700101T000000'',
                      ''19700102T000000''] cb 9,
                 cErrorCallback = 9\<rparr>])"
    unfolding r k n' by (simp add: c_def NAME_COMPONENT_FOR_def)
  show ?thesis
    using l n' m [of "dKeyNameOf e"] r'
    unfolding e_def [symmetric] c_def [symmetric]
    unfolding d_def enc_def cb_def e_def c_def
    by simp
qed

end
